theory Spec2Isabelle
  imports Complex_Main "HOL-Library.AList" "HOL-Library.Sublist"
begin

section \<open>Python values, exceptions and dictionaries\<close>

text \<open>
  The scripts are Python. An exception is a class and the text \<open>str(e)\<close>; only the classes
  the scripts raise or catch by name are told apart. \<open>SystemExit\<close> and
  \<open>KeyboardInterrupt\<close> are the exceptions that \<^verbatim>\<open>except Exception\<close> does not catch.
  The texts of the exceptions the scripts raise themselves are shortened to their ASCII
  head: no branch of the scripts reads them.
\<close>

datatype exn_class =
  SystemExit | KeyboardInterrupt | ImportError | ValueError | KeyError | TypeError
  | AttributeError | RuntimeError | FileNotFoundError | RequestException | OtherException

datatype exn = Exn exn_class string

fun exn_class_of :: "exn \<Rightarrow> exn_class" where
  "exn_class_of (Exn c m) = c"

fun str_exn :: "exn \<Rightarrow> string" where
  "str_exn (Exn c m) = m"

definition is_Exception :: "exn \<Rightarrow> bool" where
  "is_Exception e = (exn_class_of e \<noteq> SystemExit \<and> exn_class_of e \<noteq> KeyboardInterrupt)"

text \<open>
  A value as \<open>json.loads\<close> and the speed-test library produce it: \<open>JInt\<close> is a
  Python \<open>int\<close>, \<open>JNum\<close> a \<open>float\<close>. Floats are modelled by rationals with exact
  arithmetic (NaN and the infinities are outside the model); a \<open>JObj\<close> lists the items
  of a dict, keys distinct, in insertion order.
\<close>

datatype json =
  JNull | JBool bool | JInt int | JNum rat | JStr string | JArr "json list"
  | JObj "(string \<times> json) list"

text \<open>
  A dict from strings to strings (a form payload, a table of field ids): its items in
  insertion order. \<open>d[k] = v\<close> is \<open>AList.update k v d\<close>, which overwrites in place
  or appends, as Python does; \<open>d[k]\<close> raises \<open>KeyError\<close> on a missing key.
\<close>

type_synonym pydict = "(string \<times> string) list"

definition getitem :: "pydict \<Rightarrow> string \<Rightarrow> exn + string" where
  "getitem d k = (case map_of d k of None \<Rightarrow> Inl (Exn KeyError k) | Some v \<Rightarrow> Inr v)"

definition dict_update :: "pydict \<Rightarrow> pydict \<Rightarrow> pydict" where
  "dict_update d e = foldl (\<lambda>acc kv. AList.update (fst kv) (snd kv) acc) d e"

text \<open>
  \<open>f"{v}"\<close>: a string is inserted as it is, \<open>None\<close> and the booleans by their names;
  the text of a number, a list or a dict is Python's \<open>repr\<close>, a parameter of the model.
\<close>

fun py_str :: "(json \<Rightarrow> string) \<Rightarrow> json \<Rightarrow> string" where
  "py_str repr (JStr s) = s"
| "py_str repr JNull = ''None''"
| "py_str repr (JBool b) = (if b then ''True'' else ''False'')"
| "py_str repr v = repr v"

section \<open>Configuration of the official-form script\<close>

text \<open>
  The user-configurable metadata at the head of
  \<^verbatim>\<open>submit_speed_and_send_official_autorun_v2.py\<close>. Arabic text is given by its UTF-8
  bytes. \<open>DEVICE_NAME\<close> comes from the environment of the process.
\<close>

record site_identity =
  SCHOOL_CODE :: string
  SCHOOL_SECTOR :: string
  SCHOOL_NAME :: string
  SERVICE_PROVIDER :: string
  LINE_NUMBER :: string
  SERVICE_TYPE :: string
  DEVICE_NAME :: string

definition sector_seeb :: string where
  "sector_seeb = [CHR 0xD8, CHR 0xA7, CHR 0xD9, CHR 0x84, CHR 0xD8, CHR 0xB3, CHR 0xD9, CHR 0x8A,
     CHR 0xD8, CHR 0xA8]"

definition provider_omantel :: string where
  "provider_omantel = [CHR 0xD8, CHR 0xB9, CHR 0xD9, CHR 0x85, CHR 0xD8, CHR 0xA7, CHR 0xD9, CHR 0x86,
     CHR 0xD8, CHR 0xAA, CHR 0xD9, CHR 0x84]"

definition service_fiber :: string where
  "service_fiber = [CHR 0xD9, CHR 0x81, CHR 0xD8, CHR 0xA7, CHR 0xD9, CHR 0x8A, CHR 0xD8, CHR 0xA8,
     CHR 0xD8, CHR 0xB1]"

definition service_5g :: string where
  "service_5g = [CHR 0xD8, CHR 0xA7, CHR 0xD9, CHR 0x84, CHR 0xD8, CHR 0xAC, CHR 0xD9, CHR 0x8A,
     CHR 0xD9, CHR 0x84] @ '' '' @ [CHR 0xD8, CHR 0xA7, CHR 0xD9, CHR 0x84, CHR 0xD8, CHR 0xAE,
     CHR 0xD8, CHR 0xA7, CHR 0xD9, CHR 0x85, CHR 0xD8, CHR 0xB3] @ '' 5 G''"

definition school_name_zahrawi :: string where
  "school_name_zahrawi = [CHR 0xD9, CHR 0x85, CHR 0xD8, CHR 0xAF, CHR 0xD8, CHR 0xB1, CHR 0xD8,
     CHR 0xB3, CHR 0xD8, CHR 0xA9] @ '' '' @ [CHR 0xD8, CHR 0xA7, CHR 0xD8, CHR 0xA8, CHR 0xD9,
     CHR 0x88] @ '' '' @ [CHR 0xD8, CHR 0xA7, CHR 0xD9, CHR 0x84, CHR 0xD9, CHR 0x82, CHR 0xD8,
     CHR 0xA7, CHR 0xD8, CHR 0xB3, CHR 0xD9, CHR 0x85] @ '' '' @ [CHR 0xD8, CHR 0xA7, CHR 0xD9,
     CHR 0x84, CHR 0xD8, CHR 0xB2, CHR 0xD9, CHR 0x87, CHR 0xD8, CHR 0xB1, CHR 0xD8, CHR 0xA7,
     CHR 0xD9, CHR 0x88, CHR 0xD9, CHR 0x8A]"

definition configured_identity :: "string \<Rightarrow> site_identity" where
  "configured_identity device =
     \<lparr>SCHOOL_CODE = ''1561'', SCHOOL_SECTOR = sector_seeb, SCHOOL_NAME = school_name_zahrawi,
      SERVICE_PROVIDER = provider_omantel, LINE_NUMBER = ''24424428'',
      SERVICE_TYPE = service_fiber, DEVICE_NAME = device\<rparr>"

definition ENTRY_SECTOR_ID :: string where
  "ENTRY_SECTOR_ID = ''entry.1313908626''"

definition ENTRY_PROVIDER_ID :: string where
  "ENTRY_PROVIDER_ID = ''entry.927675658''"

definition ENTRY_SERVICE_TYPE_ID :: string where
  "ENTRY_SERVICE_TYPE_ID = ''entry.66731299''"

definition ALLOWED_SECTORS :: "string list" where
  "ALLOWED_SECTORS =
     [[CHR 0xD9, CHR 0x85, CHR 0xD8, CHR 0xB3, CHR 0xD9, CHR 0x82, CHR 0xD8, CHR 0xB7],
      [CHR 0xD9, CHR 0x82, CHR 0xD8, CHR 0xB1, CHR 0xD9, CHR 0x8A, CHR 0xD8, CHR 0xA7, CHR 0xD8,
       CHR 0xAA],
      sector_seeb,
      [CHR 0xD8, CHR 0xA7, CHR 0xD9, CHR 0x84, CHR 0xD8, CHR 0xB9, CHR 0xD8, CHR 0xA7, CHR 0xD9,
       CHR 0x85, CHR 0xD8, CHR 0xB1, CHR 0xD8, CHR 0xA7, CHR 0xD8, CHR 0xAA],
      [CHR 0xD8, CHR 0xA8, CHR 0xD9, CHR 0x88, CHR 0xD8, CHR 0xB4, CHR 0xD8, CHR 0xB1],
      [CHR 0xD9, CHR 0x85, CHR 0xD8, CHR 0xB7, CHR 0xD8, CHR 0xB1, CHR 0xD8, CHR 0xAD]]"

definition ALLOWED_PROVIDERS :: "string list" where
  "ALLOWED_PROVIDERS =
     [provider_omantel,
      [CHR 0xD8, CHR 0xA3, CHR 0xD9, CHR 0x88, CHR 0xD8, CHR 0xB1, CHR 0xD9, CHR 0x8A, CHR 0xD8,
       CHR 0xAF, CHR 0xD9, CHR 0x88],
      [CHR 0xD8, CHR 0xA3, CHR 0xD9, CHR 0x88, CHR 0xD8, CHR 0xA7, CHR 0xD8, CHR 0xB5, CHR 0xD8,
       CHR 0xB1]]"

definition ALLOWED_SERVICE_TYPES :: "string list" where
  "ALLOWED_SERVICE_TYPES = [service_fiber, service_5g]"

definition ENTRY_TEXT_IDS :: pydict where
  "ENTRY_TEXT_IDS =
     [(''Q1_school_code'', ''entry.899161738''),
      (''X_A'', ''entry.560537791''),
      (''X_B'', ''entry.1862560773''),
      (''X_C'', ''entry.181224386''),
      (''X_D'', ''entry.556952249'')]"

text \<open>
  A candidate mapping is a dict with the four keys \<open>Q3_school_name\<close>,
  \<open>Q5_line_number\<close>, \<open>Q7_internet_speed\<close> and \<open>Q8_notes\<close>; each value names a key
  of \<open>ENTRY_TEXT_IDS\<close>.
\<close>

record field_mapping =
  Q3_school_name :: string
  Q5_line_number :: string
  Q7_internet_speed :: string
  Q8_notes :: string

definition TEXT_MAPPING_TRIES :: "field_mapping list" where
  "TEXT_MAPPING_TRIES =
     [\<lparr>Q3_school_name = ''X_A'', Q5_line_number = ''X_B'', Q7_internet_speed = ''X_C'',
       Q8_notes = ''X_D''\<rparr>,
      \<lparr>Q3_school_name = ''X_A'', Q5_line_number = ''X_B'', Q7_internet_speed = ''X_D'',
       Q8_notes = ''X_C''\<rparr>,
      \<lparr>Q3_school_name = ''X_B'', Q5_line_number = ''X_A'', Q7_internet_speed = ''X_C'',
       Q8_notes = ''X_D''\<rparr>]"

definition HIDDEN_CANDIDATES :: "pydict list" where
  "HIDDEN_CANDIDATES = [[], [(''fbzx'', ''8122308104194036559'')]]"

definition HIDDEN_ALWAYS :: pydict where
  "HIDDEN_ALWAYS = [(''fvv'', ''1''), (''pageHistory'', ''0'')]"

section \<open>Measurements\<close>

text \<open>
  The dict a measurement function returns, with its five keys. The values are what the
  probe delivered: numbers on the usual path, but \<open>upload\<close> is \<open>None\<close> and the server
  or the address any JSON value on some paths of the command-line fallback.
\<close>

record measurement =
  download :: json
  upload :: json
  ping :: json
  server :: json
  ip :: json

section \<open>Submission to the official form\<close>

text \<open>The labels of the notes text (UTF-8).\<close>

definition notes_text_of :: "site_identity \<Rightarrow> (json \<Rightarrow> string) \<Rightarrow> measurement \<Rightarrow> string \<Rightarrow> string" where
  "notes_text_of cfg repr results ts =
     [CHR 0xD8, CHR 0xAA, CHR 0xD9, CHR 0x86, CHR 0xD8, CHR 0xB2, CHR 0xD9, CHR 0x8A, CHR 0xD9,
      CHR 0x84] @ '': '' @ py_str repr (download results) @ '' Mbps | ''
     @ [CHR 0xD8, CHR 0xB1, CHR 0xD9, CHR 0x81, CHR 0xD8, CHR 0xB9] @ '': ''
     @ py_str repr (upload results) @ '' Mbps | ''
     @ ''Ping: '' @ py_str repr (ping results) @ '' ms | ''
     @ [CHR 0xD8, CHR 0xA7, CHR 0xD9, CHR 0x84, CHR 0xD8, CHR 0xB3, CHR 0xD9, CHR 0x8A, CHR 0xD8,
        CHR 0xB1, CHR 0xD9, CHR 0x81, CHR 0xD8, CHR 0xB1] @ '': '' @ py_str repr (server results)
     @ '' | '' @ ''IP: '' @ py_str repr (ip results) @ '' | ''
     @ [CHR 0xD8, CHR 0xA7, CHR 0xD9, CHR 0x84, CHR 0xD8, CHR 0xAC, CHR 0xD9, CHR 0x87, CHR 0xD8,
        CHR 0xA7, CHR 0xD8, CHR 0xB2] @ '': '' @ DEVICE_NAME cfg @ '' | ''
     @ [CHR 0xD8, CHR 0xA7, CHR 0xD9, CHR 0x84, CHR 0xD8, CHR 0xAA, CHR 0xD8, CHR 0xA7, CHR 0xD8,
        CHR 0xB1, CHR 0xD9, CHR 0x8A, CHR 0xD8, CHR 0xAE] @ ''/''
     @ [CHR 0xD8, CHR 0xA7, CHR 0xD9, CHR 0x84, CHR 0xD9, CHR 0x88, CHR 0xD9, CHR 0x82, CHR 0xD8,
        CHR 0xAA] @ '': '' @ ts"

definition build_payload_base ::
  "site_identity \<Rightarrow> (json \<Rightarrow> string) \<Rightarrow> measurement \<Rightarrow> string \<Rightarrow> exn + (pydict \<times> string)" where
  "build_payload_base cfg repr results ts =
     (if SCHOOL_SECTOR cfg \<notin> set ALLOWED_SECTORS then Inl (Exn ValueError ''Invalid sector'')
      else if SERVICE_PROVIDER cfg \<notin> set ALLOWED_PROVIDERS
        then Inl (Exn ValueError ''Invalid provider'')
      else if SERVICE_TYPE cfg \<notin> set ALLOWED_SERVICE_TYPES
        then Inl (Exn ValueError ''Invalid service type'')
      else
        (case getitem ENTRY_TEXT_IDS ''Q1_school_code'' of
           Inl e \<Rightarrow> Inl e
         | Inr q1_id \<Rightarrow>
             Inr (dict_update []
                    [(q1_id, SCHOOL_CODE cfg),
                     (ENTRY_SECTOR_ID, SCHOOL_SECTOR cfg),
                     (ENTRY_PROVIDER_ID, SERVICE_PROVIDER cfg),
                     (ENTRY_SERVICE_TYPE_ID, SERVICE_TYPE cfg)],
                  notes_text_of cfg repr results ts)))"

text \<open>
  Lines 210 to 222 of \<open>try_submit_with_mapping\<close>: the payload of one attempt, or the
  exception raised before any request is sent.
\<close>

definition attempt_payload ::
  "site_identity \<Rightarrow> (json \<Rightarrow> string) \<Rightarrow> field_mapping \<Rightarrow> pydict \<Rightarrow> measurement \<Rightarrow> string
    \<Rightarrow> exn + pydict" where
  "attempt_payload cfg repr mapping hidden_extra results ts =
     (case build_payload_base cfg repr results ts of
        Inl e \<Rightarrow> Inl e
      | Inr (base, notes_text) \<Rightarrow>
     (case getitem ENTRY_TEXT_IDS (Q3_school_name mapping) of
        Inl e \<Rightarrow> Inl e
      | Inr q3_id \<Rightarrow>
     (case getitem ENTRY_TEXT_IDS (Q5_line_number mapping) of
        Inl e \<Rightarrow> Inl e
      | Inr q5_id \<Rightarrow>
     (case getitem ENTRY_TEXT_IDS (Q7_internet_speed mapping) of
        Inl e \<Rightarrow> Inl e
      | Inr q7_id \<Rightarrow>
     (case getitem ENTRY_TEXT_IDS (Q8_notes mapping) of
        Inl e \<Rightarrow> Inl e
      | Inr q8_id \<Rightarrow>
          (let payload = base;
               payload = AList.update q3_id (SCHOOL_NAME cfg) payload;
               payload = AList.update q5_id (LINE_NUMBER cfg) payload;
               payload = AList.update q7_id (py_str repr (download results) @ '' Mbps'') payload;
               payload = AList.update q8_id notes_text payload;
               payload = dict_update payload HIDDEN_ALWAYS;
               payload = dict_update payload hidden_extra
           in Inr payload))))))"

text \<open>
  The remote endpoint: what \<open>requests.post(FORM_ACTION_URL, data=payload, headers=headers,
  timeout=30)\<close> does with a payload. It answers with a status code and a body, or the call
  raises (connection error, timeout).
\<close>

datatype http_result = Response int string | PostRaised exn

definition try_submit_with_mapping ::
  "site_identity \<Rightarrow> (json \<Rightarrow> string) \<Rightarrow> (pydict \<Rightarrow> http_result) \<Rightarrow> field_mapping \<Rightarrow> pydict
    \<Rightarrow> measurement \<Rightarrow> string \<Rightarrow> exn + (bool \<times> int \<times> string)" where
  "try_submit_with_mapping cfg repr post mapping hidden_extra results ts =
     (case attempt_payload cfg repr mapping hidden_extra results ts of
        Inl e \<Rightarrow> Inl e
      | Inr payload \<Rightarrow>
          (case post payload of
             PostRaised e \<Rightarrow> Inl e
           | Response status_code text \<Rightarrow>
               Inr (status_code = 200 \<or> status_code = 302, status_code, take 500 text)))"

text \<open>
  \<open>submit_official\<close>: two nested loops with an early return. Each loop is a recursive
  function over what is left of its list; it carries \<open>last_status\<close> and, as a record of
  what was done, the list of the combinations for which \<open>requests.post\<close> has been
  called so far, oldest first. A loop ends by exhausting its list (\<open>LoopDone\<close>), by
  the early return or by an exception.
\<close>

definition posted ::
  "site_identity \<Rightarrow> (json \<Rightarrow> string) \<Rightarrow> field_mapping \<Rightarrow> pydict \<Rightarrow> measurement \<Rightarrow> string
    \<Rightarrow> (field_mapping \<times> pydict) list" where
  "posted cfg repr mapping hidden results ts =
     (case attempt_payload cfg repr mapping hidden results ts of
        Inl e \<Rightarrow> []
      | Inr payload \<Rightarrow> [(mapping, hidden)])"

type_synonym last_status = "bool \<times> int option \<times> string"

type_synonym submit_result = "bool \<times> int option \<times> string \<times> field_mapping option \<times> pydict option"

datatype loop_end = LoopDone last_status | LoopReturn submit_result | LoopRaise exn

fun hidden_loop ::
  "site_identity \<Rightarrow> (json \<Rightarrow> string) \<Rightarrow> (pydict \<Rightarrow> http_result) \<Rightarrow> measurement \<Rightarrow> string
    \<Rightarrow> field_mapping \<Rightarrow> pydict list \<Rightarrow> last_status \<Rightarrow> (field_mapping \<times> pydict) list
    \<Rightarrow> (field_mapping \<times> pydict) list \<times> loop_end" where
  "hidden_loop cfg repr post results ts mapping [] last_status tried = (tried, LoopDone last_status)"
| "hidden_loop cfg repr post results ts mapping (hidden # rest) last_status tried =
     (case try_submit_with_mapping cfg repr post mapping hidden results ts of
        Inl e \<Rightarrow> (tried @ posted cfg repr mapping hidden results ts, LoopRaise e)
      | Inr (ok, code, preview) \<Rightarrow>
          if ok then (tried @ [(mapping, hidden)],
                      LoopReturn (True, Some code, preview, Some mapping, Some hidden))
          else hidden_loop cfg repr post results ts mapping rest (ok, Some code, preview)
                 (tried @ [(mapping, hidden)]))"

fun mapping_loop ::
  "site_identity \<Rightarrow> (json \<Rightarrow> string) \<Rightarrow> (pydict \<Rightarrow> http_result) \<Rightarrow> measurement \<Rightarrow> string
    \<Rightarrow> pydict list \<Rightarrow> field_mapping list \<Rightarrow> last_status \<Rightarrow> (field_mapping \<times> pydict) list
    \<Rightarrow> (field_mapping \<times> pydict) list \<times> loop_end" where
  "mapping_loop cfg repr post results ts hiddens [] last_status tried = (tried, LoopDone last_status)"
| "mapping_loop cfg repr post results ts hiddens (mapping # rest) last_status tried =
     (case hidden_loop cfg repr post results ts mapping hiddens last_status tried of
        (tried', LoopDone last_status') \<Rightarrow>
          mapping_loop cfg repr post results ts hiddens rest last_status' tried'
      | (tried', LoopReturn r) \<Rightarrow> (tried', LoopReturn r)
      | (tried', LoopRaise e) \<Rightarrow> (tried', LoopRaise e))"

text \<open>
  The result is the list of combinations posted, and what the call does: it raises, or it
  returns \<open>(ok, code, preview, used_mapping, used_hidden)\<close>.
\<close>

definition submit_official ::
  "site_identity \<Rightarrow> (json \<Rightarrow> string) \<Rightarrow> (pydict \<Rightarrow> http_result) \<Rightarrow> measurement \<Rightarrow> string
    \<Rightarrow> (field_mapping \<times> pydict) list \<times> (exn + submit_result)" where
  "submit_official cfg repr post results ts =
     (case mapping_loop cfg repr post results ts HIDDEN_CANDIDATES TEXT_MAPPING_TRIES
             (False, None, '''') [] of
        (tried, LoopReturn r) \<Rightarrow> (tried, Inr r)
      | (tried, LoopRaise e) \<Rightarrow> (tried, Inl e)
      | (tried, LoopDone last_status) \<Rightarrow>
          (tried, Inr (False, fst (snd last_status), snd (snd last_status), None, None)))"

definition ranked_combinations :: "(field_mapping \<times> pydict) list" where
  "ranked_combinations = List.product TEXT_MAPPING_TRIES HIDDEN_CANDIDATES"

text \<open>
  For stating what the engine does: the answer of the endpoint to the request of one
  combination (\<open>None\<close> when the payload cannot be built, so that no request is made),
  whether that request is answered at all, and whether it is answered with status 200 or
  302.
\<close>

definition response ::
  "site_identity \<Rightarrow> (json \<Rightarrow> string) \<Rightarrow> (pydict \<Rightarrow> http_result) \<Rightarrow> measurement \<Rightarrow> string
    \<Rightarrow> field_mapping \<times> pydict \<Rightarrow> http_result option" where
  "response cfg repr post results ts c =
     (case attempt_payload cfg repr (fst c) (snd c) results ts of
        Inl e \<Rightarrow> None
      | Inr payload \<Rightarrow> Some (post payload))"

definition accepted ::
  "site_identity \<Rightarrow> (json \<Rightarrow> string) \<Rightarrow> (pydict \<Rightarrow> http_result) \<Rightarrow> measurement \<Rightarrow> string
    \<Rightarrow> field_mapping \<times> pydict \<Rightarrow> bool" where
  "accepted cfg repr post results ts c =
     (case response cfg repr post results ts c of
        Some (Response status body) \<Rightarrow> status = 200 \<or> status = 302
      | Some (PostRaised e) \<Rightarrow> False
      | None \<Rightarrow> False)"

definition answered ::
  "site_identity \<Rightarrow> (json \<Rightarrow> string) \<Rightarrow> (pydict \<Rightarrow> http_result) \<Rightarrow> measurement \<Rightarrow> string
    \<Rightarrow> field_mapping \<times> pydict \<Rightarrow> bool" where
  "answered cfg repr post results ts c =
     (case response cfg repr post results ts c of
        Some (Response status body) \<Rightarrow> True
      | Some (PostRaised e) \<Rightarrow> False
      | None \<Rightarrow> False)"

fun scan ::
  "site_identity \<Rightarrow> (json \<Rightarrow> string) \<Rightarrow> (pydict \<Rightarrow> http_result) \<Rightarrow> measurement \<Rightarrow> string
    \<Rightarrow> (field_mapping \<times> pydict) list \<Rightarrow> last_status \<Rightarrow> (field_mapping \<times> pydict) list
    \<Rightarrow> (field_mapping \<times> pydict) list \<times> loop_end" where
  "scan cfg repr post results ts [] last_status tried = (tried, LoopDone last_status)"
| "scan cfg repr post results ts (c # rest) last_status tried =
     (case try_submit_with_mapping cfg repr post (fst c) (snd c) results ts of
        Inl e \<Rightarrow> (tried @ posted cfg repr (fst c) (snd c) results ts, LoopRaise e)
      | Inr (ok, code, preview) \<Rightarrow>
          if ok then (tried @ [c], LoopReturn (True, Some code, preview, Some (fst c), Some (snd c)))
          else scan cfg repr post results ts rest (ok, Some code, preview) (tried @ [c]))"

section \<open>The experimental-form script\<close>

text \<open>
  \<^verbatim>\<open>submit_speed_and_send_autorun.py\<close> posts to a form whose field ids are known, so
  it has one payload and no mapping search. Its metadata, its sectors and its providers
  are those of the official-form script; its second service type is spelled with the
  digit last.
\<close>

definition bind_exn :: "exn + 'a \<Rightarrow> ('a \<Rightarrow> exn + 'b) \<Rightarrow> exn + 'b" where
  "bind_exn r f = (case r of Inl e \<Rightarrow> Inl e | Inr v \<Rightarrow> f v)"

definition ENTRY_IDS :: pydict where
  "ENTRY_IDS =
     [(''school_code'', ''entry.413551861''),
      (''sector'', ''entry.2132382965''),
      (''school_name'', ''entry.256332732''),
      (''provider'', ''entry.1818381540''),
      (''line_number'', ''entry.1211366125''),
      (''service_type'', ''entry.230321102''),
      (''internet_speed'', ''entry.1693223006''),
      (''notes'', ''entry.1576525453'')]"

definition HIDDEN_BASE :: pydict where
  "HIDDEN_BASE = [(''fvv'', ''1''), (''pageHistory'', ''0''), (''fbzx'', ''-7716787293459453204'')]"

definition service_5g_autorun :: string where
  "service_5g_autorun = [CHR 0xD8, CHR 0xA7, CHR 0xD9, CHR 0x84, CHR 0xD8, CHR 0xAC, CHR 0xD9,
     CHR 0x8A, CHR 0xD9, CHR 0x84] @ '' '' @ [CHR 0xD8, CHR 0xA7, CHR 0xD9, CHR 0x84, CHR 0xD8,
     CHR 0xAE, CHR 0xD8, CHR 0xA7, CHR 0xD9, CHR 0x85, CHR 0xD8, CHR 0xB3] @ '' G 5''"

definition ALLOWED_SERVICE_TYPES_autorun :: "string list" where
  "ALLOWED_SERVICE_TYPES_autorun = [service_fiber, service_5g_autorun]"

definition build_payload ::
  "site_identity \<Rightarrow> (json \<Rightarrow> string) \<Rightarrow> measurement \<Rightarrow> string \<Rightarrow> exn + pydict" where
  "build_payload cfg repr results timestamp =
     (if SCHOOL_SECTOR cfg \<notin> set ALLOWED_SECTORS then Inl (Exn ValueError ''Invalid sector'')
      else if SERVICE_PROVIDER cfg \<notin> set ALLOWED_PROVIDERS
        then Inl (Exn ValueError ''Invalid provider'')
      else if SERVICE_TYPE cfg \<notin> set ALLOWED_SERVICE_TYPES_autorun
        then Inl (Exn ValueError ''Invalid service type'')
      else
        (let notes_text = notes_text_of cfg repr results timestamp in
         bind_exn (getitem ENTRY_IDS ''school_code'') (\<lambda>k1.
         bind_exn (getitem ENTRY_IDS ''sector'') (\<lambda>k2.
         bind_exn (getitem ENTRY_IDS ''school_name'') (\<lambda>k3.
         bind_exn (getitem ENTRY_IDS ''provider'') (\<lambda>k4.
         bind_exn (getitem ENTRY_IDS ''line_number'') (\<lambda>k5.
         bind_exn (getitem ENTRY_IDS ''service_type'') (\<lambda>k6.
         bind_exn (getitem ENTRY_IDS ''internet_speed'') (\<lambda>k7.
         bind_exn (getitem ENTRY_IDS ''notes'') (\<lambda>k8.
           Inr (dict_update
                  (dict_update []
                     [(k1, SCHOOL_CODE cfg),
                      (k2, SCHOOL_SECTOR cfg),
                      (k3, SCHOOL_NAME cfg),
                      (k4, SERVICE_PROVIDER cfg),
                      (k5, LINE_NUMBER cfg),
                      (k6, SERVICE_TYPE cfg),
                      (k7, py_str repr (download results) @ '' Mbps''),
                      (k8, notes_text)])
                  HIDDEN_BASE)))))))))))"

text \<open>
  \<open>submit_form\<close>: the payload, then the payload without \<open>fbzx\<close>. The request sits in
  a \<^verbatim>\<open>try\<close> whose handler \<^verbatim>\<open>except Exception\<close> keeps the text of the exception as
  the preview and lets the loop go on. The result lists the payloads posted, oldest first.
\<close>

fun submit_form_loop ::
  "(pydict \<Rightarrow> http_result) \<Rightarrow> pydict list \<Rightarrow> int option \<Rightarrow> string \<Rightarrow> pydict list
    \<Rightarrow> pydict list \<times> (exn + (bool \<times> int option \<times> string))" where
  "submit_form_loop post [] last_code last_preview sent = (sent, Inr (False, last_code, last_preview))"
| "submit_form_loop post (variant # rest) last_code last_preview sent =
     (case post variant of
        Response status_code text \<Rightarrow>
          if status_code = 200 \<or> status_code = 302
          then (sent @ [variant], Inr (True, Some status_code, take 500 text))
          else submit_form_loop post rest (Some status_code) (take 500 text) (sent @ [variant])
      | PostRaised e \<Rightarrow>
          if is_Exception e
          then submit_form_loop post rest last_code (str_exn e) (sent @ [variant])
          else (sent @ [variant], Inl e))"

definition submit_form ::
  "(pydict \<Rightarrow> http_result) \<Rightarrow> pydict \<Rightarrow> pydict list \<times> (exn + (bool \<times> int option \<times> string))" where
  "submit_form post payload =
     submit_form_loop post [payload, filter (\<lambda>kv. fst kv \<noteq> ''fbzx'') payload] None '''' []"

section \<open>Speed measurement\<close>

text \<open>
  What the functions do besides returning is kept as a list of events, oldest first: the
  attempts of the in-process probe, the pauses (\<open>time.sleep\<close>, in seconds), the call
  of the command-line fallback and the executables it runs; further on, the calls of
  \<open>run_once\<close> with the label and the wall clock at the call, the call of
  \<open>ensure_log_header\<close>, the combinations posted and the rows appended to the log.
\<close>

datatype event =
  Probe nat | Sleep rat | Fallback | Exec string
  | Run string rat | Header | Post field_mapping pydict | Append "json list"

text \<open>
  \<open>round(x, 2)\<close> on a float: to the nearest multiple of 0.01, a tie going to the even
  neighbour.
\<close>

definition py_round2 :: "rat \<Rightarrow> rat" where
  "py_round2 x =
     (let y = x * 100; f = \<lfloor>y\<rfloor>; d = y - of_int f
      in (if d < 1 / 2 then of_int f
          else if 1 / 2 < d then of_int (f + 1)
          else if even f then of_int f
          else of_int (f + 1)) / 100)"

subsection \<open>The in-process probe with retries\<close>

text \<open>
  One pass through the \<^verbatim>\<open>try\<close> body of \<open>measure_speed_python\<close> is one run of the
  speed-test library. It raises before the half-second pause (constructor, server
  selection, download), or after it (upload and the later calls), or it delivers the raw
  figures: download and upload in bit/s, the ping in ms, and the \<open>host\<close> and \<open>ip\<close>
  entries of the library's dicts where present.
\<close>

record raw_probe =
  download_bps :: rat
  upload_bps :: rat
  ping_raw :: rat
  best_host :: "json option"
  client_ip :: "json option"

datatype probe_outcome = ProbeRaisedEarly exn | ProbeRaisedLate exn | ProbeDone raw_probe

definition measurement_of :: "raw_probe \<Rightarrow> measurement" where
  "measurement_of raw =
     \<lparr>download = JNum (py_round2 (download_bps raw / 1000000)),
      upload = JNum (py_round2 (upload_bps raw / 1000000)),
      ping = JNum (py_round2 (ping_raw raw)),
      server = (case best_host raw of None \<Rightarrow> JStr ''unknown'' | Some v \<Rightarrow> v),
      ip = (case client_ip raw of None \<Rightarrow> JStr ''unknown'' | Some v \<Rightarrow> v)\<rparr>"

text \<open>The handler's choice of the pause, from the text of the exception.\<close>

definition retry_wait :: "nat \<Rightarrow> nat \<Rightarrow> exn \<Rightarrow> rat" where
  "retry_wait backoff attempt e =
     (if sublist ''403'' (str_exn e) \<or> sublist ''ConfigRetrievalError'' (str_exn e)
      then of_nat (backoff * attempt)
      else 5)"

text \<open>
  The loop \<^verbatim>\<open>for attempt in range(1, max_attempts + 1)\<close>, over what is left of the
  range. \<^verbatim>\<open>except Exception\<close> lets \<open>SystemExit\<close> and \<open>KeyboardInterrupt\<close> through.
  After the loop \<^verbatim>\<open>raise last_err\<close> raises the last exception kept, or a \<open>TypeError\<close>
  when there is none (\<open>last_err\<close> is still \<open>None\<close>).
\<close>

fun attempts_loop ::
  "(nat \<Rightarrow> probe_outcome) \<Rightarrow> nat \<Rightarrow> nat list \<Rightarrow> exn option \<Rightarrow> event list
    \<Rightarrow> event list \<times> (exn + measurement)" where
  "attempts_loop probe backoff [] last_err evs =
     (evs, Inl (case last_err of
                  Some e \<Rightarrow> e
                | None \<Rightarrow> Exn TypeError ''exceptions must derive from BaseException''))"
| "attempts_loop probe backoff (attempt # rest) last_err evs =
     (case probe attempt of
        ProbeDone raw \<Rightarrow> (evs @ [Probe attempt, Sleep (1 / 2)], Inr (measurement_of raw))
      | ProbeRaisedEarly e \<Rightarrow>
          if is_Exception e
          then attempts_loop probe backoff rest (Some e)
                 (evs @ [Probe attempt, Sleep (retry_wait backoff attempt e)])
          else (evs @ [Probe attempt], Inl e)
      | ProbeRaisedLate e \<Rightarrow>
          if is_Exception e
          then attempts_loop probe backoff rest (Some e)
                 (evs @ [Probe attempt, Sleep (1 / 2), Sleep (retry_wait backoff attempt e)])
          else (evs @ [Probe attempt, Sleep (1 / 2)], Inl e))"

text \<open>
  \<open>measure_speed_python\<close> starts with \<^verbatim>\<open>import speedtest\<close> in a \<^verbatim>\<open>try\<close> whose only
  handler is \<^verbatim>\<open>except ImportError\<close>. \<open>imported\<close> is what the import raises, if
  anything: an \<open>ImportError\<close> (the class stands for its subclasses too) is replaced by
  \<open>SystemExit\<close>; any other exception of the import leaves the function as it is,
  before the first attempt.
\<close>

definition measure_speed_python ::
  "exn option \<Rightarrow> (nat \<Rightarrow> probe_outcome) \<Rightarrow> nat \<Rightarrow> nat \<Rightarrow> event list \<times> (exn + measurement)" where
  "measure_speed_python imported probe max_attempts backoff =
     (case imported of
        Some e \<Rightarrow>
          if exn_class_of e = ImportError
          then ([], Inl (Exn SystemExit ''Missing dependency: speedtest-cli.''))
          else ([], Inl e)
      | None \<Rightarrow> attempts_loop probe backoff [1 ..< max_attempts + 1] None [])"

subsection \<open>The command-line fallback\<close>

text \<open>Python's operations on a value of unknown type, with the exceptions they raise.\<close>

fun truthy :: "json \<Rightarrow> bool" where
  "truthy JNull = False"
| "truthy (JBool b) = b"
| "truthy (JInt i) = (i \<noteq> 0)"
| "truthy (JNum r) = (r \<noteq> 0)"
| "truthy (JStr s) = (s \<noteq> [])"
| "truthy (JArr xs) = (xs \<noteq> [])"
| "truthy (JObj kvs) = (kvs \<noteq> [])"

text \<open>\<open>k in data\<close>: a key of a dict, an element of a list, a substring of a string.\<close>

fun py_contains :: "json \<Rightarrow> string \<Rightarrow> exn + bool" where
  "py_contains (JObj kvs) k = Inr (k \<in> fst ` set kvs)"
| "py_contains (JArr xs) k = Inr (JStr k \<in> set xs)"
| "py_contains (JStr s) k = Inr (sublist k s)"
| "py_contains v k = Inl (Exn TypeError ''argument is not iterable'')"

text \<open>\<open>all(k in data for k in keys)\<close> stops at the first key that is missing.\<close>

fun all_in :: "json \<Rightarrow> string list \<Rightarrow> exn + bool" where
  "all_in data [] = Inr True"
| "all_in data (k # ks) =
     (case py_contains data k of
        Inl e \<Rightarrow> Inl e
      | Inr b \<Rightarrow> if b then all_in data ks else Inr False)"

text \<open>\<open>data[k]\<close> with a string \<open>k\<close>.\<close>

fun py_getitem :: "json \<Rightarrow> string \<Rightarrow> exn + json" where
  "py_getitem (JObj kvs) k =
     (case map_of kvs k of None \<Rightarrow> Inl (Exn KeyError k) | Some v \<Rightarrow> Inr v)"
| "py_getitem v k = Inl (Exn TypeError ''indices must be integers'')"

text \<open>\<open>data.get(k, default)\<close>: only a dict has the method.\<close>

fun py_get :: "json \<Rightarrow> string \<Rightarrow> json \<Rightarrow> exn + json" where
  "py_get (JObj kvs) k dflt = Inr (case map_of kvs k of None \<Rightarrow> dflt | Some v \<Rightarrow> v)"
| "py_get v k dflt = Inl (Exn AttributeError ''object has no attribute get'')"

text \<open>
  \<open>float(v)\<close>. What \<open>float\<close> reads from a string is a parameter (\<open>None\<close>: it raises
  \<open>ValueError\<close>).
\<close>

fun py_float :: "(string \<Rightarrow> rat option) \<Rightarrow> json \<Rightarrow> exn + rat" where
  "py_float float_str (JNum r) = Inr r"
| "py_float float_str (JInt i) = Inr (of_int i)"
| "py_float float_str (JBool b) = Inr (if b then 1 else 0)"
| "py_float float_str (JStr s) =
     (case float_str s of
        None \<Rightarrow> Inl (Exn ValueError ''could not convert string to float'')
      | Some r \<Rightarrow> Inr r)"
| "py_float float_str v = Inl (Exn TypeError ''float() argument must be a string or a real number'')"

text \<open>
  \<open>v * 8\<close> followed by a division by a number: defined for a number (a boolean counts
  as 0 or 1); a string or a list is repeated by \<open>*\<close> and then cannot be divided, a
  dict or \<open>None\<close> cannot be multiplied.
\<close>

fun py_number :: "json \<Rightarrow> exn + rat" where
  "py_number (JNum r) = Inr r"
| "py_number (JInt i) = Inr (of_int i)"
| "py_number (JBool b) = Inr (if b then 1 else 0)"
| "py_number v = Inl (Exn TypeError ''unsupported operand type(s)'')"

text \<open>\<open>isinstance(v, (int, float))\<close>; \<open>bool\<close> is a subclass of \<open>int\<close>.\<close>

fun is_int_or_float :: "json \<Rightarrow> bool" where
  "is_int_or_float (JNum r) = True"
| "is_int_or_float (JInt i) = True"
| "is_int_or_float (JBool b) = True"
| "is_int_or_float v = False"

text \<open>\<open>s.strip()\<close>, for the ASCII white space.\<close>

definition py_space :: "char \<Rightarrow> bool" where
  "py_space c = (c \<in> set [CHR '' '', CHR 0x09, CHR 0x0A, CHR 0x0B, CHR 0x0C, CHR 0x0D,
                          CHR 0x1C, CHR 0x1D, CHR 0x1E, CHR 0x1F])"

definition py_strip :: "string \<Rightarrow> string" where
  "py_strip s = rev (dropWhile py_space (rev (dropWhile py_space s)))"

text \<open>
  The branch for the JSON of \<open>speedtest-cli\<close> (flat: bandwidths in bit/s), lines 131 to
  136.
\<close>

definition parse_flat :: "(string \<Rightarrow> rat option) \<Rightarrow> (json \<Rightarrow> string) \<Rightarrow> json \<Rightarrow> exn + measurement" where
  "parse_flat float_str repr data =
     bind_exn (py_getitem data ''download'') (\<lambda>d.
     bind_exn (py_float float_str d) (\<lambda>dl.
     bind_exn (py_getitem data ''upload'') (\<lambda>u.
     bind_exn (py_float float_str u) (\<lambda>ul.
     bind_exn (py_getitem data ''ping'') (\<lambda>p.
     bind_exn (py_float float_str p) (\<lambda>pg.
     bind_exn (py_getitem data ''server'') (\<lambda>srv.
     bind_exn (py_get srv ''host'' JNull) (\<lambda>host.
     bind_exn (if truthy host then Inr host
               else bind_exn (py_getitem data ''server'') (\<lambda>srv'.
                    bind_exn (py_get srv' ''name'' (JStr '''')) (\<lambda>name.
                      Inr (JStr (py_strip (py_str repr name)))))) (\<lambda>server_host.
     bind_exn (py_getitem data ''client'') (\<lambda>cl.
     bind_exn (py_get cl ''ip'' (JStr ''unknown'')) (\<lambda>ip_addr.
       Inr \<lparr>download = JNum (py_round2 (dl / 1000000)),
            upload = JNum (py_round2 (ul / 1000000)),
            ping = JNum (py_round2 pg),
            server = (if truthy server_host then server_host else JStr ''unknown''),
            ip = ip_addr\<rparr>)))))))))))"

text \<open>
  The branch for the JSON of the Ookla client (nested: bandwidths in byte/s), lines 139
  to 147. \<open>None\<close>: the inner condition fails and the function falls through to the next
  executable.
\<close>

definition sub_field :: "json \<Rightarrow> string \<Rightarrow> string \<Rightarrow> exn + json" where
  "sub_field data k f = bind_exn (py_get data k (JObj [])) (\<lambda>sub. py_get sub f JNull)"

definition sub_field_or :: "json \<Rightarrow> string \<Rightarrow> string \<Rightarrow> exn + json" where
  "sub_field_or data k f =
     bind_exn (py_get data k (JObj [])) (\<lambda>sub.
       py_get (if truthy sub then sub else JObj []) f (JStr ''unknown''))"

definition parse_ookla ::
  "(string \<Rightarrow> rat option) \<Rightarrow> json \<Rightarrow> exn + measurement option" where
  "parse_ookla float_str data =
     bind_exn (sub_field data ''download'' ''bandwidth'') (\<lambda>dl.
     bind_exn (sub_field data ''upload'' ''bandwidth'') (\<lambda>ul.
     bind_exn (sub_field data ''ping'' ''latency'') (\<lambda>ping_ms.
       if truthy dl \<and> truthy ul \<and> ping_ms \<noteq> JNull then
         bind_exn (py_number dl) (\<lambda>dl_n.
         bind_exn (if is_int_or_float ul
                   then bind_exn (py_number ul) (\<lambda>ul_n.
                          Inr (JNum (py_round2 (ul_n * 8 * 8 / 1000000))))
                   else Inr JNull) (\<lambda>upload_mbps.
         bind_exn (sub_field_or data ''server'' ''host'') (\<lambda>server_host.
         bind_exn (sub_field_or data ''interface'' ''externalIp'') (\<lambda>ip_addr.
         bind_exn (py_float float_str ping_ms) (\<lambda>pg.
           Inr (Some \<lparr>download = JNum (py_round2 (dl_n * 8 / 1000000)),
                      upload = upload_mbps,
                      ping = JNum (py_round2 pg),
                      server = server_host,
                      ip = ip_addr\<rparr>))))))
       else Inr None)))"

text \<open>What follows \<open>json.loads\<close> inside the \<^verbatim>\<open>try\<close>, lines 130 to 147.\<close>

definition parse_probe_output ::
  "(string \<Rightarrow> rat option) \<Rightarrow> (json \<Rightarrow> string) \<Rightarrow> json \<Rightarrow> exn + measurement option" where
  "parse_probe_output float_str repr data =
     bind_exn (all_in data [''download'', ''upload'', ''ping'', ''server'', ''client'']) (\<lambda>flat.
       if flat then bind_exn (parse_flat float_str repr data) (\<lambda>m. Inr (Some m))
       else
         bind_exn (py_get data ''type'' JNull) (\<lambda>ty.
           if ty = JStr ''result'' then parse_ookla float_str data else Inr None))"

text \<open>
  The external process: \<open>subprocess.run([exe, "--json"], ...)\<close> raises (the executable
  is missing, the timeout expires) or completes with a return code and its standard
  output; \<open>json.loads\<close> is a parameter. Every exception that the \<^verbatim>\<open>try\<close> body of
  \<open>measure_speed_cli\<close> raises by itself is an \<open>Exception\<close>: the loop goes on to the
  next executable. After the loop the function raises \<open>RuntimeError\<close>.
\<close>

datatype proc_outcome = ProcRaised exn | Completed int string

fun cli_loop ::
  "(string \<Rightarrow> proc_outcome) \<Rightarrow> (string \<Rightarrow> exn + json) \<Rightarrow> (string \<Rightarrow> rat option) \<Rightarrow> (json \<Rightarrow> string)
    \<Rightarrow> string list \<Rightarrow> event list \<Rightarrow> event list \<times> (exn + measurement)" where
  "cli_loop run_cli loads float_str repr [] evs =
     (evs, Inl (Exn RuntimeError ''speedtest CLI''))"
| "cli_loop run_cli loads float_str repr (exe # rest) evs =
     (case run_cli exe of
        ProcRaised e \<Rightarrow>
          if is_Exception e then cli_loop run_cli loads float_str repr rest (evs @ [Exec exe])
          else (evs @ [Exec exe], Inl e)
      | Completed returncode stdout \<Rightarrow>
          if returncode = 0 \<and> stdout \<noteq> [] then
            (case bind_exn (loads stdout) (parse_probe_output float_str repr) of
               Inr (Some m) \<Rightarrow> (evs @ [Exec exe], Inr m)
             | Inr None \<Rightarrow> cli_loop run_cli loads float_str repr rest (evs @ [Exec exe])
             | Inl e \<Rightarrow>
                 if is_Exception e then cli_loop run_cli loads float_str repr rest (evs @ [Exec exe])
                 else (evs @ [Exec exe], Inl e))
          else cli_loop run_cli loads float_str repr rest (evs @ [Exec exe]))"

definition measure_speed_cli ::
  "(string \<Rightarrow> proc_outcome) \<Rightarrow> (string \<Rightarrow> exn + json) \<Rightarrow> (string \<Rightarrow> rat option) \<Rightarrow> (json \<Rightarrow> string)
    \<Rightarrow> event list \<times> (exn + measurement)" where
  "measure_speed_cli run_cli loads float_str repr =
     cli_loop run_cli loads float_str repr [''speedtest'', ''speedtest.exe''] []"

subsection \<open>The composed measurement\<close>

text \<open>
  Everything outside the program that a measurement depends on: what importing the
  speed-test module raises (\<open>None\<close>: the import succeeds), what the in-process probe
  does at each attempt, what the external executables do, and the three library
  functions kept as parameters.
\<close>

record probes =
  probe_import :: "exn option"
  probe_attempt :: "nat \<Rightarrow> probe_outcome"
  probe_run_cli :: "string \<Rightarrow> proc_outcome"
  probe_loads :: "string \<Rightarrow> exn + json"
  probe_float_str :: "string \<Rightarrow> rat option"
  probe_repr :: "json \<Rightarrow> string"

text \<open>
  \<open>measure_speed\<close> calls \<open>measure_speed_python()\<close> with its defaults, three attempts
  and a backoff unit of 20 s, and calls the fallback in the handler of
  \<^verbatim>\<open>except Exception\<close>.
\<close>

definition measure_speed :: "probes \<Rightarrow> event list \<times> (exn + measurement)" where
  "measure_speed env =
     (case measure_speed_python (probe_import env) (probe_attempt env) 3 20 of
        (evs, Inr m) \<Rightarrow> (evs, Inr m)
      | (evs, Inl e) \<Rightarrow>
          if is_Exception e then
            (case measure_speed_cli (probe_run_cli env) (probe_loads env) (probe_float_str env) (probe_repr env) of
               (evs', r) \<Rightarrow> (evs @ [Fallback] @ evs', r))
          else (evs, Inl e))"

text \<open>
  For stating what the retry loop does: the exception of a failed attempt, and the events
  one failed attempt leaves (the attempt, the half-second pause when the failure came
  after it, the pause chosen by the handler).
\<close>

fun probe_failure :: "probe_outcome \<Rightarrow> exn option" where
  "probe_failure (ProbeRaisedEarly e) = Some e"
| "probe_failure (ProbeRaisedLate e) = Some e"
| "probe_failure (ProbeDone raw) = None"

definition caught_failure :: "probe_outcome \<Rightarrow> bool" where
  "caught_failure out = (case probe_failure out of None \<Rightarrow> False | Some e \<Rightarrow> is_Exception e)"

fun failure_events :: "(nat \<Rightarrow> probe_outcome) \<Rightarrow> nat \<Rightarrow> nat \<Rightarrow> event list" where
  "failure_events probe backoff attempt =
     (case probe attempt of
        ProbeRaisedEarly e \<Rightarrow> [Probe attempt, Sleep (retry_wait backoff attempt e)]
      | ProbeRaisedLate e \<Rightarrow> [Probe attempt, Sleep (1 / 2), Sleep (retry_wait backoff attempt e)]
      | ProbeDone raw \<Rightarrow> [])"

definition transient :: "exn \<Rightarrow> bool" where
  "transient e = (sublist ''403'' (str_exn e) \<or> sublist ''ConfigRetrievalError'' (str_exn e))"

fun is_Probe :: "event \<Rightarrow> bool" where
  "is_Probe (Probe n) = True"
| "is_Probe ev = False"

text \<open>
  An exception of the import that reaches the handler of \<open>measure_speed\<close>: one that
  \<^verbatim>\<open>except ImportError\<close> lets through and \<^verbatim>\<open>except Exception\<close> catches.
\<close>

definition import_failure_caught :: "exn option \<Rightarrow> bool" where
  "import_failure_caught imported =
     (case imported of
        None \<Rightarrow> False
      | Some e \<Rightarrow> exn_class_of e \<noteq> ImportError \<and> is_Exception e)"

section \<open>One run\<close>

text \<open>
  The state outside the program: the wall clock (local time in seconds, day 0 starting at
  0; Python's datetimes are multiples of a microsecond, the model allows any rational),
  the log file (\<open>None\<close>: the file does not exist; else its rows, the header first) and
  the journal of what has been done.
\<close>

record world =
  clock :: rat
  log_file :: "json list list option"
  journal :: "event list"

text \<open>
  The environment decides what the program cannot: how long an activity takes, what the
  probes and the endpoint do, how a timestamp is printed. \<open>env_elapse env a c\<close> is the
  clock at the end of an activity \<open>a\<close> that starts at clock \<open>c\<close>; \<open>tick\<close> keeps it
  from running backwards and from ending a pause early. The probes and the endpoint may
  differ from one run to the next: they are looked up by the clock.
\<close>

datatype activity = Reading | Sleeping rat | Measuring | Submitting

record environment =
  env_identity :: site_identity
  env_elapse :: "activity \<Rightarrow> rat \<Rightarrow> rat"
  env_probes :: "rat \<Rightarrow> probes"
  env_endpoint :: "rat \<Rightarrow> pydict \<Rightarrow> http_result"
  env_strftime :: "rat \<Rightarrow> string"

definition tick :: "environment \<Rightarrow> activity \<Rightarrow> rat \<Rightarrow> rat \<Rightarrow> rat" where
  "tick env a least c = max (env_elapse env a c) (c + max least 0)"

text \<open>\<open>datetime.now()\<close>, \<open>date.today()\<close> and \<open>time.sleep(n)\<close>.\<close>

definition date_of :: "rat \<Rightarrow> int" where
  "date_of c = \<lfloor>c / 86400\<rfloor>"

definition now :: "environment \<Rightarrow> world \<Rightarrow> rat \<times> world" where
  "now env w = (let c = tick env Reading 0 (clock w) in (c, w\<lparr>clock := c\<rparr>))"

definition today :: "environment \<Rightarrow> world \<Rightarrow> int \<times> world" where
  "today env w = (case now env w of (c, w') \<Rightarrow> (date_of c, w'))"

definition sleep :: "environment \<Rightarrow> rat \<Rightarrow> world \<Rightarrow> world" where
  "sleep env n w =
     w\<lparr>clock := tick env (Sleeping n) n (clock w), journal := journal w @ [Sleep n]\<rparr>"

text \<open>The pauses inside a measurement: it lasts at least as long as they do.\<close>

fun pause_of :: "event \<Rightarrow> rat" where
  "pause_of (Sleep n) = n"
| "pause_of ev = 0"

definition slept :: "event list \<Rightarrow> rat" where
  "slept evs = sum_list (map pause_of evs)"

subsection \<open>The log\<close>

definition header_row :: "json list" where
  "header_row = map JStr
     [''timestamp'', ''download_mbps'', ''upload_mbps'', ''ping_ms'', ''server'', ''ip'', ''device'',
      ''school_code'', ''sector'', ''school_name'', ''provider'', ''line_number'', ''service_type'',
      ''schedule_label'', ''submit_status'', ''used_mapping'', ''used_hidden'']"

definition ensure_log_header :: "world \<Rightarrow> world" where
  "ensure_log_header w =
     w\<lparr>log_file := (case log_file w of None \<Rightarrow> Some [header_row] | Some rows \<Rightarrow> Some rows),
       journal := journal w @ [Header]\<rparr>"

definition append_log :: "world \<Rightarrow> json list \<Rightarrow> world" where
  "append_log w row =
     w\<lparr>log_file := Some ((case log_file w of None \<Rightarrow> [] | Some rows \<Rightarrow> rows) @ [row]),
       journal := journal w @ [Append row]\<rparr>"

text \<open>
  The row \<open>run_once\<close> appends. \<open>status_txt\<close> is \<open>SUCCESS\<close> or \<open>FAIL(code)\<close>; the
  last two cells are \<open>str(used_mapping)\<close> and \<open>str(used_hidden)\<close>.
\<close>

definition status_txt :: "(json \<Rightarrow> string) \<Rightarrow> bool \<Rightarrow> int option \<Rightarrow> string" where
  "status_txt repr ok code =
     (if ok then ''SUCCESS''
      else ''FAIL('' @ py_str repr (case code of None \<Rightarrow> JNull | Some c \<Rightarrow> JInt c) @ '')'')"

definition dict_json :: "pydict \<Rightarrow> json" where
  "dict_json d = JObj (map (\<lambda>kv. (fst kv, JStr (snd kv))) d)"

definition mapping_json :: "field_mapping \<Rightarrow> json" where
  "mapping_json m =
     JObj [(''Q3_school_name'', JStr (Q3_school_name m)),
           (''Q5_line_number'', JStr (Q5_line_number m)),
           (''Q7_internet_speed'', JStr (Q7_internet_speed m)),
           (''Q8_notes'', JStr (Q8_notes m))]"

definition log_row ::
  "site_identity \<Rightarrow> (json \<Rightarrow> string) \<Rightarrow> string \<Rightarrow> string \<Rightarrow> measurement \<Rightarrow> bool \<Rightarrow> int option
    \<Rightarrow> field_mapping option \<Rightarrow> pydict option \<Rightarrow> json list" where
  "log_row cfg repr schedule_label ts results ok code used_mapping used_hidden =
     [JStr ts, download results, upload results, ping results, server results, ip results,
      JStr (DEVICE_NAME cfg), JStr (SCHOOL_CODE cfg), JStr (SCHOOL_SECTOR cfg),
      JStr (SCHOOL_NAME cfg), JStr (SERVICE_PROVIDER cfg), JStr (LINE_NUMBER cfg),
      JStr (SERVICE_TYPE cfg), JStr schedule_label, JStr (status_txt repr ok code),
      JStr (py_str repr (case used_mapping of None \<Rightarrow> JNull | Some m \<Rightarrow> mapping_json m)),
      JStr (py_str repr (case used_hidden of None \<Rightarrow> JNull | Some h \<Rightarrow> dict_json h))]"

subsection \<open>\<open>run_once\<close>\<close>

text \<open>
  The function has no handler: an exception of \<open>measure_speed\<close> or of
  \<open>submit_official\<close> leaves it at once. The result is the exception that left the
  function, if any, and the state afterwards.
\<close>

definition run_once :: "environment \<Rightarrow> string \<Rightarrow> world \<Rightarrow> exn option \<times> world" where
  "run_once env schedule_label w =
     (let p = env_probes env (clock w) in
      case measure_speed p of (evs, measured) \<Rightarrow>
      let w1 = w\<lparr>clock := tick env Measuring (slept evs) (clock w),
                 journal := journal w @ [Run schedule_label (clock w)] @ evs\<rparr> in
      case measured of
        Inl e \<Rightarrow> (Some e, w1)
      | Inr results \<Rightarrow>
          (case now env w1 of (t, w2) \<Rightarrow>
           let ts = env_strftime env t;
               w3 = ensure_log_header w2 in
           case submit_official (env_identity env) (probe_repr p) (env_endpoint env t) results ts of
             (tried, submitted) \<Rightarrow>
           let w4 = w3\<lparr>clock := tick env Submitting 0 (clock w3),
                      journal := journal w3 @ map (\<lambda>c. Post (fst c) (snd c)) tried\<rparr> in
           case submitted of
             Inl e \<Rightarrow> (Some e, w4)
           | Inr (ok, code, preview, used_mapping, used_hidden) \<Rightarrow>
               (None,
                append_log w4
                  (log_row (env_identity env) (probe_repr p) schedule_label ts results ok code
                     used_mapping used_hidden))))"

section \<open>The scheduler\<close>

definition SCHEDULES :: "(string \<times> nat \<times> nat) list" where
  "SCHEDULES = [(''07:00'', 7, 0), (''13:30'', 13, 30)]"

text \<open>
  \<open>datetime.combine(d, datetime.min.time()).replace(hour=h, minute=m)\<close>, for hours and
  minutes in range as those of \<open>SCHEDULES\<close> are; \<open>int(x)\<close> on a float truncates
  towards zero.
\<close>

definition combine :: "int \<Rightarrow> nat \<Rightarrow> nat \<Rightarrow> rat" where
  "combine d h m = of_int d * 86400 + of_nat h * 3600 + of_nat m * 60"

definition py_int :: "rat \<Rightarrow> int" where
  "py_int x = (if 0 \<le> x then \<lfloor>x\<rfloor> else \<lceil>x\<rceil>)"

definition next_dt_for :: "environment \<Rightarrow> nat \<Rightarrow> nat \<Rightarrow> int \<Rightarrow> world \<Rightarrow> rat \<times> world" where
  "next_dt_for env hour minute d w =
     (let candidate = combine d hour minute in
      case now env w of (t, w') \<Rightarrow>
        ((if candidate \<le> t then candidate + 86400 else candidate), w'))"

text \<open>
  The first \<^verbatim>\<open>for\<close> of the loop body, over what is left of \<open>SCHEDULES\<close>: it fires
  every slot whose instant of today has passed and which \<open>last_run\<close> does not mark as
  run today. \<open>now\<close> was read once, before the loop; \<open>date.today()\<close> is read anew
  each time it is written. An exception of \<open>run_once\<close> leaves the loop.
\<close>

fun catch_up ::
  "environment \<Rightarrow> rat \<Rightarrow> (string \<times> nat \<times> nat) list \<Rightarrow> (string \<Rightarrow> int option) \<Rightarrow> bool \<Rightarrow> world
    \<Rightarrow> exn option \<times> (string \<Rightarrow> int option) \<times> bool \<times> world" where
  "catch_up env t [] last_run ran_any w = (None, last_run, ran_any, w)"
| "catch_up env t ((label, h, m) # rest) last_run ran_any w =
     (case today env w of (d1, w1) \<Rightarrow>
      let sched_today = combine d1 h m in
      if sched_today \<le> t then
        (case today env w1 of (d2, w2) \<Rightarrow>
         if last_run label \<noteq> Some d2 then
           (case run_once env label w2 of
              (Some e, w3) \<Rightarrow> (Some e, last_run, ran_any, w3)
            | (None, w3) \<Rightarrow>
                (case today env w3 of (d3, w4) \<Rightarrow>
                 catch_up env t rest (last_run(label := Some d3)) True w4))
         else catch_up env t rest last_run ran_any w2)
      else catch_up env t rest last_run ran_any w1)"

text \<open>The second \<^verbatim>\<open>for\<close>: the next occurrence of every slot.\<close>

fun upcoming_loop ::
  "environment \<Rightarrow> (string \<times> nat \<times> nat) list \<Rightarrow> (string \<Rightarrow> int option) \<Rightarrow> (rat \<times> string) list
    \<Rightarrow> world \<Rightarrow> (rat \<times> string) list \<times> world" where
  "upcoming_loop env [] last_run upcoming w = (upcoming, w)"
| "upcoming_loop env ((label, h, m) # rest) last_run upcoming w =
     (case today env w of (d1, w1) \<Rightarrow>
      let sched_today = combine d1 h m in
      case today env w1 of (d2, w2) \<Rightarrow>
      if last_run label = Some d2 then
        (case today env w2 of (d3, w3) \<Rightarrow>
         case next_dt_for env h m d3 w3 of (sched, w4) \<Rightarrow>
         upcoming_loop env rest last_run (upcoming @ [(sched, label)]) w4)
      else
        (case today env w2 of (d3, w3) \<Rightarrow>
         case next_dt_for env h m d3 w3 of (sched, w4) \<Rightarrow>
         case now env w4 of (t, w5) \<Rightarrow>
         upcoming_loop env rest last_run
           (upcoming @ [(if t < sched_today then sched_today else sched, label)]) w5))"

text \<open>\<open>min(upcoming, key=lambda x: x[0])\<close>: the first of the earliest entries.\<close>

fun min_upcoming :: "(rat \<times> string) list \<Rightarrow> (rat \<times> string) option" where
  "min_upcoming [] = None"
| "min_upcoming (x # xs) =
     (case min_upcoming xs of
        None \<Rightarrow> Some x
      | Some y \<Rightarrow> if fst y < fst x then Some y else Some x)"

text \<open>
  \<open>loop_scheduler\<close> never returns. It is modelled as a machine that is at the head of
  the \<^verbatim>\<open>while True\<close> body (\<open>Top\<close>), or at the test of the inner
  \<^verbatim>\<open>while wait_seconds > 0\<close> with the instant and the label it waits for
  (\<open>Waiting\<close>), or has been left by an exception (\<open>Stopped\<close>). One step takes the
  machine from one of these points to the next: from \<open>Top\<close> through the catch-up loop
  and then either through the 30 s pause back to \<open>Top\<close> or through the computation of
  the next instant to \<open>Waiting\<close>; from \<open>Waiting\<close> through one nap of at most 300 s,
  or, when no time is left, through \<open>run_once\<close> back to \<open>Top\<close>.
\<close>

datatype control = Top | Waiting rat string int | Stopped exn

record sched =
  control :: control
  last_run :: "string \<Rightarrow> int option"
  world :: world

definition step :: "environment \<Rightarrow> sched \<Rightarrow> sched" where
  "step env s =
     (case control s of
        Stopped e \<Rightarrow> s
      | Top \<Rightarrow>
          (case now env (world s) of (t, w1) \<Rightarrow>
           case catch_up env t SCHEDULES (last_run s) False w1 of
             (Some e, lr, ran_any, w2) \<Rightarrow> \<lparr>control = Stopped e, last_run = lr, world = w2\<rparr>
           | (None, lr, ran_any, w2) \<Rightarrow>
               if ran_any then \<lparr>control = Top, last_run = lr, world = sleep env 30 w2\<rparr>
               else
                 (case upcoming_loop env SCHEDULES lr [] w2 of (upcoming, w3) \<Rightarrow>
                  case min_upcoming upcoming of
                    None \<Rightarrow>
                      \<lparr>control = Stopped (Exn ValueError ''min() arg is an empty sequence''),
                       last_run = lr, world = w3\<rparr>
                  | Some (next_time, next_label) \<Rightarrow>
                      (case now env w3 of (t', w4) \<Rightarrow>
                       \<lparr>control = Waiting next_time next_label (max 5 (py_int (next_time - t'))),
                        last_run = lr, world = w4\<rparr>)))
      | Waiting next_time next_label wait_seconds \<Rightarrow>
          if 0 < wait_seconds then
            (let nap = min wait_seconds 300;
                 w1 = sleep env (of_int nap) (world s) in
             case now env w1 of (t, w2) \<Rightarrow>
               \<lparr>control = Waiting next_time next_label (py_int (next_time - t)),
                last_run = last_run s, world = w2\<rparr>)
          else
            (case run_once env next_label (world s) of
               (Some e, w1) \<Rightarrow> \<lparr>control = Stopped e, last_run = last_run s, world = w1\<rparr>
             | (None, w1) \<Rightarrow>
                 (case today env w1 of (d, w2) \<Rightarrow>
                  \<lparr>control = Top, last_run = (last_run s)(next_label := Some d), world = w2\<rparr>)))"

text \<open>
  The scheduler after \<open>n\<close> steps, and its start: no slot has run, at the head of the
  loop.
\<close>

definition run_scheduler :: "environment \<Rightarrow> nat \<Rightarrow> sched \<Rightarrow> sched" where
  "run_scheduler env n s = (step env ^^ n) s"

definition loop_scheduler :: "world \<Rightarrow> sched" where
  "loop_scheduler w = \<lparr>control = Top, last_run = (\<lambda>label. None), world = w\<rparr>"

text \<open>For reading a journal: the calls of \<open>run_once\<close> and the rows appended.\<close>

fun is_Run :: "event \<Rightarrow> bool" where
  "is_Run (Run label c) = True"
| "is_Run ev = False"

definition runs :: "world \<Rightarrow> event list" where
  "runs w = filter is_Run (journal w)"

fun appended_rows :: "event list \<Rightarrow> json list list" where
  "appended_rows [] = []"
| "appended_rows (Append row # evs) = row # appended_rows evs"
| "appended_rows (ev # evs) = appended_rows evs"

text \<open>The records appended so far: for each its timestamp cell and its label cell.\<close>

definition records :: "world \<Rightarrow> (json \<times> json) list" where
  "records w = map (\<lambda>row. (row ! 0, row ! 13)) (appended_rows (journal w))"

text \<open>The three checks of \<open>build_payload_base\<close>.\<close>

definition valid_identity :: "site_identity \<Rightarrow> bool" where
  "valid_identity cfg =
     (SCHOOL_SECTOR cfg \<in> set ALLOWED_SECTORS \<and> SERVICE_PROVIDER cfg \<in> set ALLOWED_PROVIDERS
      \<and> SERVICE_TYPE cfg \<in> set ALLOWED_SERVICE_TYPES)"



text \<open>
  For stating what an exception of a run does to the scheduler. The events a step of the
  scheduler adds to the journal; the exception, if any, with which a run that starts at
  clock \<open>c\<close> ends (the label and the log decide only what the row holds); and, for
  the runs started in a list of events, how each of them ends.
\<close>

definition new_events :: "sched \<Rightarrow> sched \<Rightarrow> event list" where
  "new_events s s' = drop (length (journal (world s))) (journal (world s'))"

definition run_result :: "environment \<Rightarrow> rat \<Rightarrow> exn option" where
  "run_result env c = fst (run_once env [] \<lparr>clock = c, log_file = None, journal = []\<rparr>)"

fun run_results :: "environment \<Rightarrow> event list \<Rightarrow> exn option list" where
  "run_results env [] = []"
| "run_results env (Run label c # evs) = run_result env c # run_results env evs"
| "run_results env (ev # evs) = run_results env evs"

definition running :: "sched \<Rightarrow> bool" where
  "running s = (case control s of Stopped e \<Rightarrow> False | Top \<Rightarrow> True | Waiting nt nl ws \<Rightarrow> True)"

section \<open>Concrete inputs\<close>

text \<open>
  A measurement of 45.2 Mbps down, 10.1 Mbps up and 18.4 ms, with the texts Python prints
  for these three floats, and two endpoints: one that accepts a payload only when the
  speed text sits under \<open>entry.556952249\<close> (the second ranked mapping), one that
  rejects every payload.
\<close>

definition example_measurement :: measurement where
  "example_measurement =
     \<lparr>download = JNum (226 / 5), upload = JNum (101 / 10), ping = JNum (92 / 5),
      server = JStr ''speedtest.example.net:8080'', ip = JStr ''192.0.2.7''\<rparr>"

definition example_repr :: "json \<Rightarrow> string" where
  "example_repr v =
     (if v = JNum (226 / 5) then ''45.2''
      else if v = JNum (101 / 10) then ''10.1''
      else if v = JNum (92 / 5) then ''18.4''
      else ''?'')"

definition endpoint_second_mapping :: "pydict \<Rightarrow> http_result" where
  "endpoint_second_mapping p =
     (if map_of p ''entry.556952249'' = Some ''45.2 Mbps'' then Response 200 ''ok''
      else Response 400 ''bad'')"

definition endpoint_rejecting :: "pydict \<Rightarrow> http_result" where
  "endpoint_rejecting p = Response 400 ''bad''"

text \<open>
  An endpoint that drops the connection on a request carrying the speed under the field
  of the first mapping and redirects (302) a request carrying it under the field of the
  second mapping.
\<close>

definition endpoint_dropping_first_mapping :: "pydict \<Rightarrow> http_result" where
  "endpoint_dropping_first_mapping p =
     (if map_of p ''entry.556952249'' = Some ''45.2 Mbps'' then Response 302 ''Found''
      else PostRaised (Exn RequestException ''Connection aborted.''))"

text \<open>
  Endpoints whose first request fails at the transport level (a timeout) and whose later
  requests are accepted: the official-form script first posts without \<open>fbzx\<close>, the
  experimental-form script first posts with it.
\<close>

definition endpoint_timeout_without_token :: "pydict \<Rightarrow> http_result" where
  "endpoint_timeout_without_token p =
     (if map_of p ''fbzx'' = None then PostRaised (Exn RequestException ''Read timed out.'')
      else Response 200 ''ok'')"

definition endpoint_timeout_with_token :: "pydict \<Rightarrow> http_result" where
  "endpoint_timeout_with_token p =
     (if map_of p ''fbzx'' = None then Response 200 ''ok''
      else PostRaised (Exn RequestException ''Read timed out.''))"

text \<open>
  In-process probes: one whose three attempts fail (a 403, a timeout after the download,
  a rejected configuration request), one whose first attempt fails with a 403 and whose
  second succeeds.
\<close>

definition example_raw :: raw_probe where
  "example_raw =
     \<lparr>download_bps = 45204100, upload_bps = 10098000, ping_raw = 18397 / 1000,
      best_host = Some (JStr ''speedtest.example.net:8080''), client_ip = Some (JStr ''192.0.2.7'')\<rparr>"

definition probe_always_failing :: "nat \<Rightarrow> probe_outcome" where
  "probe_always_failing attempt =
     (if attempt = 1 then ProbeRaisedEarly (Exn OtherException ''HTTP Error 403: Forbidden'')
      else if attempt = 2 then ProbeRaisedLate (Exn OtherException ''timed out'')
      else ProbeRaisedEarly (Exn OtherException ''ConfigRetrievalError''))"

definition probe_second_succeeds :: "nat \<Rightarrow> probe_outcome" where
  "probe_second_succeeds attempt =
     (if attempt = 1 then ProbeRaisedEarly (Exn OtherException ''HTTP Error 403: Forbidden'')
      else ProbeDone example_raw)"

text \<open>
  Output of the external probe in the two schemas, for the same line: 100 Mbit/s in each
  direction, that is 100000000 bit/s in the flat schema and 12500000 byte/s in the nested
  one.
\<close>

definition flat_stdout :: string where
  \<open>flat_stdout = ''{"download": 100000000, "upload": 100000000, "ping": 18.4, "server": {"host": "speedtest.example.net:8080"}, "client": {"ip": "192.0.2.7"}}''\<close>

definition flat_json :: json where
  "flat_json =
     JObj [(''download'', JInt 100000000), (''upload'', JInt 100000000), (''ping'', JNum (92 / 5)),
           (''server'', JObj [(''host'', JStr ''speedtest.example.net:8080'')]),
           (''client'', JObj [(''ip'', JStr ''192.0.2.7'')])]"

definition ookla_stdout :: string where
  \<open>ookla_stdout = ''{"type": "result", "ping": {"latency": 18.4}, "download": {"bandwidth": 12500000}, "upload": {"bandwidth": 12500000}, "interface": {"externalIp": "192.0.2.7"}, "server": {"host": "speedtest.example.net"}}''\<close>

definition ookla_json :: json where
  "ookla_json =
     JObj [(''type'', JStr ''result''), (''ping'', JObj [(''latency'', JNum (92 / 5))]),
           (''download'', JObj [(''bandwidth'', JInt 12500000)]),
           (''upload'', JObj [(''bandwidth'', JInt 12500000)]),
           (''interface'', JObj [(''externalIp'', JStr ''192.0.2.7'')]),
           (''server'', JObj [(''host'', JStr ''speedtest.example.net'')])]"

definition example_loads :: "string \<Rightarrow> exn + json" where
  "example_loads s =
     (if s = flat_stdout then Inr flat_json
      else if s = ookla_stdout then Inr ookla_json
      else Inl (Exn ValueError ''Expecting value''))"

definition no_float_str :: "string \<Rightarrow> rat option" where
  "no_float_str s = None"

text \<open>
  Two environments of a measurement: in the first the in-process probe fails three times
  and the Ookla client is installed; in the second the probe succeeds at its second
  attempt.
\<close>

definition env_primary_exhausted :: probes where
  "env_primary_exhausted =
     \<lparr>probe_import = None, probe_attempt = probe_always_failing,
      probe_run_cli = (\<lambda>exe. Completed 0 ookla_stdout), probe_loads = example_loads,
      probe_float_str = no_float_str, probe_repr = example_repr\<rparr>"

definition env_retry_succeeds :: probes where
  "env_retry_succeeds =
     \<lparr>probe_import = None, probe_attempt = probe_second_succeeds,
      probe_run_cli = (\<lambda>exe. ProcRaised (Exn FileNotFoundError ''No such file or directory'')),
      probe_loads = example_loads, probe_float_str = no_float_str, probe_repr = example_repr\<rparr>"

text \<open>
  An environment in which importing the speed-test module raises an \<open>AttributeError\<close>
  (the module initialises itself from the standard output, which a windowless
  interpreter does not have), while the in-process probe would succeed at once and the
  \<open>speedtest-cli\<close> client is installed.
\<close>

definition probes_import_broken :: probes where
  "probes_import_broken =
     \<lparr>probe_import = Some (Exn AttributeError ''NoneType object has no attribute fileno''),
      probe_attempt = (\<lambda>attempt. ProbeDone example_raw),
      probe_run_cli = (\<lambda>exe. Completed 0 flat_stdout), probe_loads = example_loads,
      probe_float_str = no_float_str, probe_repr = example_repr\<rparr>"

text \<open>
  A host that is suspended from 20:03:00 on day 0 to 06:59:00 on day 3 (a pause in
  progress at the first instant ends at the second). Reading the clock takes no time, a
  measurement 25 s, a submission 2 s; the in-process probe succeeds at once and the
  endpoint accepts every payload. The scheduler is started at 20:00:00 on day 0 with no
  log file. The printing of timestamps is left open.
\<close>

definition probes_fine :: probes where
  "probes_fine =
     \<lparr>probe_import = None, probe_attempt = (\<lambda>attempt. ProbeDone example_raw),
      probe_run_cli = (\<lambda>exe. ProcRaised (Exn FileNotFoundError ''No such file or directory'')),
      probe_loads = example_loads, probe_float_str = no_float_str, probe_repr = example_repr\<rparr>"

definition elapse_suspended :: "activity \<Rightarrow> rat \<Rightarrow> rat" where
  "elapse_suspended a c =
     (case a of
        Reading \<Rightarrow> c
      | Sleeping n \<Rightarrow> if c \<le> 72180 \<and> 72180 < c + n then 284340 else c + n
      | Measuring \<Rightarrow> c + 25
      | Submitting \<Rightarrow> c + 2)"

definition env_suspended :: "(rat \<Rightarrow> string) \<Rightarrow> environment" where
  "env_suspended fmt =
     \<lparr>env_identity = configured_identity ''PC'', env_elapse = elapse_suspended,
      env_probes = (\<lambda>c. probes_fine), env_endpoint = (\<lambda>c p. Response 200 ''ok''),
      env_strftime = fmt\<rparr>"

definition world_evening :: world where
  "world_evening = \<lparr>clock = 72000, log_file = None, journal = []\<rparr>"

text \<open>
  Two mornings, five seconds after the first slot of day 0, with no log file. On the
  first the speed-test servers reject every attempt of the in-process probe and no
  command-line client is installed. On the second the measurement succeeds but the
  sector of the identity is written in Latin letters, which the enumeration does not
  contain.
\<close>

definition probes_failing :: probes where
  "probes_failing =
     \<lparr>probe_import = None, probe_attempt = probe_always_failing,
      probe_run_cli = (\<lambda>exe. ProcRaised (Exn FileNotFoundError ''No such file or directory'')),
      probe_loads = example_loads, probe_float_str = no_float_str, probe_repr = example_repr\<rparr>"

definition elapse_plain :: "activity \<Rightarrow> rat \<Rightarrow> rat" where
  "elapse_plain a c =
     (case a of
        Reading \<Rightarrow> c
      | Sleeping n \<Rightarrow> c + n
      | Measuring \<Rightarrow> c + 25
      | Submitting \<Rightarrow> c + 2)"

definition strftime_morning :: "rat \<Rightarrow> string" where
  "strftime_morning c = (if c = 25230 then ''2025-01-05 07:00:30'' else ''2025-01-05 ??:??:??'')"

definition env_measure_fails :: environment where
  "env_measure_fails =
     \<lparr>env_identity = configured_identity ''PC'', env_elapse = elapse_plain,
      env_probes = (\<lambda>c. probes_failing), env_endpoint = (\<lambda>c p. Response 200 ''ok''),
      env_strftime = strftime_morning\<rparr>"

definition env_bad_sector :: environment where
  "env_bad_sector =
     \<lparr>env_identity = (configured_identity ''PC'')\<lparr>SCHOOL_SECTOR := ''Seeb''\<rparr>,
      env_elapse = elapse_plain,
      env_probes = (\<lambda>c. probes_fine), env_endpoint = (\<lambda>c p. Response 200 ''ok''),
      env_strftime = strftime_morning\<rparr>"

definition world_morning :: world where
  "world_morning = \<lparr>clock = 25205, log_file = None, journal = []\<rparr>"

text \<open>A third morning: the measurement succeeds and the endpoint rejects every payload.\<close>

definition env_rejected :: environment where
  "env_rejected =
     \<lparr>env_identity = configured_identity ''PC'', env_elapse = elapse_plain,
      env_probes = (\<lambda>c. probes_fine), env_endpoint = (\<lambda>c. endpoint_rejecting),
      env_strftime = strftime_morning\<rparr>"

text \<open>
  The scheduler at the head of its loop at 13:30:05 on day 0, with the first slot marked as
  run that day and the second not: the catch-up loop passes over the first slot and fires
  the second.
\<close>

definition sched_after_first_slot :: sched where
  "sched_after_first_slot =
     \<lparr>control = Top, last_run = (\<lambda>label. if label = ''07:00'' then Some 0 else None),
      world = \<lparr>clock = 48605, log_file = None, journal = []\<rparr>\<rparr>"




section \<open>Arithmetic of the clock\<close>

lemma floor_rat_numeral_div:
  "\<lfloor>(numeral a :: rat) / numeral b\<rfloor> = numeral a div numeral b"
  by (metis floor_divide_of_int_eq of_int_numeral)

lemma floor_rat_minus_numeral_div:
  "\<lfloor>- ((numeral a :: rat) / numeral b)\<rfloor> = - numeral a div numeral b"
  by (metis divide_minus_left floor_divide_of_int_eq of_int_neg_numeral of_int_numeral)

lemma ceiling_rat_numeral_div:
  "\<lceil>(numeral a :: rat) / numeral b\<rceil> = - (- numeral a div numeral b)"
  using ceiling_divide_eq_div[of "numeral a" "numeral b", where ?'a = rat] by simp

lemma ceiling_rat_minus_numeral_div:
  "\<lceil>- ((numeral a :: rat) / numeral b)\<rceil> = - (numeral a div numeral b)"
  using ceiling_divide_eq_div[of "- numeral a" "numeral b", where ?'a = rat] by simp

lemmas rat_floor = floor_rat_numeral_div floor_rat_minus_numeral_div ceiling_rat_numeral_div ceiling_rat_minus_numeral_div

section \<open>The submission engine\<close>

text \<open>
  The two nested loops of \<open>submit_official\<close> walk the cross product of the mappings
  (outer) and the hidden sets (inner); \<open>scan\<close> is that walk as one loop.
\<close>

lemma accepted_try:
  "accepted cfg repr post results ts c =
     (case try_submit_with_mapping cfg repr post (fst c) (snd c) results ts of
        Inl e \<Rightarrow> False | Inr r \<Rightarrow> fst r)"
  by (simp add: accepted_def response_def try_submit_with_mapping_def
        split: sum.splits http_result.splits)

lemma answered_try:
  "answered cfg repr post results ts c =
     (case try_submit_with_mapping cfg repr post (fst c) (snd c) results ts of
        Inl e \<Rightarrow> False | Inr r \<Rightarrow> True)"
  by (simp add: answered_def response_def try_submit_with_mapping_def
        split: sum.splits http_result.splits)

lemma hidden_loop_scan:
  "hidden_loop cfg repr post results ts m hs l tr = scan cfg repr post results ts (map (Pair m) hs) l tr"
  by (induction hs arbitrary: l tr) (auto split: sum.splits)

lemma scan_append:
  "scan cfg repr post results ts (xs @ ys) l tr =
     (case scan cfg repr post results ts xs l tr of
        (tr', LoopDone l') \<Rightarrow> scan cfg repr post results ts ys l' tr'
      | (tr', LoopReturn r) \<Rightarrow> (tr', LoopReturn r)
      | (tr', LoopRaise e) \<Rightarrow> (tr', LoopRaise e))"
  by (induction xs arbitrary: l tr) (auto split: sum.splits)

lemma mapping_loop_scan:
  "mapping_loop cfg repr post results ts hs ms l tr =
     scan cfg repr post results ts (List.product ms hs) l tr"
  by (induction ms arbitrary: l tr) (auto simp: hidden_loop_scan scan_append split: prod.splits loop_end.splits)

lemma posted_cases:
  "posted cfg repr (fst c) (snd c) results ts = [] \<or> posted cfg repr (fst c) (snd c) results ts = [c]"
  by (auto simp: posted_def split: sum.splits)

lemma scan_prefix:
  "\<exists>n. fst (scan cfg repr post results ts cs l tr) = tr @ take n cs"
proof (induction cs arbitrary: l tr)
  case Nil
  then show ?case by simp
next
  case (Cons c cs)
  show ?case
  proof (cases "try_submit_with_mapping cfg repr post (fst c) (snd c) results ts")
    case (Inl e)
    from posted_cases[of cfg repr c results ts] show ?thesis
    proof
      assume "posted cfg repr (fst c) (snd c) results ts = []"
      with Inl have "fst (scan cfg repr post results ts (c # cs) l tr) = tr @ take 0 (c # cs)" by simp
      then show ?thesis by blast
    next
      assume "posted cfg repr (fst c) (snd c) results ts = [c]"
      with Inl have "fst (scan cfg repr post results ts (c # cs) l tr) = tr @ take 1 (c # cs)" by simp
      then show ?thesis by blast
    qed
  next
    case (Inr r)
    obtain ok code pv where r: "r = (ok, code, pv)" by (cases r) auto
    show ?thesis
    proof (cases ok)
      case True
      with Inr r have "fst (scan cfg repr post results ts (c # cs) l tr) = tr @ take 1 (c # cs)" by simp
      then show ?thesis by blast
    next
      case False
      from Cons.IH[of "(ok, Some code, pv)" "tr @ [c]"] obtain n where
        "fst (scan cfg repr post results ts cs (ok, Some code, pv) (tr @ [c])) = (tr @ [c]) @ take n cs" by blast
      with Inr r False have "fst (scan cfg repr post results ts (c # cs) l tr) = tr @ take (Suc n) (c # cs)" by simp
      then show ?thesis by blast
    qed
  qed
qed

lemma scan_return:
  "scan cfg repr post results ts cs l tr = (tr', LoopReturn r) \<Longrightarrow>
     \<exists>pre c code pv. tr' = tr @ pre @ [c] \<and> prefix (pre @ [c]) cs
       \<and> (\<forall>x \<in> set pre. \<not> accepted cfg repr post results ts x)
       \<and> try_submit_with_mapping cfg repr post (fst c) (snd c) results ts = Inr (True, code, pv)
       \<and> r = (True, Some code, pv, Some (fst c), Some (snd c))"
proof (induction cs arbitrary: l tr)
  case Nil
  then show ?case by simp
next
  case (Cons c cs)
  show ?case
  proof (cases "try_submit_with_mapping cfg repr post (fst c) (snd c) results ts")
    case (Inl e)
    with Cons.prems show ?thesis by simp
  next
    case (Inr q)
    obtain ok code pv where q: "q = (ok, code, pv)" by (cases q) auto
    show ?thesis
    proof (cases ok)
      case True
      with Inr q Cons.prems have "tr' = tr @ [] @ [c]" "r = (True, Some code, pv, Some (fst c), Some (snd c))"
        by auto
      moreover have "prefix ([] @ [c]) (c # cs)" by simp
      moreover have "try_submit_with_mapping cfg repr post (fst c) (snd c) results ts = Inr (True, code, pv)"
        using Inr q True by simp
      ultimately show ?thesis by (metis empty_iff list.set(1))
    next
      case False
      with Inr q Cons.prems have
        "scan cfg repr post results ts cs (ok, Some code, pv) (tr @ [c]) = (tr', LoopReturn r)" by simp
      from Cons.IH[OF this] obtain pre c' code' pv' where
        h: "tr' = (tr @ [c]) @ pre @ [c']" "prefix (pre @ [c']) cs"
           "\<forall>x \<in> set pre. \<not> accepted cfg repr post results ts x"
           "try_submit_with_mapping cfg repr post (fst c') (snd c') results ts = Inr (True, code', pv')"
           "r = (True, Some code', pv', Some (fst c'), Some (snd c'))" by blast
      have nacc: "\<not> accepted cfg repr post results ts c" using Inr q False by (simp add: accepted_try)
      have "tr' = tr @ (c # pre) @ [c']" using h(1) by simp
      moreover have "prefix ((c # pre) @ [c']) (c # cs)" using h(2) by simp
      moreover have "\<forall>x \<in> set (c # pre). \<not> accepted cfg repr post results ts x" using h(3) nacc by simp
      ultimately show ?thesis using h(4,5) by blast
    qed
  qed
qed

lemma scan_done:
  "scan cfg repr post results ts cs l tr = (tr', LoopDone l') \<Longrightarrow>
     tr' = tr @ cs \<and> (\<forall>x \<in> set cs. \<not> accepted cfg repr post results ts x)"
proof (induction cs arbitrary: l tr)
  case Nil
  then show ?case by simp
next
  case (Cons c cs)
  show ?case
  proof (cases "try_submit_with_mapping cfg repr post (fst c) (snd c) results ts")
    case (Inl e)
    with Cons.prems show ?thesis by simp
  next
    case (Inr q)
    obtain ok code pv where q: "q = (ok, code, pv)" by (cases q) auto
    have nok: "\<not> ok" using Cons.prems Inr q by (auto split: if_splits)
    then have "scan cfg repr post results ts cs (ok, Some code, pv) (tr @ [c]) = (tr', LoopDone l')"
      using Cons.prems Inr q by simp
    from Cons.IH[OF this] have "tr' = tr @ c # cs" "\<forall>x \<in> set cs. \<not> accepted cfg repr post results ts x"
      by simp_all
    moreover have "\<not> accepted cfg repr post results ts c" using Inr q nok by (simp add: accepted_try)
    ultimately show ?thesis by simp
  qed
qed

lemma scan_raise:
  "scan cfg repr post results ts cs l tr = (tr', LoopRaise e) \<Longrightarrow>
     (\<forall>x \<in> set tr. \<not> accepted cfg repr post results ts x) \<Longrightarrow>
     (\<forall>x \<in> set tr'. \<not> accepted cfg repr post results ts x)"
proof (induction cs arbitrary: l tr)
  case Nil
  then show ?case by simp
next
  case (Cons c cs)
  show ?case
  proof (cases "try_submit_with_mapping cfg repr post (fst c) (snd c) results ts")
    case (Inl e')
    then have nacc: "\<not> accepted cfg repr post results ts c" by (simp add: accepted_try)
    from Inl Cons.prems(1) have "tr' = tr @ posted cfg repr (fst c) (snd c) results ts" by simp
    then show ?thesis using posted_cases[of cfg repr c results ts] nacc Cons.prems(2) by auto
  next
    case (Inr q)
    obtain ok code pv where q: "q = (ok, code, pv)" by (cases q) auto
    have nok: "\<not> ok" using Cons.prems(1) Inr q by (auto split: if_splits)
    then have step: "scan cfg repr post results ts cs (ok, Some code, pv) (tr @ [c]) = (tr', LoopRaise e)"
      using Cons.prems(1) Inr q by simp
    have "\<not> accepted cfg repr post results ts c" using Inr q nok by (simp add: accepted_try)
    then have "\<forall>x \<in> set (tr @ [c]). \<not> accepted cfg repr post results ts x"
      using Cons.prems(2) by simp
    from Cons.IH[OF step this] show ?thesis .
  qed
qed

lemma scan_answered:
  "\<forall>x \<in> set cs. answered cfg repr post results ts x \<Longrightarrow>
     snd (scan cfg repr post results ts cs l tr) \<noteq> LoopRaise e"
proof (induction cs arbitrary: l tr)
  case Nil
  then show ?case by simp
next
  case (Cons c cs)
  from Cons.prems have "answered cfg repr post results ts c" by simp
  then obtain ok code pv where
    q: "try_submit_with_mapping cfg repr post (fst c) (snd c) results ts = Inr (ok, code, pv)"
    by (auto simp: answered_try split: sum.splits)
  from Cons.prems have rest: "\<forall>x \<in> set cs. answered cfg repr post results ts x" by simp
  show ?case using q Cons.IH[OF rest] by simp
qed

text \<open>
  What \<open>submit_official\<close> does, whatever the identity, the measurement and the
  endpoint: it posts the combinations of the cross product of the ranked mappings (outer)
  and the ranked hidden sets (inner) in that order, so the combinations posted are a
  prefix of the cross product. It returns success exactly when one of the posts it made
  was answered with status 200 or 302; the accepted combination is then the last one
  posted (nothing is tried after it), none before it was accepted, and its mapping and
  hidden set are the ones reported as used. It returns failure only when every
  combination of the cross product has been posted and none was accepted. When every
  combination is answered with a status, the call returns, and it returns success
  exactly when some combination of the cross product is answered with 200 or 302.
\<close>

lemma submit_official_answered:
  assumes run: "submit_official cfg repr post results ts = (tried, out)"
  shows "prefix tried ranked_combinations
    \<and> ((\<exists>code pv um uh. out = Inr (True, code, pv, um, uh))
         \<longleftrightarrow> (\<exists>c \<in> set tried. accepted cfg repr post results ts c))
    \<and> (\<forall>code pv um uh. out = Inr (True, code, pv, um, uh) \<longrightarrow>
         tried \<noteq> [] \<and> um = Some (fst (last tried)) \<and> uh = Some (snd (last tried))
         \<and> (\<exists>status. code = Some status \<and> (status = 200 \<or> status = 302)
              \<and> try_submit_with_mapping cfg repr post (fst (last tried)) (snd (last tried)) results ts
                  = Inr (True, status, pv))
         \<and> (\<forall>c \<in> set (butlast tried). \<not> accepted cfg repr post results ts c))
    \<and> (\<forall>code pv um uh. out = Inr (False, code, pv, um, uh) \<longrightarrow>
         tried = ranked_combinations
         \<and> (\<forall>c \<in> set ranked_combinations. \<not> accepted cfg repr post results ts c))
    \<and> ((\<forall>c \<in> set ranked_combinations. answered cfg repr post results ts c) \<longrightarrow>
         (\<exists>ok code pv um uh. out = Inr (ok, code, pv, um, uh)
            \<and> (ok \<longleftrightarrow> (\<exists>c \<in> set ranked_combinations. accepted cfg repr post results ts c))))"
proof -
  define sc where "sc = scan cfg repr post results ts ranked_combinations (False, None, '''') []"
  have so: "submit_official cfg repr post results ts =
     (case sc of
        (tr, LoopReturn r) \<Rightarrow> (tr, Inr r)
      | (tr, LoopRaise e) \<Rightarrow> (tr, Inl e)
      | (tr, LoopDone l) \<Rightarrow> (tr, Inr (False, fst (snd l), snd (snd l), None, None)))"
    by (simp add: submit_official_def mapping_loop_scan sc_def ranked_combinations_def)
  obtain le where sc: "sc = (tried, le)"
    using so run by (cases sc) (auto split: loop_end.splits)
  have pre: "prefix tried ranked_combinations"
    using scan_prefix[of cfg repr post results ts ranked_combinations "(False, None, '''')" "[]"] sc
    by (auto simp: sc_def take_is_prefix)
  show ?thesis
  proof (cases le)
    case (LoopDone l)
    then have out: "out = Inr (False, fst (snd l), snd (snd l), None, None)"
      using so run sc by simp
    from scan_done[of cfg repr post results ts ranked_combinations "(False, None, '''')" "[]" tried l]
    have d: "tried = ranked_combinations" "\<forall>x \<in> set ranked_combinations. \<not> accepted cfg repr post results ts x"
      using sc LoopDone by (simp_all add: sc_def)
    show ?thesis using pre out d by auto
  next
    case (LoopRaise e)
    then have out: "out = Inl e" using so run sc by simp
    have nacc: "\<forall>c \<in> set tried. \<not> accepted cfg repr post results ts c"
      using scan_raise[of cfg repr post results ts ranked_combinations "(False, None, '''')" "[]" tried e]
        sc LoopRaise by (simp add: sc_def)
    have nans: "\<not> (\<forall>c \<in> set ranked_combinations. answered cfg repr post results ts c)"
      using scan_answered[of ranked_combinations cfg repr post results ts "(False, None, '''')" "[]" e] sc LoopRaise
      by (auto simp: sc_def)
    show ?thesis using pre out nacc nans by auto
  next
    case (LoopReturn r)
    then have out: "out = Inr r" using so run sc by simp
    from scan_return[of cfg repr post results ts ranked_combinations "(False, None, '''')" "[]" tried r]
    obtain pre' c status pv where
      h: "tried = pre' @ [c]" "prefix (pre' @ [c]) ranked_combinations"
         "\<forall>x \<in> set pre'. \<not> accepted cfg repr post results ts x"
         "try_submit_with_mapping cfg repr post (fst c) (snd c) results ts = Inr (True, status, pv)"
         "r = (True, Some status, pv, Some (fst c), Some (snd c))"
      using sc LoopReturn by (auto simp: sc_def)
    have acc: "accepted cfg repr post results ts c" using h(4) by (simp add: accepted_try)
    have st: "status = 200 \<or> status = 302"
      using h(4) by (auto simp: try_submit_with_mapping_def split: sum.splits http_result.splits)
    have cin: "c \<in> set ranked_combinations" using h(2) by (auto dest: set_mono_prefix)
    have c1: "(\<exists>code pv um uh. out = Inr (True, code, pv, um, uh))
         \<longleftrightarrow> (\<exists>c \<in> set tried. accepted cfg repr post results ts c)"
      using out h(1,5) acc by auto
    have c2: "\<forall>code pv' um uh. out = Inr (True, code, pv', um, uh) \<longrightarrow>
         tried \<noteq> [] \<and> um = Some (fst (last tried)) \<and> uh = Some (snd (last tried))
         \<and> (\<exists>status. code = Some status \<and> (status = 200 \<or> status = 302)
              \<and> try_submit_with_mapping cfg repr post (fst (last tried)) (snd (last tried)) results ts
                  = Inr (True, status, pv'))
         \<and> (\<forall>c \<in> set (butlast tried). \<not> accepted cfg repr post results ts c)"
      using out h st by auto
    have c3: "\<forall>code pv um uh. out = Inr (False, code, pv, um, uh) \<longrightarrow>
         tried = ranked_combinations
         \<and> (\<forall>c \<in> set ranked_combinations. \<not> accepted cfg repr post results ts c)"
      using out h(5) by auto
    have c4: "(\<forall>c \<in> set ranked_combinations. answered cfg repr post results ts c) \<longrightarrow>
         (\<exists>ok code pv um uh. out = Inr (ok, code, pv, um, uh)
            \<and> (ok \<longleftrightarrow> (\<exists>c \<in> set ranked_combinations. accepted cfg repr post results ts c)))"
      using out h(5) acc cin by auto
    show ?thesis using pre c1 c2 c3 c4 by blast
  qed
qed

lemmas submit_defs =
  submit_official_def TEXT_MAPPING_TRIES_def HIDDEN_CANDIDATES_def try_submit_with_mapping_def
  attempt_payload_def build_payload_base_def notes_text_of_def getitem_def ENTRY_TEXT_IDS_def
  configured_identity_def ALLOWED_SECTORS_def ALLOWED_PROVIDERS_def ALLOWED_SERVICE_TYPES_def
  sector_seeb_def provider_omantel_def service_fiber_def service_5g_def dict_update_def
  HIDDEN_ALWAYS_def ENTRY_SECTOR_ID_def ENTRY_PROVIDER_ID_def ENTRY_SERVICE_TYPE_ID_def
  posted_def Let_def

lemma submit_official_second_mapping:
  "submit_official (configured_identity ''PC'') example_repr endpoint_second_mapping
     example_measurement ''2025-01-05 07:00:03''
   = (take 3 ranked_combinations,
      Inr (True, Some 200, ''ok'', Some (TEXT_MAPPING_TRIES ! 1), Some (HIDDEN_CANDIDATES ! 0)))"
  by (simp add: submit_defs ranked_combinations_def example_repr_def endpoint_second_mapping_def
        example_measurement_def)

lemma submit_official_rejecting:
  "submit_official (configured_identity ''PC'') example_repr endpoint_rejecting
     example_measurement ''2025-01-05 07:00:03''
   = (ranked_combinations, Inr (False, Some 400, ''bad'', None, None))"
  by (simp add: submit_defs ranked_combinations_def example_repr_def endpoint_rejecting_def
        example_measurement_def)

lemma endpoint_rejecting_answers: "\<forall>c \<in> set ranked_combinations.
         answered (configured_identity ''PC'') example_repr endpoint_rejecting
           example_measurement ''2025-01-05 07:00:03'' c"
    by (simp add: answered_try submit_defs ranked_combinations_def endpoint_rejecting_def)

text \<open>
  The end-to-end scenario of the specification: only the second ranked mapping with the
  first hidden set is accepted, so three posts are made, the third is reported as used,
  and no combination before it was accepted.
\<close>

lemma submit_official_third_post:
  "\<not> (\<exists>c \<in> set (butlast (take 3 ranked_combinations)).
         accepted (configured_identity ''PC'') example_repr endpoint_second_mapping
           example_measurement ''2025-01-05 07:00:03'' c)"
  using submit_official_answered [OF submit_official_second_mapping, THEN conjunct2, THEN conjunct2,
      THEN conjunct1]
  by blast

text \<open>
  Claim C1, at a failing input. The endpoint drops the connection on a request that
  carries the speed under the field of the first mapping and answers 302 to a request
  that carries it under the field of the second mapping. The request of the third
  combination of the cross product (second mapping, first hidden set) is thus one that
  returns 302. \<open>submit_official\<close> posts the first combination; the exception of
  \<open>requests.post\<close> leaves \<open>try_submit_with_mapping\<close> and \<open>submit_official\<close>, which
  have no handler: the call returns neither success nor failure, and one combination
  of six has been tried.
\<close>

theorem submit_official_misses_accepted_combination:
  "response (configured_identity ''PC'') example_repr endpoint_dropping_first_mapping
      example_measurement ''2025-01-05 07:00:03'' (TEXT_MAPPING_TRIES ! 1, HIDDEN_CANDIDATES ! 0)
     = Some (Response 302 ''Found'')
   \<and> ranked_combinations ! 2 = (TEXT_MAPPING_TRIES ! 1, HIDDEN_CANDIDATES ! 0)
   \<and> accepted (configured_identity ''PC'') example_repr endpoint_dropping_first_mapping
      example_measurement ''2025-01-05 07:00:03'' (ranked_combinations ! 2)
   \<and> submit_official (configured_identity ''PC'') example_repr endpoint_dropping_first_mapping
      example_measurement ''2025-01-05 07:00:03''
     = ([ranked_combinations ! 0], Inl (Exn RequestException ''Connection aborted.''))
   \<and> length ranked_combinations = 6"
  by (simp add: accepted_def response_def submit_defs ranked_combinations_def example_repr_def
        endpoint_dropping_first_mapping_def example_measurement_def)
section \<open>Payloads and transport errors\<close>

lemma valid_base:
  assumes "SCHOOL_SECTOR cfg \<in> set ALLOWED_SECTORS" "SERVICE_PROVIDER cfg \<in> set ALLOWED_PROVIDERS"
    "SERVICE_TYPE cfg \<in> set ALLOWED_SERVICE_TYPES"
  shows "build_payload_base cfg repr r ts =
     Inr ([(''entry.899161738'', SCHOOL_CODE cfg), (''entry.1313908626'', SCHOOL_SECTOR cfg),
           (''entry.927675658'', SERVICE_PROVIDER cfg), (''entry.66731299'', SERVICE_TYPE cfg)],
          notes_text_of cfg repr r ts)"
  using assms
  by (simp add: build_payload_base_def getitem_def ENTRY_TEXT_IDS_def dict_update_def
        ENTRY_SECTOR_ID_def ENTRY_PROVIDER_ID_def ENTRY_SERVICE_TYPE_ID_def)


lemma attempt_payload_fields_valid:
  assumes v: "SCHOOL_SECTOR cfg \<in> set ALLOWED_SECTORS" "SERVICE_PROVIDER cfg \<in> set ALLOWED_PROVIDERS"
    "SERVICE_TYPE cfg \<in> set ALLOWED_SERVICE_TYPES"
  and m: "m \<in> set TEXT_MAPPING_TRIES" and h: "h \<in> set HIDDEN_CANDIDATES"
  shows "\<exists>q7 q8 payload. getitem ENTRY_TEXT_IDS (Q7_internet_speed m) = Inr q7
           \<and> getitem ENTRY_TEXT_IDS (Q8_notes m) = Inr q8
           \<and> attempt_payload cfg repr m h results ts = Inr payload
           \<and> map_of payload q7 = Some (py_str repr (download results) @ '' Mbps'')
           \<and> map_of payload q8 = Some (notes_text_of cfg repr results ts)
           \<and> (\<forall>u p. \<exists>payload'.
                 attempt_payload cfg repr m h (results\<lparr>upload := u, ping := p\<rparr>) ts = Inr payload'
                 \<and> (\<forall>k. k \<noteq> q8 \<longrightarrow> map_of payload' k = map_of payload k))"
proof -
  from m h have
      "m = \<lparr>Q3_school_name = ''X_A'', Q5_line_number = ''X_B'', Q7_internet_speed = ''X_C'', Q8_notes = ''X_D''\<rparr>
       \<or> m = \<lparr>Q3_school_name = ''X_A'', Q5_line_number = ''X_B'', Q7_internet_speed = ''X_D'', Q8_notes = ''X_C''\<rparr>
       \<or> m = \<lparr>Q3_school_name = ''X_B'', Q5_line_number = ''X_A'', Q7_internet_speed = ''X_C'', Q8_notes = ''X_D''\<rparr>"
      "h = [] \<or> h = [(''fbzx'', ''8122308104194036559'')]"
    by (simp_all add: TEXT_MAPPING_TRIES_def HIDDEN_CANDIDATES_def)
  then show ?thesis
    by (elim disjE)
       (simp_all add: attempt_payload_def valid_base[OF v] getitem_def ENTRY_TEXT_IDS_def
          dict_update_def HIDDEN_ALWAYS_def Let_def)
qed


lemma build_payload_fields_valid:
  assumes v: "SCHOOL_SECTOR cfg \<in> set ALLOWED_SECTORS" "SERVICE_PROVIDER cfg \<in> set ALLOWED_PROVIDERS"
    "SERVICE_TYPE cfg \<in> set ALLOWED_SERVICE_TYPES_autorun"
  shows "\<exists>payload. build_payload cfg repr results ts = Inr payload
         \<and> map_of payload ''entry.1693223006'' = Some (py_str repr (download results) @ '' Mbps'')
         \<and> map_of payload ''entry.1576525453'' = Some (notes_text_of cfg repr results ts)
         \<and> (\<forall>u p. \<exists>payload'.
               build_payload cfg repr (results\<lparr>upload := u, ping := p\<rparr>) ts = Inr payload'
               \<and> (\<forall>k. k \<noteq> ''entry.1576525453'' \<longrightarrow> map_of payload' k = map_of payload k))"
  using v
  by (simp add: build_payload_def bind_exn_def getitem_def ENTRY_IDS_def HIDDEN_BASE_def dict_update_def Let_def)

lemma sublist_skip: "sublist xs ys \<Longrightarrow> sublist xs (ps @ ys)"
  by (metis sublist_append_leftI sublist_order.order_trans)

lemma notes_text_mentions:
  "sublist (py_str repr (upload results)) (notes_text_of cfg repr results ts)
   \<and> sublist (py_str repr (ping results)) (notes_text_of cfg repr results ts)"
  unfolding notes_text_of_def
  by (rule conjI; (rule sublist_append_rightI | rule sublist_skip)+)

text \<open>
  Claim C10. For a valid identity, each of the three ranked mappings and each of the two
  hidden sets, the payload of the official-form script carries, under the field id that
  the mapping gives to \<open>Q7_internet_speed\<close>, exactly the text of the download figure
  followed by \<open>" Mbps"\<close>, and the notes text under the id given to \<open>Q8_notes\<close>;
  replacing the upload and ping values of the measurement by any others changes no field
  of the payload but the notes field. The payload of the experimental-form script has
  the same two properties for its fields \<open>internet_speed\<close> and \<open>notes\<close>. The notes
  text contains the texts of the upload and of the ping value.
\<close>

theorem speed_field_is_download:
  "(SCHOOL_SECTOR cfg \<in> set ALLOWED_SECTORS \<and> SERVICE_PROVIDER cfg \<in> set ALLOWED_PROVIDERS
      \<and> SERVICE_TYPE cfg \<in> set ALLOWED_SERVICE_TYPES
      \<and> m \<in> set TEXT_MAPPING_TRIES \<and> h \<in> set HIDDEN_CANDIDATES \<longrightarrow>
     (\<exists>q7 q8 payload.
         getitem ENTRY_TEXT_IDS (Q7_internet_speed m) = Inr q7
       \<and> getitem ENTRY_TEXT_IDS (Q8_notes m) = Inr q8
       \<and> attempt_payload cfg repr m h results ts = Inr payload
       \<and> map_of payload q7 = Some (py_str repr (download results) @ '' Mbps'')
       \<and> map_of payload q8 = Some (notes_text_of cfg repr results ts)
       \<and> (\<forall>u p. \<exists>payload'.
             attempt_payload cfg repr m h (results\<lparr>upload := u, ping := p\<rparr>) ts = Inr payload'
             \<and> (\<forall>k. k \<noteq> q8 \<longrightarrow> map_of payload' k = map_of payload k))))
   \<and> (SCHOOL_SECTOR cfg \<in> set ALLOWED_SECTORS \<and> SERVICE_PROVIDER cfg \<in> set ALLOWED_PROVIDERS
      \<and> SERVICE_TYPE cfg \<in> set ALLOWED_SERVICE_TYPES_autorun \<longrightarrow>
     (\<exists>payload.
         build_payload cfg repr results ts = Inr payload
       \<and> map_of payload ''entry.1693223006'' = Some (py_str repr (download results) @ '' Mbps'')
       \<and> map_of payload ''entry.1576525453'' = Some (notes_text_of cfg repr results ts)
       \<and> (\<forall>u p. \<exists>payload'.
             build_payload cfg repr (results\<lparr>upload := u, ping := p\<rparr>) ts = Inr payload'
             \<and> (\<forall>k. k \<noteq> ''entry.1576525453'' \<longrightarrow> map_of payload' k = map_of payload k))))
   \<and> sublist (py_str repr (upload results)) (notes_text_of cfg repr results ts)
   \<and> sublist (py_str repr (ping results)) (notes_text_of cfg repr results ts)"
  using attempt_payload_fields_valid [of cfg m h repr results ts]
    build_payload_fields_valid [of cfg repr results ts]
    notes_text_mentions [of repr results cfg ts]
  by (intro conjI impI) (elim conjE, assumption)+

lemma configured_identity_valid:
  "SCHOOL_SECTOR (configured_identity d) \<in> set ALLOWED_SECTORS"
  "SERVICE_PROVIDER (configured_identity d) \<in> set ALLOWED_PROVIDERS"
  "SERVICE_TYPE (configured_identity d) \<in> set ALLOWED_SERVICE_TYPES"
  "SERVICE_TYPE (configured_identity d) \<in> set ALLOWED_SERVICE_TYPES_autorun"
  by (simp_all add: configured_identity_def ALLOWED_SECTORS_def ALLOWED_PROVIDERS_def
        ALLOWED_SERVICE_TYPES_def ALLOWED_SERVICE_TYPES_autorun_def)

theorem speed_field_is_download_witness:
  "(case attempt_payload (configured_identity ''PC'') example_repr (TEXT_MAPPING_TRIES ! 1)
           (HIDDEN_CANDIDATES ! 1) example_measurement ''2025-01-05 07:00:03'' of
      Inl e \<Rightarrow> False
    | Inr payload \<Rightarrow> map_of payload ''entry.556952249'' = Some ''45.2 Mbps'')
   \<and> (case build_payload (configured_identity ''PC'') example_repr example_measurement
            ''2025-01-05 07:00:03'' of
      Inl e \<Rightarrow> False
    | Inr payload \<Rightarrow> map_of payload ''entry.1693223006'' = Some ''45.2 Mbps'')"
proof -
  have mh: "TEXT_MAPPING_TRIES ! 1 \<in> set TEXT_MAPPING_TRIES" "HIDDEN_CANDIDATES ! 1 \<in> set HIDDEN_CANDIDATES"
    by (simp_all add: TEXT_MAPPING_TRIES_def HIDDEN_CANDIDATES_def)
  have q: "getitem ENTRY_TEXT_IDS (Q7_internet_speed (TEXT_MAPPING_TRIES ! 1)) = Inr ''entry.556952249''"
    by (simp add: TEXT_MAPPING_TRIES_def getitem_def ENTRY_TEXT_IDS_def)
  have d: "py_str example_repr (download example_measurement) @ '' Mbps'' = ''45.2 Mbps''"
    by (simp add: example_repr_def example_measurement_def)
  note t = speed_field_is_download [of "configured_identity ''PC''" "TEXT_MAPPING_TRIES ! 1"
      "HIDDEN_CANDIDATES ! 1" example_repr example_measurement "''2025-01-05 07:00:03''"]
  from t [THEN conjunct1] configured_identity_valid mh q d
  have a: "case attempt_payload (configured_identity ''PC'') example_repr (TEXT_MAPPING_TRIES ! 1)
           (HIDDEN_CANDIDATES ! 1) example_measurement ''2025-01-05 07:00:03'' of
      Inl e \<Rightarrow> False
    | Inr payload \<Rightarrow> map_of payload ''entry.556952249'' = Some ''45.2 Mbps''"
    by auto
  from t [THEN conjunct2, THEN conjunct1] configured_identity_valid d
  have b: "case build_payload (configured_identity ''PC'') example_repr example_measurement
            ''2025-01-05 07:00:03'' of
      Inl e \<Rightarrow> False
    | Inr payload \<Rightarrow> map_of payload ''entry.1693223006'' = Some ''45.2 Mbps''"
    by auto
  from a b show ?thesis by (rule conjI)
qed

lemmas autorun_defs = build_payload_def bind_exn_def ENTRY_IDS_def HIDDEN_BASE_def ALLOWED_SERVICE_TYPES_autorun_def
  service_5g_autorun_def submit_form_def is_Exception_def

text \<open>
  Claim C5, at a failing input. The endpoint times out on a request without \<open>fbzx\<close>
  and accepts a request with it. \<open>submit_official\<close> posts the first combination
  (first mapping, no \<open>fbzx\<close>); the exception of that request leaves
  \<open>try_submit_with_mapping\<close> and \<open>submit_official\<close>, which have no handler, and no
  other combination is posted, although the second one would have been accepted. In the
  experimental-form script the same failure of the first request is caught inside
  \<open>submit_form\<close>, which goes on to its second variant and returns success.
\<close>

theorem submit_official_transport_error:
  "submit_official (configured_identity ''PC'') example_repr endpoint_timeout_without_token
     example_measurement ''2025-01-05 07:00:03''
   = ([(TEXT_MAPPING_TRIES ! 0, HIDDEN_CANDIDATES ! 0)], Inl (Exn RequestException ''Read timed out.''))
   \<and> try_submit_with_mapping (configured_identity ''PC'') example_repr endpoint_timeout_without_token
        (TEXT_MAPPING_TRIES ! 0) (HIDDEN_CANDIDATES ! 1) example_measurement ''2025-01-05 07:00:03''
      = Inr (True, 200, ''ok'')
   \<and> (case build_payload (configured_identity ''PC'') example_repr example_measurement
              ''2025-01-05 07:00:03'' of
         Inl e \<Rightarrow> False
       | Inr payload \<Rightarrow>
           submit_form endpoint_timeout_with_token payload
           = ([payload, filter (\<lambda>kv. fst kv \<noteq> ''fbzx'') payload], Inr (True, Some 200, ''ok'')))"
  by (simp add: submit_defs autorun_defs endpoint_timeout_without_token_def endpoint_timeout_with_token_def
       example_repr_def example_measurement_def)

section \<open>Retries, fallback and units of the measurement\<close>

lemma attempts_loop_all_fail:
  "\<forall>a \<in> set as. caught_failure (probe a) \<Longrightarrow>
   attempts_loop probe backoff as last_err evs =
     (evs @ concat (map (failure_events probe backoff) as),
      Inl (case (if as = [] then last_err else probe_failure (probe (last as))) of
             Some e \<Rightarrow> e
           | None \<Rightarrow> Exn TypeError ''exceptions must derive from BaseException''))"
proof (induction as arbitrary: last_err evs)
  case Nil
  then show ?case by simp
next
  case (Cons a as)
  from Cons.prems have fa: "caught_failure (probe a)" and rest: "\<forall>a \<in> set as. caught_failure (probe a)"
    by simp_all
  from fa show ?case
    by (cases "probe a") (simp_all add: caught_failure_def Cons.IH[OF rest])
qed

lemma attempts_loop_success:
  "\<forall>a \<in> set pre. caught_failure (probe a) \<Longrightarrow> probe k = ProbeDone raw \<Longrightarrow>
   attempts_loop probe backoff (pre @ k # post) last_err evs =
     (evs @ concat (map (failure_events probe backoff) pre) @ [Probe k, Sleep (1 / 2)],
      Inr (measurement_of raw))"
proof (induction pre arbitrary: last_err evs)
  case Nil
  then show ?case by simp
next
  case (Cons a pre)
  from Cons.prems have fa: "caught_failure (probe a)" and rest: "\<forall>a \<in> set pre. caught_failure (probe a)"
    by simp_all
  from fa show ?case
    by (cases "probe a") (simp_all add: caught_failure_def Cons.IH[OF rest Cons.prems(2)])
qed

lemma attempts_loop_probes:
  "length (filter is_Probe (fst (attempts_loop probe backoff as last_err evs)))
     \<le> length (filter is_Probe evs) + length as"
proof (induction as arbitrary: last_err evs)
  case Nil
  then show ?case by simp
next
  case (Cons a as)
  show ?case
  proof (cases "probe a")
    case (ProbeRaisedEarly e)
    then show ?thesis
      using Cons.IH[of "Some e" "evs @ [Probe a, Sleep (retry_wait backoff a e)]"] by simp
  next
    case (ProbeRaisedLate e)
    then show ?thesis
      using Cons.IH[of "Some e" "evs @ [Probe a, Sleep (1 / 2), Sleep (retry_wait backoff a e)]"] by simp
  next
    case (ProbeDone raw)
    then show ?thesis by simp
  qed
qed

lemma attempts_loop_caught_only_if:
  "snd (attempts_loop probe backoff as last_err evs) = Inl e \<Longrightarrow> is_Exception e \<Longrightarrow>
     \<forall>a \<in> set as. caught_failure (probe a)"
proof (induction as arbitrary: last_err evs)
  case Nil
  then show ?case by simp
next
  case (Cons a as)
  show ?case
  proof (cases "probe a")
    case (ProbeRaisedEarly e')
    with Cons.prems have ex: "is_Exception e'" by (auto split: if_splits)
    with ProbeRaisedEarly Cons.prems Cons.IH show ?thesis by (auto simp: caught_failure_def)
  next
    case (ProbeRaisedLate e')
    with Cons.prems have ex: "is_Exception e'" by (auto split: if_splits)
    with ProbeRaisedLate Cons.prems Cons.IH show ?thesis by (auto simp: caught_failure_def)
  next
    case (ProbeDone raw)
    with Cons.prems show ?thesis by simp
  qed
qed

lemma attempts_loop_events:
  "set (fst (attempts_loop probe backoff as last_err evs)) \<subseteq> set evs \<union> range Probe \<union> range Sleep"
proof (induction as arbitrary: last_err evs)
  case Nil
  then show ?case by auto
next
  case (Cons a as)
  show ?case
  proof (cases "probe a")
    case (ProbeRaisedEarly e)
    then show ?thesis
      using Cons.IH[of "Some e" "evs @ [Probe a, Sleep (retry_wait backoff a e)]"] by auto
  next
    case (ProbeRaisedLate e)
    then show ?thesis
      using Cons.IH[of "Some e" "evs @ [Probe a, Sleep (1 / 2), Sleep (retry_wait backoff a e)]"] by auto
  next
    case (ProbeDone raw)
    then show ?thesis by auto
  qed
qed

lemma cli_loop_events:
  "set (fst (cli_loop run_cli loads float_str repr exes evs)) \<subseteq> set evs \<union> range Exec"
proof (induction exes arbitrary: evs)
  case Nil
  then show ?case by simp
next
  case (Cons exe exes)
  have step: "set (fst (cli_loop run_cli loads float_str repr exes (evs @ [Exec exe]))) \<subseteq> set evs \<union> range Exec"
    using Cons.IH[of "evs @ [Exec exe]"] by auto
  show ?case
  proof (cases "run_cli exe")
    case (ProcRaised e)
    then show ?thesis using step by auto
  next
    case (Completed rc out)
    then show ?thesis using step
      by (auto split: sum.splits option.splits)
  qed
qed


lemma upt_split_at:
  assumes "1 \<le> k" "k \<le> n"
  shows "[1 ..< n + 1] = [1 ..< k] @ k # [k + 1 ..< n + 1]"
proof -
  have "[1 ..< k + (n + 1 - k)] = [1 ..< k] @ [k ..< k + (n + 1 - k)]"
    using assms(1) by (rule upt_add_eq_append)
  moreover have "k + (n + 1 - k) = n + 1" using assms(2) by simp
  ultimately have "[1 ..< n + 1] = [1 ..< k] @ [k ..< n + 1]" by simp
  moreover have "[k ..< n + 1] = k # [k + 1 ..< n + 1]"
    using assms(2) upt_conv_Cons[of k "n + 1"] by simp
  ultimately show ?thesis by simp
qed

text \<open>
  Claim C8. The handler of the primary strategy waits the backoff unit times the attempt
  number after an exception whose text contains \<open>403\<close> or \<open>ConfigRetrievalError\<close>,
  and 5 seconds after any other exception. The strategy makes at most \<open>max_attempts\<close>
  attempts (three by default). When the attempts before attempt \<open>k\<close> fail with an
  exception the handler catches and attempt \<open>k\<close> succeeds, the function returns the
  result of attempt \<open>k\<close>, each earlier failure having been followed by its pause and
  the next attempt. When all attempts fail so, the function raises the exception of the
  last attempt, the one kept in \<open>last_err\<close>.
\<close>

theorem measure_speed_python_retries:
  "(transient e \<longrightarrow> retry_wait backoff attempt e = of_nat backoff * of_nat attempt)
   \<and> (\<not> transient e \<longrightarrow> retry_wait backoff attempt e = 5)
   \<and> length (filter is_Probe (fst (measure_speed_python imported probe max_attempts backoff))) \<le> max_attempts
   \<and> (1 \<le> k \<and> k \<le> max_attempts \<and> (\<forall>a \<in> {1 ..< k}. caught_failure (probe a))
        \<and> probe k = ProbeDone raw \<longrightarrow>
      measure_speed_python None probe max_attempts backoff =
        (concat (map (failure_events probe backoff) [1 ..< k]) @ [Probe k, Sleep (1 / 2)],
         Inr (measurement_of raw)))
   \<and> (1 \<le> max_attempts \<and> (\<forall>a \<in> {1 ..< max_attempts + 1}. caught_failure (probe a)) \<longrightarrow>
      (\<exists>e_last. probe_failure (probe max_attempts) = Some e_last
         \<and> measure_speed_python None probe max_attempts backoff =
             (concat (map (failure_events probe backoff) [1 ..< max_attempts + 1]), Inl e_last)))"
proof -
  have w1: "transient e \<longrightarrow> retry_wait backoff attempt e = of_nat backoff * of_nat attempt"
    by (simp add: transient_def retry_wait_def)
  have w2: "\<not> transient e \<longrightarrow> retry_wait backoff attempt e = 5"
    by (simp add: transient_def retry_wait_def)
  have cnt: "length (filter is_Probe (fst (measure_speed_python imported probe max_attempts backoff))) \<le> max_attempts"
    using attempts_loop_probes[of probe backoff "[1 ..< max_attempts + 1]" None "[]"]
    by (simp add: measure_speed_python_def del: upt_Suc split: option.splits)
  have succ: "1 \<le> k \<and> k \<le> max_attempts \<and> (\<forall>a \<in> {1 ..< k}. caught_failure (probe a))
        \<and> probe k = ProbeDone raw \<longrightarrow>
      measure_speed_python None probe max_attempts backoff =
        (concat (map (failure_events probe backoff) [1 ..< k]) @ [Probe k, Sleep (1 / 2)],
         Inr (measurement_of raw))"
  proof (intro impI, elim conjE)
    assume k: "1 \<le> k" "k \<le> max_attempts" and f: "\<forall>a \<in> {1 ..< k}. caught_failure (probe a)"
      and d: "probe k = ProbeDone raw"
    have f': "\<forall>a \<in> set [1 ..< k]. caught_failure (probe a)" using f by (simp only: set_upt)
    show "measure_speed_python None probe max_attempts backoff =
        (concat (map (failure_events probe backoff) [1 ..< k]) @ [Probe k, Sleep (1 / 2)],
         Inr (measurement_of raw))"
    proof -
      have "measure_speed_python None probe max_attempts backoff =
              attempts_loop probe backoff [1 ..< max_attempts + 1] None []"
        by (simp only: measure_speed_python_def option.case)
      also have "\<dots> = attempts_loop probe backoff ([1 ..< k] @ k # [k + 1 ..< max_attempts + 1]) None []"
        by (simp only: upt_split_at[OF k])
      also have "\<dots> = ([] @ concat (map (failure_events probe backoff) [1 ..< k]) @ [Probe k, Sleep (1 / 2)],
         Inr (measurement_of raw))"
        by (rule attempts_loop_success[OF f' d])
      finally show ?thesis by (simp del: upt_Suc)
    qed
  qed
  have exh: "1 \<le> max_attempts \<and> (\<forall>a \<in> {1 ..< max_attempts + 1}. caught_failure (probe a)) \<longrightarrow>
      (\<exists>e_last. probe_failure (probe max_attempts) = Some e_last
         \<and> measure_speed_python None probe max_attempts backoff =
             (concat (map (failure_events probe backoff) [1 ..< max_attempts + 1]), Inl e_last))"
  proof (intro impI, elim conjE)
    assume n: "1 \<le> max_attempts" and f: "\<forall>a \<in> {1 ..< max_attempts + 1}. caught_failure (probe a)"
    have f': "\<forall>a \<in> set [1 ..< max_attempts + 1]. caught_failure (probe a)"
      using f by (simp only: set_upt)
    from f n have "caught_failure (probe max_attempts)" by simp
    then obtain e_last where e: "probe_failure (probe max_attempts) = Some e_last"
      by (auto simp: caught_failure_def split: option.splits)
    have ne: "([1 ..< max_attempts + 1] = []) = False" using n by simp
    have la: "last [1 ..< max_attempts + 1] = max_attempts" using n by simp
    show "\<exists>e_last. probe_failure (probe max_attempts) = Some e_last
         \<and> measure_speed_python None probe max_attempts backoff =
             (concat (map (failure_events probe backoff) [1 ..< max_attempts + 1]), Inl e_last)"
    proof -
      have "measure_speed_python None probe max_attempts backoff =
              attempts_loop probe backoff [1 ..< max_attempts + 1] None []"
        by (simp only: measure_speed_python_def option.case)
      also have "\<dots> = ([] @ concat (map (failure_events probe backoff) [1 ..< max_attempts + 1]),
          Inl (case (if [1 ..< max_attempts + 1] = [] then None
                     else probe_failure (probe (last [1 ..< max_attempts + 1]))) of
                 Some e \<Rightarrow> e
               | None \<Rightarrow> Exn TypeError ''exceptions must derive from BaseException''))"
        by (rule attempts_loop_all_fail[OF f'])
      also have "\<dots> = (concat (map (failure_events probe backoff) [1 ..< max_attempts + 1]), Inl e_last)"
        by (simp only: ne la e if_False option.case append_Nil)
      finally show ?thesis using e by blast
    qed
  qed
  from w1 w2 cnt succ exh show ?thesis by (intro conjI)
qed


lemma retries_always_failing:
  "measure_speed_python None probe_always_failing 3 20 =
     ([Probe 1, Sleep 20, Probe 2, Sleep (1 / 2), Sleep 5, Probe 3, Sleep 60],
      Inl (Exn OtherException ''ConfigRetrievalError''))"
  by (simp add: measure_speed_python_def probe_always_failing_def upt_rec is_Exception_def
        retry_wait_def sublist_code)

text \<open>
  Claim C2, at a failing input. The two outputs describe the same line, 100 Mbit/s in
  each direction: 12500000 byte/s in the nested schema of the Ookla client, 100000000
  bit/s in the flat schema of \<open>speedtest-cli\<close>. From the flat output the fallback
  returns 100.0 for the download and for the upload. From the nested output it returns
  100.0 for the download and 800.0 for the upload: line 144 multiplies the upload by 8
  twice, where line 143 multiplies the download by 8 once.
\<close>

theorem ookla_upload_scaled_twice:
  "measure_speed_cli (\<lambda>exe. Completed 0 ookla_stdout) example_loads no_float_str example_repr
     = ([Exec ''speedtest''],
        Inr \<lparr>download = JNum 100, upload = JNum 800, ping = JNum (92 / 5),
             server = JStr ''speedtest.example.net'', ip = JStr ''192.0.2.7''\<rparr>)
   \<and> measure_speed_cli (\<lambda>exe. Completed 0 flat_stdout) example_loads no_float_str example_repr
     = ([Exec ''speedtest''],
        Inr \<lparr>download = JNum 100, upload = JNum 100, ping = JNum (92 / 5),
             server = JStr ''speedtest.example.net:8080'', ip = JStr ''192.0.2.7''\<rparr>)"
  by (simp add: measure_speed_cli_def example_loads_def flat_stdout_def ookla_stdout_def
        flat_json_def ookla_json_def bind_exn_def parse_probe_output_def parse_flat_def
        parse_ookla_def sub_field_def sub_field_or_def py_round2_def)


lemma retries_second_succeeds:
  "measure_speed_python None probe_second_succeeds 3 20 =
     ([Probe 1, Sleep 20, Probe 2, Sleep (1 / 2)], Inr (measurement_of example_raw))"
  by (simp add: measure_speed_python_def probe_second_succeeds_def upt_rec is_Exception_def
        retry_wait_def sublist_code)

theorem measure_speed_python_retries_witness:
  "measure_speed_python None probe_always_failing 3 20 =
     ([Probe 1, Sleep 20, Probe 2, Sleep (1 / 2), Sleep 5, Probe 3, Sleep 60],
      Inl (Exn OtherException ''ConfigRetrievalError''))
   \<and> measure_speed_python None probe_second_succeeds 3 20 =
     ([Probe 1, Sleep 20, Probe 2, Sleep (1 / 2)], Inr (measurement_of example_raw))
   \<and> retry_wait 20 2 (Exn OtherException ''HTTP Error 403: Forbidden'') = 40
   \<and> retry_wait 20 2 (Exn OtherException ''timed out'') = 5"
proof -
  have fails: "\<forall>a \<in> {1 ..< 3 + 1}. caught_failure (probe_always_failing a)"
    by (simp add: caught_failure_def probe_always_failing_def is_Exception_def)
  have ev: "concat (map (failure_events probe_always_failing 20) [1 ..< 3 + 1]) =
      [Probe 1, Sleep 20, Probe 2, Sleep (1 / 2), Sleep 5, Probe 3, Sleep 60]"
    by (simp add: probe_always_failing_def upt_rec retry_wait_def sublist_code)
  have last: "probe_failure (probe_always_failing 3) = Some (Exn OtherException ''ConfigRetrievalError'')"
    by (simp add: probe_always_failing_def)
  have f1: "\<forall>a \<in> {1 ..< 2}. caught_failure (probe_second_succeeds a)"
    by (simp add: caught_failure_def probe_second_succeeds_def is_Exception_def)
  have d2: "probe_second_succeeds 2 = ProbeDone example_raw"
    by (simp add: probe_second_succeeds_def)
  have ev2: "concat (map (failure_events probe_second_succeeds 20) [1 ..< 2]) = [Probe 1, Sleep 20]"
    by (simp add: probe_second_succeeds_def upt_rec retry_wait_def sublist_code)
  have t403: "transient (Exn OtherException ''HTTP Error 403: Forbidden'')"
    by (simp add: transient_def sublist_code)
  have tout: "\<not> transient (Exn OtherException ''timed out'')"
    by (simp add: transient_def sublist_code)
  note t = measure_speed_python_retries
  have a: "measure_speed_python None probe_always_failing 3 20 =
     ([Probe 1, Sleep 20, Probe 2, Sleep (1 / 2), Sleep 5, Probe 3, Sleep 60],
      Inl (Exn OtherException ''ConfigRetrievalError''))"
    using t [where probe = probe_always_failing and max_attempts = 3 and backoff = 20,
        THEN conjunct2, THEN conjunct2, THEN conjunct2, THEN conjunct2] fails ev last
    by auto
  have b: "measure_speed_python None probe_second_succeeds 3 20 =
     ([Probe 1, Sleep 20, Probe 2, Sleep (1 / 2)], Inr (measurement_of example_raw))"
    using t [where probe = probe_second_succeeds and max_attempts = 3 and backoff = 20 and k = 2
        and raw = example_raw, THEN conjunct2, THEN conjunct2, THEN conjunct2, THEN conjunct1] f1 d2 ev2
    by auto
  have c: "retry_wait 20 2 (Exn OtherException ''HTTP Error 403: Forbidden'') = 40"
    using t [where e = "Exn OtherException ''HTTP Error 403: Forbidden''" and backoff = 20
        and attempt = 2, THEN conjunct1] t403 by simp
  have d: "retry_wait 20 2 (Exn OtherException ''timed out'') = 5"
    using t [where e = "Exn OtherException ''timed out''" and backoff = 20 and attempt = 2,
        THEN conjunct2, THEN conjunct1] tout by simp
  from a b c d show ?thesis by (intro conjI)
qed

lemma python_no_fallback:
  "Fallback \<notin> set (fst (measure_speed_python imported probe n backoff))
   \<and> Exec exe \<notin> set (fst (measure_speed_python imported probe n backoff))"
  using attempts_loop_events[of probe backoff "[1 ..< n + 1]" None "[]"]
  by (auto simp: measure_speed_python_def simp del: upt_Suc split: option.splits)

lemma python_exhausted:
  assumes f: "\<forall>a \<in> {1 ..< 4}. caught_failure (probe a)"
  shows "\<exists>e. snd (measure_speed_python None probe 3 20) = Inl e \<and> is_Exception e"
proof -
  have f': "\<forall>a \<in> set [1 ..< 3 + 1]. caught_failure (probe a)" using f by simp
  from f have "caught_failure (probe 3)" by simp
  then obtain e where e: "probe_failure (probe 3) = Some e" "is_Exception e"
    by (auto simp: caught_failure_def split: option.splits)
  have ne: "([1 ..< 3 + 1] = ([]::nat list)) = False" by simp
  have la: "last [1 ..< 3 + 1] = (3::nat)" by simp
  have "measure_speed_python None probe 3 20 = attempts_loop probe 20 [1 ..< 3 + 1] None []"
    by (simp only: measure_speed_python_def option.case)
  also have "\<dots> = ([] @ concat (map (failure_events probe 20) [1 ..< 3 + 1]),
          Inl (case (if [1 ..< 3 + 1] = [] then None
                     else probe_failure (probe (last [1 ..< 3 + 1]))) of
                 Some e \<Rightarrow> e
               | None \<Rightarrow> Exn TypeError ''exceptions must derive from BaseException''))"
    by (rule attempts_loop_all_fail[OF f'])
  also have "\<dots> = (concat (map (failure_events probe 20) [1 ..< 3 + 1]), Inl e)"
    by (simp only: ne la e if_False option.case append_Nil)
  finally have "snd (measure_speed_python None probe 3 20) = Inl e" by (simp only: snd_conv)
  with e show ?thesis by blast
qed

lemma python_caught_only_if:
  assumes "snd (measure_speed_python imported probe 3 20) = Inl e" "is_Exception e"
  shows "(imported = None \<and> (\<forall>a \<in> {1 ..< 4}. caught_failure (probe a)))
    \<or> import_failure_caught imported"
proof (cases imported)
  case None
  then have "snd (attempts_loop probe 20 [1 ..< 3 + 1] None []) = Inl e"
    using assms(1) by (simp only: measure_speed_python_def option.case)
  from attempts_loop_caught_only_if[OF this assms(2)] None show ?thesis by simp
next
  case (Some e')
  with assms show ?thesis
    by (auto simp: measure_speed_python_def import_failure_caught_def is_Exception_def
          split: if_splits)
qed

lemma python_import_fails:
  assumes "import_failure_caught imported"
  shows "\<exists>e. measure_speed_python imported probe n backoff = ([], Inl e) \<and> is_Exception e"
  using assms
  by (auto simp: measure_speed_python_def import_failure_caught_def split: option.splits)

text \<open>
  Claim C9, where it fails. Importing the speed-test module raises an
  \<open>AttributeError\<close>; every attempt of the in-process probe would succeed, and the
  command-line client is installed. The exception is not an \<open>ImportError\<close>, so it
  leaves \<open>measure_speed_python\<close> before the retry loop and is caught by
  \<^verbatim>\<open>except Exception\<close> in \<open>measure_speed\<close>: the fallback is invoked and delivers the
  result although no attempt of the primary strategy has been made.
\<close>

theorem fallback_without_attempt:
  "measure_speed probes_import_broken
     = ([Fallback, Exec ''speedtest''],
        Inr \<lparr>download = JNum 100, upload = JNum 100, ping = JNum (92 / 5),
             server = JStr ''speedtest.example.net:8080'', ip = JStr ''192.0.2.7''\<rparr>)
   \<and> filter is_Probe (fst (measure_speed probes_import_broken)) = []
   \<and> probe_attempt probes_import_broken 1 = ProbeDone example_raw"
  by (simp add: measure_speed_def probes_import_broken_def measure_speed_python_def is_Exception_def
        measure_speed_cli_def example_loads_def flat_stdout_def
        flat_json_def bind_exn_def parse_probe_output_def parse_flat_def
        parse_ookla_def sub_field_def sub_field_or_def py_round2_def)

text \<open>
  Claim C9, as amended. \<open>measure_speed\<close> calls the command-line fallback exactly when
  the primary strategy ends with an exception that \<^verbatim>\<open>except Exception\<close> catches: when
  the module is imported and each of the three attempts has failed with such an exception
  (the primary strategy is exhausted), or when the import itself raises such an exception
  other than \<open>ImportError\<close> (no attempt is made then). In both cases the result is the
  result of the fallback. When an attempt succeeds after earlier caught failures (one
  transient failure and a successful retry, say), \<open>measure_speed\<close> returns the result
  of that attempt; the fallback is not called and no executable is run.
\<close>

theorem measure_speed_fallback_iff:
  "(Fallback \<in> set (fst (measure_speed env))
      \<longleftrightarrow> (probe_import env = None \<and> (\<forall>a \<in> {1 ..< 4}. caught_failure (probe_attempt env a)))
          \<or> import_failure_caught (probe_import env))
   \<and> (probe_import env = None \<and> (\<forall>a \<in> {1 ..< 4}. caught_failure (probe_attempt env a)) \<longrightarrow>
        measure_speed env =
          (concat (map (failure_events (probe_attempt env) 20) [1 ..< 4]) @ [Fallback]
             @ fst (measure_speed_cli (probe_run_cli env) (probe_loads env) (probe_float_str env)
                      (probe_repr env)),
           snd (measure_speed_cli (probe_run_cli env) (probe_loads env) (probe_float_str env)
                  (probe_repr env))))
   \<and> (import_failure_caught (probe_import env) \<longrightarrow>
        measure_speed env =
          ([Fallback]
             @ fst (measure_speed_cli (probe_run_cli env) (probe_loads env) (probe_float_str env)
                      (probe_repr env)),
           snd (measure_speed_cli (probe_run_cli env) (probe_loads env) (probe_float_str env)
                  (probe_repr env))))
   \<and> (probe_import env = None \<and> 1 \<le> k \<and> k \<le> 3
        \<and> (\<forall>a \<in> {1 ..< k}. caught_failure (probe_attempt env a))
        \<and> probe_attempt env k = ProbeDone raw \<longrightarrow>
        measure_speed env =
          (concat (map (failure_events (probe_attempt env) 20) [1 ..< k]) @ [Probe k, Sleep (1 / 2)],
           Inr (measurement_of raw))
        \<and> Fallback \<notin> set (fst (measure_speed env))
        \<and> (\<forall>exe. Exec exe \<notin> set (fst (measure_speed env))))"
proof -
  let ?py = "measure_speed_python (probe_import env) (probe_attempt env) 3 20"
  let ?cli = "measure_speed_cli (probe_run_cli env) (probe_loads env) (probe_float_str env) (probe_repr env)"
  let ?exhausted = "probe_import env = None \<and> (\<forall>a \<in> {1 ..< 4}. caught_failure (probe_attempt env a))"
  have cli_ev: "Fallback \<notin> set (fst ?cli)"
    using cli_loop_events[of "probe_run_cli env" "probe_loads env" "probe_float_str env" "probe_repr env"
        "[''speedtest'', ''speedtest.exe'']" "[]"]
    by (auto simp: measure_speed_cli_def)
  have exh: "?exhausted \<longrightarrow>
        measure_speed env =
          (concat (map (failure_events (probe_attempt env) 20) [1 ..< 4]) @ [Fallback] @ fst ?cli, snd ?cli)"
  proof
    assume h: ?exhausted
    then have f: "\<forall>a \<in> set [1 ..< 3 + 1]. caught_failure (probe_attempt env a)" by simp
    from h have "caught_failure (probe_attempt env 3)" by simp
    then obtain e where e: "probe_failure (probe_attempt env 3) = Some e" "is_Exception e"
      by (auto simp: caught_failure_def split: option.splits)
    have ne: "([1 ..< 3 + 1] = ([]::nat list)) = False" by simp
    have la: "last [1 ..< 3 + 1] = (3::nat)" by simp
    have "?py = attempts_loop (probe_attempt env) 20 [1 ..< 3 + 1] None []"
      using h by (simp only: measure_speed_python_def option.case)
    also have "\<dots> = ([] @ concat (map (failure_events (probe_attempt env) 20) [1 ..< 3 + 1]),
          Inl (case (if [1 ..< 3 + 1] = [] then None
                     else probe_failure (probe_attempt env (last [1 ..< 3 + 1]))) of
                 Some e \<Rightarrow> e
               | None \<Rightarrow> Exn TypeError ''exceptions must derive from BaseException''))"
      by (rule attempts_loop_all_fail[OF f])
    also have "\<dots> = (concat (map (failure_events (probe_attempt env) 20) [1 ..< 3 + 1]), Inl e)"
      by (simp only: ne la e if_False option.case append_Nil)
    finally have py: "?py = (concat (map (failure_events (probe_attempt env) 20) [1 ..< 4]), Inl e)"
      by (simp del: upt_Suc)
    show "measure_speed env =
          (concat (map (failure_events (probe_attempt env) 20) [1 ..< 4]) @ [Fallback] @ fst ?cli, snd ?cli)"
      using e(2) by (simp add: measure_speed_def py split: prod.splits del: upt_Suc)
  qed
  have imp: "import_failure_caught (probe_import env) \<longrightarrow>
        measure_speed env = ([Fallback] @ fst ?cli, snd ?cli)"
  proof
    assume h: "import_failure_caught (probe_import env)"
    from python_import_fails[OF h, of "probe_attempt env" 3 20]
    obtain e where "?py = ([], Inl e)" "is_Exception e" by blast
    then show "measure_speed env = ([Fallback] @ fst ?cli, snd ?cli)"
      by (simp add: measure_speed_def split: prod.splits)
  qed
  have iff: "Fallback \<in> set (fst (measure_speed env))
      \<longleftrightarrow> ?exhausted \<or> import_failure_caught (probe_import env)"
  proof
    assume fb: "Fallback \<in> set (fst (measure_speed env))"
    obtain evs r where py: "?py = (evs, r)" by (cases ?py)
    have nf: "Fallback \<notin> set evs" using python_no_fallback[of "probe_import env" "probe_attempt env" 3 20] py
      by simp
    show "?exhausted \<or> import_failure_caught (probe_import env)"
    proof (cases r)
      case (Inr m)
      with py fb nf show ?thesis by (simp add: measure_speed_def)
    next
      case (Inl e)
      with py fb nf have "is_Exception e"
        by (auto simp: measure_speed_def split: if_splits prod.splits)
      with python_caught_only_if[of "probe_import env" "probe_attempt env" e] py Inl
      show ?thesis by simp
    qed
  next
    assume h: "?exhausted \<or> import_failure_caught (probe_import env)"
    then show "Fallback \<in> set (fst (measure_speed env))"
      using exh imp by auto
  qed
  have succ: "probe_import env = None \<and> 1 \<le> k \<and> k \<le> 3
        \<and> (\<forall>a \<in> {1 ..< k}. caught_failure (probe_attempt env a))
        \<and> probe_attempt env k = ProbeDone raw \<longrightarrow>
        measure_speed env =
          (concat (map (failure_events (probe_attempt env) 20) [1 ..< k]) @ [Probe k, Sleep (1 / 2)],
           Inr (measurement_of raw))
        \<and> Fallback \<notin> set (fst (measure_speed env))
        \<and> (\<forall>exe. Exec exe \<notin> set (fst (measure_speed env)))"
  proof (intro impI, elim conjE)
    assume ok: "probe_import env = None" and k: "1 \<le> k" "k \<le> 3"
      and f: "\<forall>a \<in> {1 ..< k}. caught_failure (probe_attempt env a)"
      and d: "probe_attempt env k = ProbeDone raw"
    have f': "\<forall>a \<in> set [1 ..< k]. caught_failure (probe_attempt env a)" using f by (simp only: set_upt)
    have "?py = attempts_loop (probe_attempt env) 20 [1 ..< 3 + 1] None []"
      using ok by (simp only: measure_speed_python_def option.case)
    also have "\<dots> = attempts_loop (probe_attempt env) 20 ([1 ..< k] @ k # [k + 1 ..< 3 + 1]) None []"
      by (simp only: upt_split_at[OF k])
    also have "\<dots> = ([] @ concat (map (failure_events (probe_attempt env) 20) [1 ..< k])
                        @ [Probe k, Sleep (1 / 2)], Inr (measurement_of raw))"
      by (rule attempts_loop_success[OF f' d])
    finally have py: "?py = (concat (map (failure_events (probe_attempt env) 20) [1 ..< k])
                        @ [Probe k, Sleep (1 / 2)], Inr (measurement_of raw))"
      by (simp del: upt_Suc)
    then have ms: "measure_speed env = ?py" by (simp add: measure_speed_def del: upt_Suc)
    show "measure_speed env =
          (concat (map (failure_events (probe_attempt env) 20) [1 ..< k]) @ [Probe k, Sleep (1 / 2)],
           Inr (measurement_of raw))
        \<and> Fallback \<notin> set (fst (measure_speed env))
        \<and> (\<forall>exe. Exec exe \<notin> set (fst (measure_speed env)))"
      using ms py python_no_fallback[where imported = "probe_import env" and probe = "probe_attempt env"
          and n = 3 and backoff = 20]
      by (simp del: upt_Suc)
  qed
  from iff exh imp succ show ?thesis by (intro conjI)
qed


theorem measure_speed_fallback_iff_witness:
  "Fallback \<in> set (fst (measure_speed env_primary_exhausted))
   \<and> measure_speed probes_import_broken
       = ([Fallback]
            @ fst (measure_speed_cli (\<lambda>exe. Completed 0 flat_stdout) example_loads no_float_str example_repr),
          snd (measure_speed_cli (\<lambda>exe. Completed 0 flat_stdout) example_loads no_float_str example_repr))
   \<and> measure_speed env_retry_succeeds =
       ([Probe 1, Sleep 20, Probe 2, Sleep (1 / 2)], Inr (measurement_of example_raw))
   \<and> Fallback \<notin> set (fst (measure_speed env_retry_succeeds))"
proof -
  have ex: "probe_import env_primary_exhausted = None
      \<and> (\<forall>a \<in> {1 ..< 4}. caught_failure (probe_attempt env_primary_exhausted a))"
    by (simp add: env_primary_exhausted_def caught_failure_def probe_always_failing_def
          is_Exception_def)
  have a: "Fallback \<in> set (fst (measure_speed env_primary_exhausted))"
    using measure_speed_fallback_iff [where env = env_primary_exhausted, THEN conjunct1] ex
    by blast
  have br: "import_failure_caught (probe_import probes_import_broken)"
    by (simp add: probes_import_broken_def import_failure_caught_def is_Exception_def)
  have i: "measure_speed probes_import_broken
       = ([Fallback]
            @ fst (measure_speed_cli (\<lambda>exe. Completed 0 flat_stdout) example_loads no_float_str example_repr),
          snd (measure_speed_cli (\<lambda>exe. Completed 0 flat_stdout) example_loads no_float_str example_repr))"
    using measure_speed_fallback_iff [where env = probes_import_broken, THEN conjunct2, THEN conjunct2,
        THEN conjunct1, rule_format, OF br]
    by (simp add: probes_import_broken_def)
  have ok: "probe_import env_retry_succeeds = None \<and> (1::nat) \<le> 2 \<and> (2::nat) \<le> 3
      \<and> (\<forall>a \<in> {1 ..< 2}. caught_failure (probe_attempt env_retry_succeeds a))
      \<and> probe_attempt env_retry_succeeds 2 = ProbeDone example_raw"
    by (simp add: env_retry_succeeds_def caught_failure_def probe_second_succeeds_def
          is_Exception_def)
  have ev: "concat (map (failure_events (probe_attempt env_retry_succeeds) 20) [1 ..< 2])
      = [Probe 1, Sleep 20]"
    by (simp add: env_retry_succeeds_def probe_second_succeeds_def upt_rec retry_wait_def sublist_code)
  note t = measure_speed_fallback_iff [where env = env_retry_succeeds and k = 2 and raw = example_raw,
      THEN conjunct2, THEN conjunct2, THEN conjunct2, rule_format, OF ok]
  have b: "measure_speed env_retry_succeeds =
       ([Probe 1, Sleep 20, Probe 2, Sleep (1 / 2)], Inr (measurement_of example_raw))"
    using t [THEN conjunct1] ev by simp
  have c: "Fallback \<notin> set (fst (measure_speed env_retry_succeeds))"
    using t [THEN conjunct2, THEN conjunct1] .
  from a i b c show ?thesis by (intro conjI)
qed
section \<open>The order of a run\<close>

lemma measure_fine: "measure_speed probes_fine = ([Probe 1, Sleep (1 / 2)], Inr (measurement_of example_raw))"
  by (simp add: measure_speed_def probes_fine_def measure_speed_python_def upt_rec)

lemma measure_failing:
  "measure_speed probes_failing =
     ([Probe 1, Sleep 20, Probe 2, Sleep (1 / 2), Sleep 5, Probe 3, Sleep 60, Fallback,
       Exec ''speedtest'', Exec ''speedtest.exe''],
      Inl (Exn RuntimeError ''speedtest CLI''))"
  by (simp add: measure_speed_def probes_failing_def measure_speed_python_def upt_rec
        probe_always_failing_def is_Exception_def retry_wait_def sublist_code measure_speed_cli_def)

text \<open>
  Claim C3, where it fails. On a morning when the in-process probe fails three times and
  no command-line client is installed, \<open>run_once\<close> ends with the \<open>RuntimeError\<close> of
  the fallback: the journal holds the measurement only, nothing is written to the log
  (the file is not even created), and the scheduler, which fires the slot from the head
  of its loop, is stopped by that exception.
\<close>

theorem run_once_failed_measurement:
  "run_once env_measure_fails ''07:00'' world_morning =
     (Some (Exn RuntimeError ''speedtest CLI''),
      \<lparr>clock = 25205 + 171 / 2, log_file = None,
       journal = [Run ''07:00'' 25205, Probe 1, Sleep 20, Probe 2, Sleep (1 / 2), Sleep 5, Probe 3,
                  Sleep 60, Fallback, Exec ''speedtest'', Exec ''speedtest.exe'']\<rparr>)
   \<and> control (step env_measure_fails (loop_scheduler world_morning))
       = Stopped (Exn RuntimeError ''speedtest CLI'')
   \<and> log_file (world (step env_measure_fails (loop_scheduler world_morning))) = None"
proof -
  have sel: "env_probes env_measure_fails = (\<lambda>c. probes_failing)"
     "env_elapse env_measure_fails = elapse_plain"
    by (simp_all add: env_measure_fails_def)
  have r: "\<And>label w. run_once env_measure_fails label w =
     (Some (Exn RuntimeError ''speedtest CLI''),
      w\<lparr>clock := clock w + 171 / 2,
        journal := journal w @ [Run label (clock w), Probe 1, Sleep 20, Probe 2, Sleep (1 / 2), Sleep 5, Probe 3,
                  Sleep 60, Fallback, Exec ''speedtest'', Exec ''speedtest.exe'']\<rparr>)"
    by (simp add: run_once_def sel measure_failing tick_def elapse_plain_def slept_def)
  show ?thesis
    by (simp add: r world_morning_def loop_scheduler_def step_def SCHEDULES_def now_def today_def
          tick_def sel elapse_plain_def date_of_def combine_def rat_floor)
qed


lemma measure_speed_events:
  "set (fst (measure_speed p)) \<subseteq> range Probe \<union> range Sleep \<union> {Fallback} \<union> range Exec"
proof -
  obtain evs r where py: "measure_speed_python (probe_import p) (probe_attempt p) 3 20 = (evs, r)"
    by (cases "measure_speed_python (probe_import p) (probe_attempt p) 3 20")
  obtain evs' r' where cli: "measure_speed_cli (probe_run_cli p) (probe_loads p) (probe_float_str p) (probe_repr p) = (evs', r')"
    by (cases "measure_speed_cli (probe_run_cli p) (probe_loads p) (probe_float_str p) (probe_repr p)")
  have a: "set evs \<subseteq> range Probe \<union> range Sleep"
    using attempts_loop_events[of "probe_attempt p" 20 "[1 ..< 3 + 1]" None "[]"] py
    by (auto simp: measure_speed_python_def simp del: upt_Suc split: if_splits option.splits)
  have b: "set evs' \<subseteq> range Exec"
    using cli_loop_events[of "probe_run_cli p" "probe_loads p" "probe_float_str p" "probe_repr p"
        "[''speedtest'', ''speedtest.exe'']" "[]"] cli
    by (auto simp: measure_speed_cli_def)
  show ?thesis
    using a b by (auto simp: measure_speed_def py cli split: sum.splits if_splits)
qed

lemma run_once_measure_fails:
  assumes "measure_speed (env_probes env (clock w)) = (evs, Inl e)"
  shows "run_once env label w =
     (Some e, w\<lparr>clock := tick env Measuring (slept evs) (clock w),
               journal := journal w @ [Run label (clock w)] @ evs\<rparr>)"
  using assms by (simp add: run_once_def)

lemma run_once_measured:
  assumes m: "measure_speed (env_probes env (clock w)) = (evs, Inr results)"
    and t: "t = tick env Reading 0 (tick env Measuring (slept evs) (clock w))"
    and s: "submit_official (env_identity env) (probe_repr (env_probes env (clock w)))
              (env_endpoint env t) results (env_strftime env t) = (tried, submitted)"
  shows "run_once env label w =
     (case submitted of
        Inl e \<Rightarrow>
          (Some e,
           \<lparr>clock = tick env Submitting 0 t,
            log_file = (case log_file w of None \<Rightarrow> Some [header_row] | Some rows \<Rightarrow> Some rows),
            journal = journal w @ [Run label (clock w)] @ evs @ [Header]
                      @ map (\<lambda>c. Post (fst c) (snd c)) tried\<rparr>)
      | Inr r \<Rightarrow>
          (None,
           \<lparr>clock = tick env Submitting 0 t,
            log_file = Some ((case log_file w of None \<Rightarrow> [header_row] | Some rows \<Rightarrow> rows)
                         @ [log_row (env_identity env) (probe_repr (env_probes env (clock w))) label
                              (env_strftime env t) results (fst r) (fst (snd r))
                              (fst (snd (snd (snd r)))) (snd (snd (snd (snd r))))]),
            journal = journal w @ [Run label (clock w)] @ evs @ [Header]
                      @ map (\<lambda>c. Post (fst c) (snd c)) tried
                      @ [Append (log_row (env_identity env) (probe_repr (env_probes env (clock w))) label
                              (env_strftime env t) results (fst r) (fst (snd r))
                              (fst (snd (snd (snd r)))) (snd (snd (snd (snd r)))))]\<rparr>))"
  using m s unfolding t
  by (cases w)
     (auto simp: run_once_def now_def Let_def ensure_log_header_def append_log_def
        split: sum.splits option.splits prod.splits)


lemma step_waiting_fire:
  assumes "control s = Waiting nt nl ws" "ws \<le> 0"
  shows "step env s =
     (case run_once env nl (world s) of
        (Some e, w1) \<Rightarrow> \<lparr>control = Stopped e, last_run = last_run s, world = w1\<rparr>
      | (None, w1) \<Rightarrow>
          \<lparr>control = Top, last_run = (last_run s)(nl := Some (fst (today env w1))),
           world = snd (today env w1)\<rparr>)"
  using assms by (simp add: step_def split: prod.splits option.splits)

section \<open>How the runs of a step end\<close>

lemma run_once_result: "fst (run_once env label w) = run_result env (clock w)"
  by (simp add: run_once_def run_result_def now_def Let_def ensure_log_header_def
        split: prod.splits sum.splits)

lemma run_results_append: "run_results env (xs @ ys) = run_results env xs @ run_results env ys"
  by (induction xs rule: run_results.induct) simp_all

lemma run_results_none:
  "\<forall>ev \<in> set evs. \<not> is_Run ev \<Longrightarrow> run_results env evs = []"
  by (induction evs rule: run_results.induct) simp_all

lemma run_results_mem:
  "Run l c \<in> set evs \<Longrightarrow> run_result env c \<in> set (run_results env evs)"
  by (induction evs rule: run_results.induct) auto

lemma run_results_mem_conv:
  "r \<in> set (run_results env evs) \<Longrightarrow> \<exists>l c. Run l c \<in> set evs \<and> r = run_result env c"
  by (induction evs rule: run_results.induct) auto

lemma run_once_events:
  assumes "run_once env label w = (r, w')"
  shows "\<exists>evs. journal w' = journal w @ Run label (clock w) # evs \<and> (\<forall>ev \<in> set evs. \<not> is_Run ev)"
proof -
  obtain evs measured where m: "measure_speed (env_probes env (clock w)) = (evs, measured)"
    by (cases "measure_speed (env_probes env (clock w))")
  have ev: "\<forall>ev \<in> set evs. \<not> is_Run ev"
    using measure_speed_events[of "env_probes env (clock w)"] m by auto
  show ?thesis
  proof (cases measured)
    case (Inl e)
    with m assms ev show ?thesis
      by (auto simp: run_once_measure_fails)
  next
    case (Inr results)
    define t where "t = tick env Reading 0 (tick env Measuring (slept evs) (clock w))"
    obtain tried submitted where s: "submit_official (env_identity env) (probe_repr (env_probes env (clock w)))
              (env_endpoint env t) results (env_strftime env t) = (tried, submitted)"
      by (cases "submit_official (env_identity env) (probe_repr (env_probes env (clock w)))
              (env_endpoint env t) results (env_strftime env t)")
    note r = run_once_measured[OF m[unfolded Inr] t_def s, of label]
    show ?thesis
      using r assms ev
      by (cases submitted) auto
  qed
qed

lemma run_once_results:
  assumes "run_once env label w = (r, w')"
  shows "\<exists>evs. journal w' = journal w @ evs \<and> run_results env evs = [r]"
proof -
  from run_once_events[OF assms] obtain evs where
    j: "journal w' = journal w @ Run label (clock w) # evs" and n: "\<forall>ev \<in> set evs. \<not> is_Run ev"
    by blast
  have "r = run_result env (clock w)" using run_once_result[of env label w] assms by simp
  then have "run_results env (Run label (clock w) # evs) = [r]"
    using run_results_none[OF n] by simp
  with j show ?thesis by blast
qed


lemma today_journal: "today env w = (d, w') \<Longrightarrow> journal w' = journal w"
  by (auto simp: today_def now_def Let_def)

lemma now_journal: "now env w = (c, w') \<Longrightarrow> journal w' = journal w"
  by (auto simp: now_def Let_def)

lemma catch_up_results:
  "catch_up env t slots lr ra w = (r, lr', ra', w') \<Longrightarrow>
     \<exists>evs k. journal w' = journal w @ evs
       \<and> run_results env evs = replicate k None @ (case r of Some e \<Rightarrow> [Some e] | None \<Rightarrow> [])"
proof (induction slots arbitrary: lr ra w)
  case Nil
  then show ?case by simp
next
  case (Cons slot rest)
  obtain label h m where slot: "slot = (label, h, m)" by (cases slot)
  obtain d1 w1 where t1: "today env w = (d1, w1)" by (cases "today env w")
  obtain d2 w2 where t2: "today env w1 = (d2, w2)" by (cases "today env w1")
  note j1 = today_journal[OF t1]
  note j2 = today_journal[OF t2]
  show ?case
  proof (cases "combine d1 h m \<le> t")
    case False
    with Cons.prems slot t1 have "catch_up env t rest lr ra w1 = (r, lr', ra', w')" by simp
    from Cons.IH[OF this] j1 show ?thesis by simp
  next
    case True
    note due = True
    show ?thesis
    proof (cases "lr label \<noteq> Some d2")
      case False
      with Cons.prems slot t1 t2 due have "catch_up env t rest lr ra w2 = (r, lr', ra', w')" by simp
      from Cons.IH[OF this] j1 j2 show ?thesis by simp
    next
      case True
      obtain r3 w3 where ro: "run_once env label w2 = (r3, w3)" by (cases "run_once env label w2")
      from run_once_results[OF ro] obtain evs3 where
        j3: "journal w3 = journal w2 @ evs3" and r3: "run_results env evs3 = [r3]" by blast
      show ?thesis
      proof (cases r3)
        case (Some e)
        with Cons.prems slot t1 t2 due True ro have "r = Some e" "w' = w3" by simp_all
        with j1 j2 j3 r3 Some have "journal w' = journal w @ evs3
            \<and> run_results env evs3 = replicate 0 None @ (case r of Some e \<Rightarrow> [Some e] | None \<Rightarrow> [])"
          by simp
        then show ?thesis by blast
      next
        case None
        obtain d3 w4 where t3: "today env w3 = (d3, w4)" by (cases "today env w3")
        note j4 = today_journal[OF t3]
        from Cons.prems slot t1 t2 due True ro None t3
        have "catch_up env t rest (lr(label := Some d3)) True w4 = (r, lr', ra', w')" by simp
        from Cons.IH[OF this] obtain evs k where
          a: "journal w' = journal w4 @ evs"
          and b: "run_results env evs = replicate k None @ (case r of Some e \<Rightarrow> [Some e] | None \<Rightarrow> [])"
          by blast
        have "journal w' = journal w @ (evs3 @ evs)" using a j1 j2 j3 j4 by simp
        moreover have "run_results env (evs3 @ evs)
            = replicate (Suc k) None @ (case r of Some e \<Rightarrow> [Some e] | None \<Rightarrow> [])"
          using b r3 None by (simp add: run_results_append)
        ultimately show ?thesis by blast
      qed
    qed
  qed
qed

lemma next_dt_for_journal: "next_dt_for env h m d w = (sched, w') \<Longrightarrow> journal w' = journal w"
  by (auto simp: next_dt_for_def now_def Let_def split: prod.splits)

lemma upcoming_loop_journal:
  "upcoming_loop env slots lr up w = (up', w') \<Longrightarrow>
     journal w' = journal w \<and> length up' = length up + length slots"
proof (induction slots arbitrary: up w)
  case Nil
  then show ?case by simp
next
  case (Cons slot rest)
  obtain label h m where slot: "slot = (label, h, m)" by (cases slot)
  obtain d1 w1 where t1: "today env w = (d1, w1)" by (cases "today env w")
  obtain d2 w2 where t2: "today env w1 = (d2, w2)" by (cases "today env w1")
  obtain d3 w3 where t3: "today env w2 = (d3, w3)" by (cases "today env w2")
  obtain sched w4 where n4: "next_dt_for env h m d3 w3 = (sched, w4)"
    by (cases "next_dt_for env h m d3 w3")
  obtain t5 w5 where n5: "now env w4 = (t5, w5)" by (cases "now env w4")
  have j: "journal w4 = journal w" "journal w5 = journal w"
    using today_journal[OF t1] today_journal[OF t2] today_journal[OF t3]
      next_dt_for_journal[OF n4] now_journal[OF n5] by simp_all
  show ?case
  proof (cases "lr label = Some d2")
    case True
    with Cons.prems slot t1 t2 t3 n4
    have "upcoming_loop env rest lr (up @ [(sched, label)]) w4 = (up', w')"
      by (simp add: Let_def split del: if_split)
    from Cons.IH[OF this] j show ?thesis by simp
  next
    case False
    with Cons.prems slot t1 t2 t3 n4 n5
    have "upcoming_loop env rest lr
            (up @ [(if t5 < combine d1 h m then combine d1 h m else sched, label)]) w5 = (up', w')"
      by (simp add: Let_def split del: if_split)
    from Cons.IH[OF this] j show ?thesis by simp
  qed
qed

lemma min_upcoming_None: "(min_upcoming xs = None) = (xs = [])"
  by (induction xs) (auto split: option.splits)

lemma step_results:
  assumes "running s"
  shows "\<exists>evs k. journal (world (step env s)) = journal (world s) @ evs
     \<and> run_results env evs
         = replicate k None @ (case control (step env s) of Stopped e \<Rightarrow> [Some e] | Top \<Rightarrow> []
                                | Waiting nt nl ws \<Rightarrow> [])"
proof (cases "control s")
  case Top
  obtain t w1 where n: "now env (world s) = (t, w1)" by (cases "now env (world s)")
  obtain r lr' ra' w2 where c: "catch_up env t SCHEDULES (last_run s) False w1 = (r, lr', ra', w2)"
    by (cases "catch_up env t SCHEDULES (last_run s) False w1") auto
  obtain up w3 where u: "upcoming_loop env SCHEDULES lr' [] w2 = (up, w3)"
    by (cases "upcoming_loop env SCHEDULES lr' [] w2")
  obtain t' w4 where n': "now env w3 = (t', w4)" by (cases "now env w3")
  from catch_up_results[OF c] obtain evs k where
    j2: "journal w2 = journal w1 @ evs"
    and rr: "run_results env evs = replicate k None @ (case r of Some e \<Rightarrow> [Some e] | None \<Rightarrow> [])"
    by blast
  have j1: "journal w1 = journal (world s)" by (rule now_journal[OF n])
  have j3: "journal w3 = journal w2" "length up = length SCHEDULES"
    using upcoming_loop_journal[OF u] by simp_all
  have j4: "journal w4 = journal w3" by (rule now_journal[OF n'])
  have st: "step env s =
     (case r of
        Some e \<Rightarrow> \<lparr>control = Stopped e, last_run = lr', world = w2\<rparr>
      | None \<Rightarrow>
          if ra' then \<lparr>control = Top, last_run = lr', world = sleep env 30 w2\<rparr>
          else
            (case min_upcoming up of
               None \<Rightarrow> \<lparr>control = Stopped (Exn ValueError ''min() arg is an empty sequence''),
                         last_run = lr', world = w3\<rparr>
             | Some (next_time, next_label) \<Rightarrow>
                 \<lparr>control = Waiting next_time next_label (max 5 (py_int (next_time - t'))),
                  last_run = lr', world = w4\<rparr>))"
    using Top n c u n' by (simp add: step_def split: option.splits prod.splits)
  have mu: "min_upcoming up \<noteq> None"
    using j3(2) by (auto simp: min_upcoming_None SCHEDULES_def)
  show ?thesis
  proof (cases r)
    case (Some e)
    then have "journal (world (step env s)) = journal (world s) @ evs
      \<and> run_results env evs = replicate k None @ (case control (step env s) of Stopped e \<Rightarrow> [Some e] | Top \<Rightarrow> []
                                | Waiting nt nl ws \<Rightarrow> [])"
      using st j1 j2 rr by simp
    then show ?thesis by blast
  next
    case None
    show ?thesis
    proof (cases ra')
      case True
      then have "journal (world (step env s)) = journal (world s) @ (evs @ [Sleep 30])
      \<and> run_results env (evs @ [Sleep 30]) = replicate k None @ (case control (step env s) of Stopped e \<Rightarrow> [Some e] | Top \<Rightarrow> []
                                | Waiting nt nl ws \<Rightarrow> [])"
        using st None j1 j2 rr by (simp add: sleep_def run_results_append)
      then show ?thesis by blast
    next
      case False
      from mu obtain nt nl where m: "min_upcoming up = Some (nt, nl)" by (cases "min_upcoming up") auto
      have "journal (world (step env s)) = journal (world s) @ evs
      \<and> run_results env evs = replicate k None @ (case control (step env s) of Stopped e \<Rightarrow> [Some e] | Top \<Rightarrow> []
                                | Waiting nt nl ws \<Rightarrow> [])"
        using st None False m j1 j2 j3 j4 rr by simp
      then show ?thesis by blast
    qed
  qed
next
  case (Waiting nt nl ws)
  show ?thesis
  proof (cases "0 < ws")
    case True
    obtain t w2 where n: "now env (sleep env (of_int (min ws 300)) (world s)) = (t, w2)"
      by (cases "now env (sleep env (of_int (min ws 300)) (world s))")
    have st: "step env s = \<lparr>control = Waiting nt nl (py_int (nt - t)), last_run = last_run s, world = w2\<rparr>"
      using Waiting True n by (simp add: step_def Let_def)
    have "journal (world (step env s)) = journal (world s) @ [Sleep (of_int (min ws 300))]
      \<and> run_results env [Sleep (of_int (min ws 300))]
          = replicate 0 None @ (case control (step env s) of Stopped e \<Rightarrow> [Some e] | Top \<Rightarrow> []
                                | Waiting nt nl ws \<Rightarrow> [])"
      using now_journal[OF n] by (simp add: st sleep_def)
    then show ?thesis by blast
  next
    case False
    then have le: "ws \<le> 0" by simp
    obtain r w1 where ro: "run_once env nl (world s) = (r, w1)" by (cases "run_once env nl (world s)")
    obtain d w2 where td: "today env w1 = (d, w2)" by (cases "today env w1")
    from run_once_results[OF ro] obtain evs where
      j: "journal w1 = journal (world s) @ evs" and rr: "run_results env evs = [r]" by blast
    note st = step_waiting_fire[OF Waiting le, of env]
    show ?thesis
    proof (cases r)
      case None
      then have "journal (world (step env s)) = journal (world s) @ evs
        \<and> run_results env evs
          = replicate 1 None @ (case control (step env s) of Stopped e \<Rightarrow> [Some e] | Top \<Rightarrow> []
                                | Waiting nt nl ws \<Rightarrow> [])"
        using st ro td j rr today_journal[OF td] by simp
      then show ?thesis by blast
    next
      case (Some e)
      then have "journal (world (step env s)) = journal (world s) @ evs
        \<and> run_results env evs
          = replicate 0 None @ (case control (step env s) of Stopped e \<Rightarrow> [Some e] | Top \<Rightarrow> []
                                | Waiting nt nl ws \<Rightarrow> [])"
        using st ro j rr by simp
      then show ?thesis by blast
    qed
  qed
next
  case (Stopped e)
  with assms show ?thesis by (simp add: running_def)
qed

lemma step_run_raises:
  assumes "running s" "Run l c \<in> set (new_events s (step env s))" "run_result env c = Some e"
  shows "control (step env s) = Stopped e"
proof -
  from step_results[OF assms(1), of env] obtain evs k where
    j: "journal (world (step env s)) = journal (world s) @ evs"
    and r: "run_results env evs
         = replicate k None @ (case control (step env s) of Stopped e \<Rightarrow> [Some e] | Top \<Rightarrow> []
                                | Waiting nt nl ws \<Rightarrow> [])"
    by blast
  have "new_events s (step env s) = evs" by (simp add: new_events_def j)
  with assms(2) have "run_result env c \<in> set (run_results env evs)" by (simp add: run_results_mem)
  with assms(3) r show ?thesis
    by (cases "control (step env s)") auto
qed

lemma step_runs_return:
  assumes "running s" "\<forall>ev \<in> set (new_events s (step env s)). \<forall>l c. ev = Run l c \<longrightarrow> run_result env c = None"
  shows "running (step env s)"
proof -
  from step_results[OF assms(1), of env] obtain evs k where
    j: "journal (world (step env s)) = journal (world s) @ evs"
    and r: "run_results env evs
         = replicate k None @ (case control (step env s) of Stopped e \<Rightarrow> [Some e] | Top \<Rightarrow> []
                                | Waiting nt nl ws \<Rightarrow> [])"
    by blast
  have ne: "new_events s (step env s) = evs" by (simp add: new_events_def j)
  show ?thesis
  proof (cases "control (step env s)")
    case (Stopped e)
    with r have "Some e \<in> set (run_results env evs)" by simp
    from run_results_mem_conv[OF this] assms(2) ne show ?thesis by auto
  qed (simp_all add: running_def)
qed

lemma step_stopped_iff:
  assumes "running s"
  shows "control (step env s) = Stopped e
    \<longleftrightarrow> Some e \<in> set (run_results env (new_events s (step env s)))"
proof -
  from step_results[OF assms, of env] obtain evs k where
    j: "journal (world (step env s)) = journal (world s) @ evs"
    and r: "run_results env evs
         = replicate k None @ (case control (step env s) of Stopped e \<Rightarrow> [Some e] | Top \<Rightarrow> []
                                | Waiting nt nl ws \<Rightarrow> [])"
    by blast
  have ne: "new_events s (step env s) = evs" by (simp add: new_events_def j)
  show ?thesis
    unfolding ne r by (cases "control (step env s)") auto
qed

lemma step_all_return:
  assumes "running s" "list_all (\<lambda>r. r = None) (run_results env (new_events s (step env s)))"
  shows "running (step env s)"
proof (cases "control (step env s)")
  case (Stopped e)
  with step_stopped_iff[OF assms(1), of env e] assms(2) show ?thesis
    by (auto simp: list_all_iff)
qed (simp_all add: running_def)

section \<open>The order of a run and a failed measurement\<close>

lemma run_result_measure_fails:
  assumes "measure_speed (env_probes env c) = (evs, Inl e)"
  shows "run_result env c = Some e"
  using assms by (simp add: run_result_def run_once_def)

text \<open>
  Claim C3, as amended. A measurement leaves only probe, pause, fallback and executable
  events. When the measurement fails, \<open>run_once\<close> ends with its exception: after the
  measurement nothing else has happened and the log is untouched. Whenever a step of the
  scheduler fires a run whose measurement fails (the journal of the step holds the start
  of a run at a clock at which the measurement fails), from the catch-up loop for
  whichever slot or after the wait, the scheduler is stopped by that exception. When the
  measurement succeeds, \<open>run_once\<close> does, in this order: the measurement,
  \<open>ensure_log_header\<close> (which creates the file with its header when it is missing and
  appends no record), the posts of the submission engine, and then, only when the engine
  returns, the one append of the run, a row with the outcome; when the engine raises,
  \<open>run_once\<close> ends with that exception and no row.
\<close>

theorem run_once_order:
  "set (fst (measure_speed p)) \<subseteq> range Probe \<union> range Sleep \<union> {Fallback} \<union> range Exec
   \<and> (measure_speed (env_probes env (clock w)) = (evs, Inl e) \<longrightarrow>
        run_once env label w =
          (Some e, w\<lparr>clock := tick env Measuring (slept evs) (clock w),
                    journal := journal w @ [Run label (clock w)] @ evs\<rparr>))
   \<and> (measure_speed (env_probes env (clock w)) = (evs, Inr results)
        \<and> t = tick env Reading 0 (tick env Measuring (slept evs) (clock w))
        \<and> submit_official (env_identity env) (probe_repr (env_probes env (clock w)))
              (env_endpoint env t) results (env_strftime env t) = (tried, submitted) \<longrightarrow>
        run_once env label w =
          (case submitted of
             Inl e \<Rightarrow>
               (Some e,
                \<lparr>clock = tick env Submitting 0 t,
                 log_file = (case log_file w of None \<Rightarrow> Some [header_row] | Some rows \<Rightarrow> Some rows),
                 journal = journal w @ [Run label (clock w)] @ evs @ [Header]
                           @ map (\<lambda>c. Post (fst c) (snd c)) tried\<rparr>)
           | Inr r \<Rightarrow>
               (None,
                \<lparr>clock = tick env Submitting 0 t,
                 log_file = Some ((case log_file w of None \<Rightarrow> [header_row] | Some rows \<Rightarrow> rows)
                   @ [log_row (env_identity env) (probe_repr (env_probes env (clock w))) label
                        (env_strftime env t) results (fst r) (fst (snd r))
                        (fst (snd (snd (snd r)))) (snd (snd (snd (snd r))))]),
                 journal = journal w @ [Run label (clock w)] @ evs @ [Header]
                   @ map (\<lambda>c. Post (fst c) (snd c)) tried
                   @ [Append (log_row (env_identity env) (probe_repr (env_probes env (clock w))) label
                        (env_strftime env t) results (fst r) (fst (snd r))
                        (fst (snd (snd (snd r)))) (snd (snd (snd (snd r)))))]\<rparr>)))
   \<and> (running s \<and> Run l c \<in> set (new_events s (step env s))
        \<and> measure_speed (env_probes env c) = (evs', Inl e') \<longrightarrow>
        control (step env s) = Stopped e')
   \<and> (control s = Waiting nt nl ws \<and> ws \<le> 0
        \<and> measure_speed (env_probes env (clock (world s))) = (evs', Inl e') \<longrightarrow>
        control (step env s) = Stopped e'
        \<and> log_file (world (step env s)) = log_file (world s))"
proof -
  have c1: "set (fst (measure_speed p)) \<subseteq> range Probe \<union> range Sleep \<union> {Fallback} \<union> range Exec"
    by (rule measure_speed_events)
  have c2: "measure_speed (env_probes env (clock w)) = (evs, Inl e) \<longrightarrow>
        run_once env label w =
          (Some e, w\<lparr>clock := tick env Measuring (slept evs) (clock w),
                    journal := journal w @ [Run label (clock w)] @ evs\<rparr>)"
    using run_once_measure_fails by blast
  have c4: "running s \<and> Run l c \<in> set (new_events s (step env s))
        \<and> measure_speed (env_probes env c) = (evs', Inl e') \<longrightarrow>
        control (step env s) = Stopped e'"
    using step_run_raises run_result_measure_fails by blast
  have c5: "control s = Waiting nt nl ws \<and> ws \<le> 0
        \<and> measure_speed (env_probes env (clock (world s))) = (evs', Inl e') \<longrightarrow>
        control (step env s) = Stopped e'
        \<and> log_file (world (step env s)) = log_file (world s)"
  proof (intro impI, elim conjE)
    assume a: "control s = Waiting nt nl ws" "ws \<le> 0"
      and m: "measure_speed (env_probes env (clock (world s))) = (evs', Inl e')"
    show "control (step env s) = Stopped e' \<and> log_file (world (step env s)) = log_file (world s)"
      by (simp add: step_waiting_fire[OF a] run_once_measure_fails[OF m])
  qed
  show ?thesis
    apply (intro conjI)
        apply (rule c1)
       apply (rule c2)
      apply (intro impI, elim conjE, rule run_once_measured, assumption+)
     apply (rule c4)
    apply (rule c5)
    done
qed


lemma submit_rejecting:
  "submit_official (configured_identity ''PC'') example_repr endpoint_rejecting results ts
    = (ranked_combinations, Inr (False, Some 400, ''bad'', None, None))"
  by (simp add: submit_defs ranked_combinations_def endpoint_rejecting_def)

lemma run_once_failing:
  "run_once env_measure_fails label w =
     (Some (Exn RuntimeError ''speedtest CLI''),
      w\<lparr>clock := clock w + 171 / 2,
        journal := journal w @ [Run label (clock w), Probe 1, Sleep 20, Probe 2, Sleep (1 / 2), Sleep 5,
                  Probe 3, Sleep 60, Fallback, Exec ''speedtest'', Exec ''speedtest.exe'']\<rparr>)"
proof -
  have sel: "env_probes env_measure_fails = (\<lambda>c. probes_failing)"
     "env_elapse env_measure_fails = elapse_plain"
    by (simp_all add: env_measure_fails_def)
  show ?thesis
    by (simp add: run_once_def sel measure_failing tick_def elapse_plain_def slept_def)
qed

lemma step_second_slot_fails:
  "step env_measure_fails sched_after_first_slot =
     \<lparr>control = Stopped (Exn RuntimeError ''speedtest CLI''),
      last_run = (\<lambda>label. if label = ''07:00'' then Some 0 else None),
      world = \<lparr>clock = 48605 + 171 / 2, log_file = None,
               journal = [Run ''13:30'' 48605, Probe 1, Sleep 20, Probe 2, Sleep (1 / 2), Sleep 5,
                  Probe 3, Sleep 60, Fallback, Exec ''speedtest'', Exec ''speedtest.exe'']\<rparr>\<rparr>"
proof -
  have sel: "env_elapse env_measure_fails = elapse_plain"
    by (simp add: env_measure_fails_def)
  show ?thesis
    by (simp add: run_once_failing sched_after_first_slot_def step_def SCHEDULES_def now_def today_def
          tick_def sel elapse_plain_def date_of_def combine_def rat_floor)
qed

text \<open>
  A failed measurement at a firing after the wait and at a firing of the second slot from
  the catch-up loop, and a run whose six posts are all rejected.
\<close>

theorem run_once_order_witness:
  "fst (run_once env_measure_fails ''13:30'' world_morning) = Some (Exn RuntimeError ''speedtest CLI'')
   \<and> journal (snd (run_once env_measure_fails ''13:30'' world_morning)) =
       [Run ''13:30'' 25205, Probe 1, Sleep 20, Probe 2, Sleep (1 / 2), Sleep 5, Probe 3, Sleep 60,
        Fallback, Exec ''speedtest'', Exec ''speedtest.exe'']
   \<and> fst (run_once env_rejected ''07:00'' world_morning) = None
   \<and> journal (snd (run_once env_rejected ''07:00'' world_morning)) =
       [Run ''07:00'' 25205, Probe 1, Sleep (1 / 2), Header]
       @ map (\<lambda>c. Post (fst c) (snd c)) ranked_combinations
       @ [Append (log_row (configured_identity ''PC'') example_repr ''07:00'' ''2025-01-05 07:00:30''
                    (measurement_of example_raw) False (Some 400) None None)]
   \<and> control (step env_measure_fails
         \<lparr>control = Waiting 25200 ''07:00'' 0, last_run = (\<lambda>label. None), world = world_morning\<rparr>)
       = Stopped (Exn RuntimeError ''speedtest CLI'')
   \<and> Run ''13:30'' 48605 \<in> set (new_events sched_after_first_slot
         (step env_measure_fails sched_after_first_slot))
   \<and> control (step env_measure_fails sched_after_first_slot)
       = Stopped (Exn RuntimeError ''speedtest CLI'')"
proof -
  have m1: "measure_speed (env_probes env_measure_fails (clock world_morning)) =
     ([Probe 1, Sleep 20, Probe 2, Sleep (1 / 2), Sleep 5, Probe 3, Sleep 60, Fallback,
       Exec ''speedtest'', Exec ''speedtest.exe''], Inl (Exn RuntimeError ''speedtest CLI''))"
    by (simp add: env_measure_fails_def measure_failing)
  have m2: "measure_speed (env_probes env_rejected (clock world_morning)) =
     ([Probe 1, Sleep (1 / 2)], Inr (measurement_of example_raw))"
    by (simp add: env_rejected_def measure_fine)
  have t: "(25230::rat) = tick env_rejected Reading 0
              (tick env_rejected Measuring (slept [Probe 1, Sleep (1 / 2)]) (clock world_morning))"
    by (simp add: tick_def env_rejected_def elapse_plain_def slept_def world_morning_def)
  have s: "submit_official (env_identity env_rejected)
              (probe_repr (env_probes env_rejected (clock world_morning)))
              (env_endpoint env_rejected 25230) (measurement_of example_raw)
              (env_strftime env_rejected 25230)
           = (ranked_combinations, Inr (False, Some 400, ''bad'', None, None))"
    by (simp add: env_rejected_def probes_fine_def submit_rejecting)
  have w: "control \<lparr>control = Waiting 25200 ''07:00'' 0, last_run = (\<lambda>label. None), world = world_morning\<rparr>
             = Waiting 25200 ''07:00'' 0 \<and> (0::int) \<le> 0
           \<and> measure_speed (env_probes env_measure_fails
                 (clock (world \<lparr>control = Waiting 25200 ''07:00'' 0, last_run = (\<lambda>label. None),
                                 world = world_morning\<rparr>))) =
               ([Probe 1, Sleep 20, Probe 2, Sleep (1 / 2), Sleep 5, Probe 3, Sleep 60, Fallback,
                 Exec ''speedtest'', Exec ''speedtest.exe''], Inl (Exn RuntimeError ''speedtest CLI''))"
    using m1 by simp
  have fired: "Run ''13:30'' 48605 \<in> set (new_events sched_after_first_slot
         (step env_measure_fails sched_after_first_slot))"
    unfolding new_events_def step_second_slot_fails by (simp add: sched_after_first_slot_def)
  have w4: "running sched_after_first_slot
           \<and> Run ''13:30'' 48605 \<in> set (new_events sched_after_first_slot
                 (step env_measure_fails sched_after_first_slot))
           \<and> measure_speed (env_probes env_measure_fails 48605) =
               ([Probe 1, Sleep 20, Probe 2, Sleep (1 / 2), Sleep 5, Probe 3, Sleep 60, Fallback,
                 Exec ''speedtest'', Exec ''speedtest.exe''], Inl (Exn RuntimeError ''speedtest CLI''))"
    using fired by (simp add: running_def sched_after_first_slot_def env_measure_fails_def measure_failing)
  note a = run_once_order [where env = env_measure_fails and w = world_morning and label = "''13:30''",
      THEN conjunct2, THEN conjunct1, rule_format, OF m1]
  note b = run_once_order [where env = env_rejected and w = world_morning and label = "''07:00''",
      THEN conjunct2, THEN conjunct2, THEN conjunct1, rule_format, OF conjI [OF m2 conjI [OF t s]]]
  note d = run_once_order [where env = env_measure_fails, THEN conjunct2, THEN conjunct2,
      THEN conjunct2, THEN conjunct1, rule_format, OF w4]
  note c = run_once_order [where env = env_measure_fails, THEN conjunct2, THEN conjunct2,
      THEN conjunct2, THEN conjunct2, rule_format, OF w, THEN conjunct1]
  have sel: "env_identity env_rejected = configured_identity ''PC''"
      "\<And>c. probe_repr (env_probes env_rejected c) = example_repr"
      "env_strftime env_rejected 25230 = ''2025-01-05 07:00:30''"
    by (simp_all add: env_rejected_def probes_fine_def strftime_morning_def)
  have ab: "fst (run_once env_measure_fails ''13:30'' world_morning) = Some (Exn RuntimeError ''speedtest CLI'')
   \<and> journal (snd (run_once env_measure_fails ''13:30'' world_morning)) =
       [Run ''13:30'' 25205, Probe 1, Sleep 20, Probe 2, Sleep (1 / 2), Sleep 5, Probe 3, Sleep 60,
        Fallback, Exec ''speedtest'', Exec ''speedtest.exe'']
   \<and> fst (run_once env_rejected ''07:00'' world_morning) = None
   \<and> journal (snd (run_once env_rejected ''07:00'' world_morning)) =
       [Run ''07:00'' 25205, Probe 1, Sleep (1 / 2), Header]
       @ map (\<lambda>c. Post (fst c) (snd c)) ranked_combinations
       @ [Append (log_row (configured_identity ''PC'') example_repr ''07:00'' ''2025-01-05 07:00:30''
                    (measurement_of example_raw) False (Some 400) None None)]"
    unfolding a b by (simp add: sel world_morning_def)
  from ab c fired d show ?thesis by (intro conjI) (simp_all only:)
qed
section \<open>Errors of a run and the scheduler\<close>

lemma submit_official_invalid:
  assumes "\<not> valid_identity cfg"
  shows "\<exists>msg. submit_official cfg repr post results ts = ([], Inl (Exn ValueError msg))"
  using assms
  by (auto simp: valid_identity_def submit_official_def TEXT_MAPPING_TRIES_def HIDDEN_CANDIDATES_def
        try_submit_with_mapping_def attempt_payload_def build_payload_base_def posted_def)

lemma submit_official_mismatch:
  assumes "list_all (\<lambda>c. answered cfg repr post results ts c \<and> \<not> accepted cfg repr post results ts c)
             ranked_combinations"
  shows "\<exists>code pv. submit_official cfg repr post results ts
           = (ranked_combinations, Inr (False, code, pv, None, None))"
proof -
  define sc where "sc = scan cfg repr post results ts ranked_combinations (False, None, '''') []"
  have so: "submit_official cfg repr post results ts =
     (case sc of
        (tr, LoopReturn r) \<Rightarrow> (tr, Inr r)
      | (tr, LoopRaise e) \<Rightarrow> (tr, Inl e)
      | (tr, LoopDone l) \<Rightarrow> (tr, Inr (False, fst (snd l), snd (snd l), None, None)))"
    by (simp add: submit_official_def mapping_loop_scan sc_def ranked_combinations_def)
  have ans: "\<forall>x \<in> set ranked_combinations. answered cfg repr post results ts x"
    and nacc: "\<forall>x \<in> set ranked_combinations. \<not> accepted cfg repr post results ts x"
    using assms by (auto simp: list_all_iff)
  obtain tr le where sc: "sc = (tr, le)" by (cases sc)
  show ?thesis
  proof (cases le)
    case (LoopDone l)
    with scan_done[of cfg repr post results ts ranked_combinations "(False, None, '''')" "[]" tr l] sc
    have "tr = ranked_combinations" by (simp add: sc_def)
    with so sc LoopDone show ?thesis by simp
  next
    case (LoopRaise e)
    with scan_answered[OF ans, of "(False, None, '''')" "[]" e] sc show ?thesis by (simp add: sc_def)
  next
    case (LoopReturn r)
    from scan_return[of cfg repr post results ts ranked_combinations "(False, None, '''')" "[]" tr r]
    obtain pre c status pv where
      h: "prefix (pre @ [c]) ranked_combinations"
         "try_submit_with_mapping cfg repr post (fst c) (snd c) results ts = Inr (True, status, pv)"
      using sc LoopReturn by (auto simp: sc_def)
    have "c \<in> set ranked_combinations" using h(1) by (auto dest: set_mono_prefix)
    moreover have "accepted cfg repr post results ts c" using h(2) by (simp add: accepted_try)
    ultimately show ?thesis using nacc by blast
  qed
qed

lemma step_stopped: "control s = Stopped e \<Longrightarrow> step env s = s"
  by (simp add: step_def)

lemma run_scheduler_stopped: "control s = Stopped e \<Longrightarrow> run_scheduler env n s = s"
  unfolding run_scheduler_def by (induction n) (simp_all add: step_stopped)

lemma run_scheduler_Suc: "run_scheduler env (Suc n) s = run_scheduler env n (step env s)"
  by (simp add: run_scheduler_def funpow_swap1)

lemma appended_rows_append: "appended_rows (xs @ ys) = appended_rows xs @ appended_rows ys"
  by (induction xs rule: appended_rows.induct) simp_all

lemma appended_rows_none:
  "\<forall>ev \<in> set evs. \<forall>row. ev \<noteq> Append row \<Longrightarrow> appended_rows evs = []"
  by (induction evs rule: appended_rows.induct) simp_all

lemma records_run_raises:
  assumes "fst (run_once env label w) = Some e"
  shows "records (snd (run_once env label w)) = records w"
proof -
  obtain evs measured where m: "measure_speed (env_probes env (clock w)) = (evs, measured)"
    by (cases "measure_speed (env_probes env (clock w))")
  have ev: "appended_rows evs = []"
    using measure_speed_events[of "env_probes env (clock w)"] m
    by (intro appended_rows_none) auto
  have post: "\<And>tried. appended_rows (map (\<lambda>c. Post (fst c) (snd c)) tried) = []"
    by (intro appended_rows_none) auto
  show ?thesis
  proof (cases measured)
    case (Inl e')
    with m show ?thesis
      by (simp add: run_once_measure_fails records_def appended_rows_append ev)
  next
    case (Inr results)
    define t where "t = tick env Reading 0 (tick env Measuring (slept evs) (clock w))"
    obtain tried submitted where s: "submit_official (env_identity env) (probe_repr (env_probes env (clock w)))
              (env_endpoint env t) results (env_strftime env t) = (tried, submitted)"
      by (cases "submit_official (env_identity env) (probe_repr (env_probes env (clock w)))
              (env_endpoint env t) results (env_strftime env t)")
    note r = run_once_measured[OF m[unfolded Inr] t_def s, of label]
    show ?thesis
    proof (cases submitted)
      case (Inl e')
      then show ?thesis
        by (simp add: r records_def appended_rows_append ev post)
    next
      case (Inr q)
      with r assms show ?thesis by simp
    qed
  qed
qed


lemma run_result_invalid:
  assumes m: "measure_speed (env_probes env c) = (evs, Inr results)"
    and v: "\<not> valid_identity (env_identity env)"
  shows "\<exists>msg. run_result env c = Some (Exn ValueError msg)"
proof -
  define w where "w = \<lparr>clock = c, log_file = None, journal = []\<rparr>"
  define tt where "tt = tick env Reading 0 (tick env Measuring (slept evs) (clock w))"
  have m': "measure_speed (env_probes env (clock w)) = (evs, Inr results)"
    using m by (simp add: w_def)
  from submit_official_invalid[OF v] obtain msg where
    s: "submit_official (env_identity env) (probe_repr (env_probes env (clock w)))
            (env_endpoint env tt) results (env_strftime env tt) = ([], Inl (Exn ValueError msg))"
    by blast
  have "fst (run_once env [] w) = Some (Exn ValueError msg)"
    by (simp add: run_once_measured[OF m' tt_def s])
  then show ?thesis by (auto simp: run_result_def w_def)
qed

lemma run_results_posts: "run_results env (map (\<lambda>c. Post (fst c) (snd c)) cs) = []"
  by (intro run_results_none) auto

text \<open>
  Claim C4, as amended. Neither \<open>run_once\<close> nor the scheduler loop has a handler. A
  measurement failure leaves \<open>run_once\<close> as its exception with the log untouched; a
  validation error leaves it as a \<open>ValueError\<close> after a successful measurement, with
  no record appended. How a run ends depends on the clock at which it starts only. A
  running scheduler is stopped by a step with an exception exactly when a run fired in
  that step ends with that exception, whether the run was fired from the catch-up loop,
  for whichever slot, or after the wait: so it is after a run whose measurement fails or
  whose identity is invalid; and a stopped scheduler stays stopped. Only a submission
  mismatch, where every combination is answered and none accepted, becomes a record:
  \<open>run_once\<close> returns after appending the row whose outcome is \<open>FAIL\<close> with the
  last status code. When every run fired in a step returns, the scheduler is still
  running after the step.
\<close>

theorem run_errors_stop_scheduler:
  "(measure_speed (env_probes env (clock w)) = (evs, Inl e) \<longrightarrow>
      fst (run_once env label w) = Some e
      \<and> log_file (snd (run_once env label w)) = log_file w)
   \<and> (measure_speed (env_probes env (clock w)) = (evs, Inr results)
        \<and> \<not> valid_identity (env_identity env) \<longrightarrow>
      (\<exists>msg. fst (run_once env label w) = Some (Exn ValueError msg))
      \<and> records (snd (run_once env label w)) = records w)
   \<and> fst (run_once env label w) = run_result env (clock w)
   \<and> (running s \<longrightarrow>
        (control (step env s) = Stopped e'
           \<longleftrightarrow> Some e' \<in> set (run_results env (new_events s (step env s)))))
   \<and> (running s \<and> Run l c \<in> set (new_events s (step env s)) \<and> run_result env c = Some e' \<longrightarrow>
      control (step env s) = Stopped e')
   \<and> (running s \<and> Run l c \<in> set (new_events s (step env s))
        \<and> measure_speed (env_probes env c) = (evs, Inl e) \<longrightarrow>
      control (step env s) = Stopped e)
   \<and> (running s \<and> Run l c \<in> set (new_events s (step env s))
        \<and> measure_speed (env_probes env c) = (evs, Inr results)
        \<and> \<not> valid_identity (env_identity env) \<longrightarrow>
      (\<exists>msg. control (step env s) = Stopped (Exn ValueError msg)))
   \<and> (control s = Stopped e' \<longrightarrow> run_scheduler env n s = s)
   \<and> (measure_speed (env_probes env (clock w)) = (evs, Inr results)
        \<and> t' = tick env Reading 0 (tick env Measuring (slept evs) (clock w))
        \<and> list_all (\<lambda>c. answered (env_identity env) (probe_repr (env_probes env (clock w)))
                            (env_endpoint env t') results (env_strftime env t') c
                        \<and> \<not> accepted (env_identity env) (probe_repr (env_probes env (clock w)))
                            (env_endpoint env t') results (env_strftime env t') c)
             ranked_combinations \<longrightarrow>
      fst (run_once env label w) = None
      \<and> (\<exists>code. journal (snd (run_once env label w)) =
            journal w @ [Run label (clock w)] @ evs @ [Header]
            @ map (\<lambda>c. Post (fst c) (snd c)) ranked_combinations
            @ [Append (log_row (env_identity env) (probe_repr (env_probes env (clock w))) label
                         (env_strftime env t') results False code None None)]))
   \<and> (running s \<and> list_all (\<lambda>r. r = None) (run_results env (new_events s (step env s))) \<longrightarrow>
      running (step env s))"
proof -
  have c1: "measure_speed (env_probes env (clock w)) = (evs, Inl e) \<longrightarrow>
      fst (run_once env label w) = Some e
      \<and> log_file (snd (run_once env label w)) = log_file w"
    by (simp add: run_once_measure_fails)
  have c2: "measure_speed (env_probes env (clock w)) = (evs, Inr results)
        \<and> \<not> valid_identity (env_identity env) \<longrightarrow>
      (\<exists>msg. fst (run_once env label w) = Some (Exn ValueError msg))
      \<and> records (snd (run_once env label w)) = records w"
  proof (intro impI, elim conjE)
    assume m: "measure_speed (env_probes env (clock w)) = (evs, Inr results)"
      and v: "\<not> valid_identity (env_identity env)"
    define tt where "tt = tick env Reading 0 (tick env Measuring (slept evs) (clock w))"
    from submit_official_invalid[OF v] obtain msg where
      s: "submit_official (env_identity env) (probe_repr (env_probes env (clock w)))
              (env_endpoint env tt) results (env_strftime env tt) = ([], Inl (Exn ValueError msg))"
      by blast
    have "fst (run_once env label w) = Some (Exn ValueError msg)"
      by (simp add: run_once_measured[OF m tt_def s])
    then show "(\<exists>msg. fst (run_once env label w) = Some (Exn ValueError msg))
      \<and> records (snd (run_once env label w)) = records w"
      using records_run_raises by blast
  qed
  have c3: "fst (run_once env label w) = run_result env (clock w)"
    by (rule run_once_result)
  have c4: "running s \<longrightarrow>
        (control (step env s) = Stopped e'
           \<longleftrightarrow> Some e' \<in> set (run_results env (new_events s (step env s))))"
    using step_stopped_iff by blast
  have c5: "running s \<and> Run l c \<in> set (new_events s (step env s)) \<and> run_result env c = Some e' \<longrightarrow>
      control (step env s) = Stopped e'"
    using step_run_raises by blast
  have c6: "running s \<and> Run l c \<in> set (new_events s (step env s))
        \<and> measure_speed (env_probes env c) = (evs, Inl e) \<longrightarrow>
      control (step env s) = Stopped e"
    using step_run_raises run_result_measure_fails by blast
  have c7: "running s \<and> Run l c \<in> set (new_events s (step env s))
        \<and> measure_speed (env_probes env c) = (evs, Inr results)
        \<and> \<not> valid_identity (env_identity env) \<longrightarrow>
      (\<exists>msg. control (step env s) = Stopped (Exn ValueError msg))"
  proof (intro impI, elim conjE)
    assume r: "running s" and f: "Run l c \<in> set (new_events s (step env s))"
      and m: "measure_speed (env_probes env c) = (evs, Inr results)"
      and v: "\<not> valid_identity (env_identity env)"
    from run_result_invalid[OF m v] obtain msg where "run_result env c = Some (Exn ValueError msg)"
      by blast
    from step_run_raises[OF r f this] show "\<exists>msg. control (step env s) = Stopped (Exn ValueError msg)"
      by blast
  qed
  have c8: "control s = Stopped e' \<longrightarrow> run_scheduler env n s = s"
    using run_scheduler_stopped by blast
  have c9: "measure_speed (env_probes env (clock w)) = (evs, Inr results)
        \<and> t' = tick env Reading 0 (tick env Measuring (slept evs) (clock w))
        \<and> list_all (\<lambda>c. answered (env_identity env) (probe_repr (env_probes env (clock w)))
                            (env_endpoint env t') results (env_strftime env t') c
                        \<and> \<not> accepted (env_identity env) (probe_repr (env_probes env (clock w)))
                            (env_endpoint env t') results (env_strftime env t') c)
             ranked_combinations \<longrightarrow>
      fst (run_once env label w) = None
      \<and> (\<exists>code. journal (snd (run_once env label w)) =
            journal w @ [Run label (clock w)] @ evs @ [Header]
            @ map (\<lambda>c. Post (fst c) (snd c)) ranked_combinations
            @ [Append (log_row (env_identity env) (probe_repr (env_probes env (clock w))) label
                         (env_strftime env t') results False code None None)])"
  proof (intro impI, elim conjE)
    assume m: "measure_speed (env_probes env (clock w)) = (evs, Inr results)"
      and tt: "t' = tick env Reading 0 (tick env Measuring (slept evs) (clock w))"
      and l: "list_all (\<lambda>c. answered (env_identity env) (probe_repr (env_probes env (clock w)))
                            (env_endpoint env t') results (env_strftime env t') c
                        \<and> \<not> accepted (env_identity env) (probe_repr (env_probes env (clock w)))
                            (env_endpoint env t') results (env_strftime env t') c)
             ranked_combinations"
    from submit_official_mismatch[OF l] obtain code pv where
      s: "submit_official (env_identity env) (probe_repr (env_probes env (clock w)))
              (env_endpoint env t') results (env_strftime env t')
          = (ranked_combinations, Inr (False, code, pv, None, None))"
      by blast
    show "fst (run_once env label w) = None
      \<and> (\<exists>code. journal (snd (run_once env label w)) =
            journal w @ [Run label (clock w)] @ evs @ [Header]
            @ map (\<lambda>c. Post (fst c) (snd c)) ranked_combinations
            @ [Append (log_row (env_identity env) (probe_repr (env_probes env (clock w))) label
                         (env_strftime env t') results False code None None)])"
      apply (simp add: run_once_measured[OF m tt s])
      apply (rule exI[of _ code])
      apply (rule refl)
      done
  qed
  have c10: "running s \<and> list_all (\<lambda>r. r = None) (run_results env (new_events s (step env s))) \<longrightarrow>
      running (step env s)"
    using step_all_return by blast
  from c1 c2 c3 c4 c5 c6 c7 c8 c9 c10 show ?thesis by (intro conjI)
qed

text \<open>
  Claim C4, where it fails. The sector of the identity is not in the enumeration. The
  first firing measures, creates the log file with its header and then raises the
  \<open>ValueError\<close> of the validation out of \<open>run_once\<close> and out of the loop: after
  five steps the scheduler is still stopped by that error, and no record has been
  appended.
\<close>

theorem validation_error_stops_scheduler:
  "control (run_scheduler env_bad_sector 5 (loop_scheduler world_morning))
     = Stopped (Exn ValueError ''Invalid sector'')
   \<and> log_file (world (run_scheduler env_bad_sector 5 (loop_scheduler world_morning)))
     = Some [header_row]
   \<and> records (world (run_scheduler env_bad_sector 5 (loop_scheduler world_morning))) = []"
proof -
  have sel: "env_probes env_bad_sector = (\<lambda>c. probes_fine)"
     "env_elapse env_bad_sector = elapse_plain"
     "SCHOOL_SECTOR (env_identity env_bad_sector) = ''Seeb''"
    by (simp_all add: env_bad_sector_def)
  have bad: "''Seeb'' \<notin> set ALLOWED_SECTORS"
    by (simp add: ALLOWED_SECTORS_def sector_seeb_def)
  have sub: "\<And>repr post results ts.
      submit_official (env_identity env_bad_sector) repr post results ts
        = ([], Inl (Exn ValueError ''Invalid sector''))"
    by (simp add: submit_official_def TEXT_MAPPING_TRIES_def HIDDEN_CANDIDATES_def
        try_submit_with_mapping_def attempt_payload_def build_payload_base_def posted_def sel bad)
  have r: "\<And>label w. run_once env_bad_sector label w =
     (Some (Exn ValueError ''Invalid sector''),
      \<lparr>clock = clock w + 27,
       log_file = (case log_file w of None \<Rightarrow> Some [header_row] | Some rows \<Rightarrow> Some rows),
       journal = journal w @ [Run label (clock w), Probe 1, Sleep (1 / 2), Header]\<rparr>)"
    by (simp add: run_once_def sel measure_fine sub tick_def elapse_plain_def slept_def now_def
          ensure_log_header_def Let_def)
  have s1: "step env_bad_sector (loop_scheduler world_morning) =
      \<lparr>control = Stopped (Exn ValueError ''Invalid sector''), last_run = (\<lambda>label. None),
       world = \<lparr>clock = 25232, log_file = Some [header_row],
                journal = [Run ''07:00'' 25205, Probe 1, Sleep (1 / 2), Header]\<rparr>\<rparr>"
    by (simp add: r world_morning_def loop_scheduler_def step_def SCHEDULES_def now_def today_def
          tick_def sel elapse_plain_def date_of_def combine_def rat_floor)
  have "run_scheduler env_bad_sector 5 (loop_scheduler world_morning) =
      run_scheduler env_bad_sector 4 (step env_bad_sector (loop_scheduler world_morning))"
    using run_scheduler_Suc[of env_bad_sector 4 "loop_scheduler world_morning"] by simp
  also have "\<dots> = \<lparr>control = Stopped (Exn ValueError ''Invalid sector''), last_run = (\<lambda>label. None),
       world = \<lparr>clock = 25232, log_file = Some [header_row],
                journal = [Run ''07:00'' 25205, Probe 1, Sleep (1 / 2), Header]\<rparr>\<rparr>"
    unfolding s1 by (rule run_scheduler_stopped) simp
  finally show ?thesis by (simp add: records_def)
qed


lemma run_once_bad_sector:
  "run_once env_bad_sector label w =
     (Some (Exn ValueError ''Invalid sector''),
      \<lparr>clock = clock w + 27,
       log_file = (case log_file w of None \<Rightarrow> Some [header_row] | Some rows \<Rightarrow> Some rows),
       journal = journal w @ [Run label (clock w), Probe 1, Sleep (1 / 2), Header]\<rparr>)"
proof -
  have sel: "env_probes env_bad_sector = (\<lambda>c. probes_fine)"
     "env_elapse env_bad_sector = elapse_plain"
     "SCHOOL_SECTOR (env_identity env_bad_sector) = ''Seeb''"
    by (simp_all add: env_bad_sector_def)
  have bad: "''Seeb'' \<notin> set ALLOWED_SECTORS"
    by (simp add: ALLOWED_SECTORS_def sector_seeb_def)
  have sub: "\<And>repr post results ts.
      submit_official (env_identity env_bad_sector) repr post results ts
        = ([], Inl (Exn ValueError ''Invalid sector''))"
    by (simp add: submit_official_def TEXT_MAPPING_TRIES_def HIDDEN_CANDIDATES_def
        try_submit_with_mapping_def attempt_payload_def build_payload_base_def posted_def sel bad)
  show ?thesis
    by (simp add: run_once_def sel measure_fine sub tick_def elapse_plain_def slept_def now_def
          ensure_log_header_def Let_def)
qed

lemma step_second_slot_invalid:
  "step env_bad_sector sched_after_first_slot =
     \<lparr>control = Stopped (Exn ValueError ''Invalid sector''),
      last_run = (\<lambda>label. if label = ''07:00'' then Some 0 else None),
      world = \<lparr>clock = 48632, log_file = Some [header_row],
               journal = [Run ''13:30'' 48605, Probe 1, Sleep (1 / 2), Header]\<rparr>\<rparr>"
proof -
  have sel: "env_elapse env_bad_sector = elapse_plain"
    by (simp add: env_bad_sector_def)
  show ?thesis
    by (simp add: run_once_bad_sector sched_after_first_slot_def step_def SCHEDULES_def now_def
          today_def tick_def sel elapse_plain_def date_of_def combine_def rat_floor)
qed

lemma run_once_rejected:
  "run_once env_rejected label w =
     (None,
      \<lparr>clock = clock w + 27,
       log_file = Some ((case log_file w of None \<Rightarrow> [header_row] | Some rows \<Rightarrow> rows)
          @ [log_row (configured_identity ''PC'') example_repr label (strftime_morning (clock w + 25))
               (measurement_of example_raw) False (Some 400) None None]),
       journal = journal w @ [Run label (clock w), Probe 1, Sleep (1 / 2), Header]
          @ map (\<lambda>c. Post (fst c) (snd c)) ranked_combinations
          @ [Append (log_row (configured_identity ''PC'') example_repr label
               (strftime_morning (clock w + 25)) (measurement_of example_raw) False (Some 400)
               None None)]\<rparr>)"
proof -
  have sel: "env_probes env_rejected = (\<lambda>c. probes_fine)"
     "env_elapse env_rejected = elapse_plain"
     "env_identity env_rejected = configured_identity ''PC''"
     "env_endpoint env_rejected = (\<lambda>c. endpoint_rejecting)"
     "env_strftime env_rejected = strftime_morning"
    by (simp_all add: env_rejected_def)
  have rp: "probe_repr probes_fine = example_repr" by (simp add: probes_fine_def)
  show ?thesis
    by (cases w)
       (simp add: run_once_def sel rp measure_fine submit_rejecting tick_def elapse_plain_def
          slept_def now_def ensure_log_header_def append_log_def Let_def split: option.splits)
qed

lemma step_first_slot_rejected:
  "step env_rejected (loop_scheduler world_morning) =
     \<lparr>control = Top, last_run = (\<lambda>label. None)(''07:00'' := Some 0),
      world = \<lparr>clock = 25262,
         log_file = Some [header_row,
            log_row (configured_identity ''PC'') example_repr ''07:00'' ''2025-01-05 07:00:30''
               (measurement_of example_raw) False (Some 400) None None],
         journal = [Run ''07:00'' 25205, Probe 1, Sleep (1 / 2), Header]
            @ map (\<lambda>c. Post (fst c) (snd c)) ranked_combinations
            @ [Append (log_row (configured_identity ''PC'') example_repr ''07:00''
                 ''2025-01-05 07:00:30'' (measurement_of example_raw) False (Some 400) None None),
               Sleep 30]\<rparr>\<rparr>"
proof -
  have sel: "env_elapse env_rejected = elapse_plain"
    by (simp add: env_rejected_def)
  show ?thesis
    by (simp add: run_once_rejected loop_scheduler_def world_morning_def step_def SCHEDULES_def
          now_def today_def sleep_def tick_def sel elapse_plain_def date_of_def combine_def rat_floor
          strftime_morning_def)
qed

text \<open>
  A failed measurement and an invalid identity, each at a firing after the wait and at a
  firing of the second slot from the catch-up loop; a stopped scheduler; and a morning on
  which the endpoint rejects all six posts: the run is recorded as a failure with status
  400 and the scheduler is still running, at the head of its loop.
\<close>

theorem run_errors_stop_scheduler_witness:
  "fst (run_once env_measure_fails ''07:00'' world_morning) = Some (Exn RuntimeError ''speedtest CLI'')
   \<and> log_file (snd (run_once env_measure_fails ''07:00'' world_morning)) = None
   \<and> (\<exists>msg. fst (run_once env_bad_sector ''07:00'' world_morning) = Some (Exn ValueError msg))
   \<and> records (snd (run_once env_bad_sector ''07:00'' world_morning)) = []
   \<and> fst (run_once env_bad_sector ''07:00'' world_morning) = run_result env_bad_sector 25205
   \<and> control (step env_measure_fails
         \<lparr>control = Waiting 25200 ''07:00'' 0, last_run = (\<lambda>label. None), world = world_morning\<rparr>)
       = Stopped (Exn RuntimeError ''speedtest CLI'')
   \<and> Run ''13:30'' 48605 \<in> set (new_events sched_after_first_slot
         (step env_measure_fails sched_after_first_slot))
   \<and> control (step env_measure_fails sched_after_first_slot)
       = Stopped (Exn RuntimeError ''speedtest CLI'')
   \<and> Run ''13:30'' 48605 \<in> set (new_events sched_after_first_slot
         (step env_bad_sector sched_after_first_slot))
   \<and> (\<exists>msg. control (step env_bad_sector sched_after_first_slot) = Stopped (Exn ValueError msg))
   \<and> run_scheduler env_rejected 3
         \<lparr>control = Stopped (Exn RuntimeError ''speedtest CLI''), last_run = (\<lambda>label. None),
          world = world_morning\<rparr>
       = \<lparr>control = Stopped (Exn RuntimeError ''speedtest CLI''), last_run = (\<lambda>label. None),
          world = world_morning\<rparr>
   \<and> fst (run_once env_rejected ''13:30'' world_morning) = None
   \<and> run_results env_rejected (new_events (loop_scheduler world_morning)
         (step env_rejected (loop_scheduler world_morning))) = [None]
   \<and> running (step env_rejected (loop_scheduler world_morning))
   \<and> appended_rows (journal (world (step env_rejected (loop_scheduler world_morning))))
       = [log_row (configured_identity ''PC'') example_repr ''07:00'' ''2025-01-05 07:00:30''
            (measurement_of example_raw) False (Some 400) None None]"
proof -
  note t = run_errors_stop_scheduler
  have m1: "measure_speed (env_probes env_measure_fails (clock world_morning)) =
     ([Probe 1, Sleep 20, Probe 2, Sleep (1 / 2), Sleep 5, Probe 3, Sleep 60, Fallback,
       Exec ''speedtest'', Exec ''speedtest.exe''], Inl (Exn RuntimeError ''speedtest CLI''))"
    by (simp add: env_measure_fails_def measure_failing)
  note a = t [where env = env_measure_fails and w = world_morning and label = "''07:00''",
      THEN conjunct1, rule_format, OF m1]
  have a1: "fst (run_once env_measure_fails ''07:00'' world_morning) = Some (Exn RuntimeError ''speedtest CLI'')"
    using a by simp
  have a2: "log_file (snd (run_once env_measure_fails ''07:00'' world_morning)) = None"
    using a by (simp add: world_morning_def)
  have m2: "measure_speed (env_probes env_bad_sector (clock world_morning)) =
     ([Probe 1, Sleep (1 / 2)], Inr (measurement_of example_raw))
     \<and> \<not> valid_identity (env_identity env_bad_sector)"
    by (simp add: env_bad_sector_def measure_fine valid_identity_def ALLOWED_SECTORS_def sector_seeb_def)
  note b = t [where env = env_bad_sector and w = world_morning and label = "''07:00''",
      THEN conjunct2, THEN conjunct1, rule_format, OF m2]
  have b1: "\<exists>msg. fst (run_once env_bad_sector ''07:00'' world_morning) = Some (Exn ValueError msg)"
    using b by simp
  have b2: "records (snd (run_once env_bad_sector ''07:00'' world_morning)) = []"
    using b by (simp add: records_def world_morning_def)
  have b3: "fst (run_once env_bad_sector ''07:00'' world_morning) = run_result env_bad_sector 25205"
    using t [where env = env_bad_sector and w = world_morning and label = "''07:00''",
      THEN conjunct2, THEN conjunct2, THEN conjunct1]
    by (simp add: world_morning_def)
  have rw: "running \<lparr>control = Waiting 25200 ''07:00'' 0, last_run = (\<lambda>label. None), world = world_morning\<rparr>"
    by (simp add: running_def)
  have stw: "step env_measure_fails
         \<lparr>control = Waiting 25200 ''07:00'' 0, last_run = (\<lambda>label. None), world = world_morning\<rparr>
       = \<lparr>control = Stopped (Exn RuntimeError ''speedtest CLI''), last_run = (\<lambda>label. None),
          world = snd (run_once env_measure_fails ''07:00'' world_morning)\<rparr>"
    by (simp add: step_def run_once_failing)
  have firedw: "Run ''07:00'' 25205 \<in> set (new_events
            \<lparr>control = Waiting 25200 ''07:00'' 0, last_run = (\<lambda>label. None), world = world_morning\<rparr>
            (step env_measure_fails
               \<lparr>control = Waiting 25200 ''07:00'' 0, last_run = (\<lambda>label. None), world = world_morning\<rparr>))"
    unfolding stw new_events_def by (simp add: run_once_failing world_morning_def)
  have m1': "measure_speed (env_probes env_measure_fails 25205) =
     ([Probe 1, Sleep 20, Probe 2, Sleep (1 / 2), Sleep 5, Probe 3, Sleep 60, Fallback,
       Exec ''speedtest'', Exec ''speedtest.exe''], Inl (Exn RuntimeError ''speedtest CLI''))"
    by (simp add: env_measure_fails_def measure_failing)
  note w3 = conjI [OF rw conjI [OF firedw m1']]
  note c = t [where env = env_measure_fails, THEN conjunct2, THEN conjunct2, THEN conjunct2,
      THEN conjunct2, THEN conjunct2, THEN conjunct1, rule_format, OF w3]
  have rs: "running sched_after_first_slot"
    by (simp add: running_def sched_after_first_slot_def)
  have fired: "Run ''13:30'' 48605 \<in> set (new_events sched_after_first_slot
         (step env_measure_fails sched_after_first_slot))"
    unfolding new_events_def step_second_slot_fails by (simp add: sched_after_first_slot_def)
  have rr1: "run_result env_measure_fails 48605 = Some (Exn RuntimeError ''speedtest CLI'')"
    by (simp add: run_result_def run_once_failing)
  note d = t [where env = env_measure_fails, THEN conjunct2, THEN conjunct2, THEN conjunct2,
      THEN conjunct2, THEN conjunct1, rule_format, OF conjI [OF rs conjI [OF fired rr1]]]
  have fired2: "Run ''13:30'' 48605 \<in> set (new_events sched_after_first_slot
         (step env_bad_sector sched_after_first_slot))"
    unfolding new_events_def step_second_slot_invalid by (simp add: sched_after_first_slot_def)
  have m3: "measure_speed (env_probes env_bad_sector 48605) =
     ([Probe 1, Sleep (1 / 2)], Inr (measurement_of example_raw))
     \<and> \<not> valid_identity (env_identity env_bad_sector)"
    by (simp add: env_bad_sector_def measure_fine valid_identity_def ALLOWED_SECTORS_def sector_seeb_def)
  note e = t [where env = env_bad_sector, THEN conjunct2, THEN conjunct2, THEN conjunct2,
      THEN conjunct2, THEN conjunct2, THEN conjunct2, THEN conjunct1, rule_format,
      OF conjI [OF rs conjI [OF fired2 m3]]]
  have w5: "control \<lparr>control = Stopped (Exn RuntimeError ''speedtest CLI''), last_run = (\<lambda>label. None),
          world = world_morning\<rparr> = Stopped (Exn RuntimeError ''speedtest CLI'')"
    by simp
  note f = t [where env = env_rejected and n = 3, THEN conjunct2, THEN conjunct2, THEN conjunct2,
      THEN conjunct2, THEN conjunct2, THEN conjunct2, THEN conjunct2, THEN conjunct1, rule_format, OF w5]
  have sel6: "env_identity env_rejected = configured_identity ''PC''"
      "\<And>c. probe_repr (env_probes env_rejected c) = example_repr"
      "\<And>c. env_endpoint env_rejected c = endpoint_rejecting"
      "\<And>c. env_probes env_rejected c = probes_fine"
    by (simp_all add: env_rejected_def probes_fine_def)
  have la: "\<And>ts. list_all (\<lambda>c. answered (configured_identity ''PC'') example_repr endpoint_rejecting
                       (measurement_of example_raw) ts c
                     \<and> \<not> accepted (configured_identity ''PC'') example_repr endpoint_rejecting
                       (measurement_of example_raw) ts c) ranked_combinations"
    by (simp add: answered_try accepted_try submit_defs ranked_combinations_def endpoint_rejecting_def)
  have w6: "measure_speed (env_probes env_rejected (clock world_morning)) =
       ([Probe 1, Sleep (1 / 2)], Inr (measurement_of example_raw))
     \<and> (25230::rat) = tick env_rejected Reading 0
          (tick env_rejected Measuring (slept [Probe 1, Sleep (1 / 2)]) (clock world_morning))
     \<and> list_all (\<lambda>c. answered (env_identity env_rejected)
                          (probe_repr (env_probes env_rejected (clock world_morning)))
                          (env_endpoint env_rejected 25230) (measurement_of example_raw)
                          (env_strftime env_rejected 25230) c
                      \<and> \<not> accepted (env_identity env_rejected)
                          (probe_repr (env_probes env_rejected (clock world_morning)))
                          (env_endpoint env_rejected 25230) (measurement_of example_raw)
                          (env_strftime env_rejected 25230) c)
           ranked_combinations"
  proof -
    have rp: "probe_repr probes_fine = example_repr" by (simp add: probes_fine_def)
    show ?thesis
      unfolding sel6 using la
      by (simp add: measure_fine tick_def env_rejected_def elapse_plain_def slept_def
            world_morning_def rp)
  qed
  note g = t [where env = env_rejected and w = world_morning and label = "''13:30''",
      THEN conjunct2, THEN conjunct2, THEN conjunct2, THEN conjunct2, THEN conjunct2,
      THEN conjunct2, THEN conjunct2, THEN conjunct2, THEN conjunct1,
      rule_format, OF w6, THEN conjunct1]
  have rl: "running (loop_scheduler world_morning)"
    by (simp add: running_def loop_scheduler_def)
  have rrs: "run_results env_rejected (new_events (loop_scheduler world_morning)
         (step env_rejected (loop_scheduler world_morning))) = [None]"
    unfolding new_events_def step_first_slot_rejected
    by (simp add: loop_scheduler_def world_morning_def run_results_append run_results_posts
          run_result_def run_once_rejected)
  have all: "list_all (\<lambda>r. r = None) (run_results env_rejected (new_events (loop_scheduler world_morning)
         (step env_rejected (loop_scheduler world_morning))))"
    unfolding rrs by simp
  note h = t [where env = env_rejected, THEN conjunct2, THEN conjunct2, THEN conjunct2,
      THEN conjunct2, THEN conjunct2, THEN conjunct2, THEN conjunct2, THEN conjunct2, THEN conjunct2,
      rule_format, OF conjI [OF rl all]]
  have rows: "appended_rows (journal (world (step env_rejected (loop_scheduler world_morning))))
       = [log_row (configured_identity ''PC'') example_repr ''07:00'' ''2025-01-05 07:00:30''
            (measurement_of example_raw) False (Some 400) None None]"
    unfolding step_first_slot_rejected
    by (simp add: appended_rows_append appended_rows_none)
  from a1 a2 b1 b2 b3 c fired d fired2 e f g rrs h rows show ?thesis
    by (intro conjI)
qed
section \<open>The scheduler across a suspension\<close>

lemma submit_fine:
  "submit_official (configured_identity ''PC'') example_repr (\<lambda>p. Response 200 ''ok'') results ts
    = ([(TEXT_MAPPING_TRIES ! 0, [])], Inr (True, Some 200, ''ok'', Some (TEXT_MAPPING_TRIES ! 0), Some []))"
  by (simp add: submit_defs)

lemma run_once_fine:
  "run_once (env_suspended fmt) label w =
     (None, \<lparr>clock = clock w + 27,
             log_file = Some ((case log_file w of None \<Rightarrow> [header_row] | Some rows \<Rightarrow> rows)
                @ [log_row (configured_identity ''PC'') example_repr label (fmt (clock w + 25))
                     (measurement_of example_raw) True (Some 200) (Some (TEXT_MAPPING_TRIES ! 0)) (Some [])]),
             journal = journal w @ [Run label (clock w), Probe 1, Sleep (1 / 2), Header,
                Post (TEXT_MAPPING_TRIES ! 0) [], 
                Append (log_row (configured_identity ''PC'') example_repr label (fmt (clock w + 25))
                     (measurement_of example_raw) True (Some 200) (Some (TEXT_MAPPING_TRIES ! 0)) (Some []))]\<rparr>)"
proof -
  have r: "probe_repr probes_fine = example_repr" by (simp add: probes_fine_def)
  show ?thesis
    by (cases w) (simp add: run_once_def env_suspended_def measure_fine submit_fine r tick_def
        elapse_suspended_def slept_def now_def ensure_log_header_def append_log_def Let_def
        split: option.splits)
qed


lemma env_suspended_sel:
  "env_elapse (env_suspended fmt) = elapse_suspended"
  "env_strftime (env_suspended fmt) = fmt"
  by (simp_all add: env_suspended_def)

lemmas sched_defs = step_def SCHEDULES_def now_def today_def sleep_def tick_def env_suspended_sel
  elapse_suspended_def date_of_def combine_def py_int_def next_dt_for_def run_once_fine Let_def rat_floor

text \<open>
  Claim C6, at a failing input. The scheduler starts at 20:00:00 on day 0 and catches up
  both slots. While it sleeps towards 07:00 of day 1 the host is suspended, until
  06:59:00 on day 3. On resume the inner loop ends and \<open>run_once\<close> is called for the
  label it was waiting for, whatever the day: the slot \<open>07:00\<close> fires at 06:59:00 and
  is marked as run on day 3. The instant 07:00 of day 3 still lies ahead, so it is chosen
  as the next instant, and the same slot fires again at 07:00:00: two firings and two
  records of \<open>07:00\<close> on day 3, in one process.
\<close>

theorem slot_fires_twice_after_suspend:
  "runs (world (run_scheduler (env_suspended fmt) 7 (loop_scheduler world_evening)))
     = [Run ''07:00'' 72000, Run ''13:30'' 72027, Run ''07:00'' 284340, Run ''07:00'' 284400]
   \<and> date_of 284340 = 3 \<and> date_of 284400 = 3
   \<and> records (world (run_scheduler (env_suspended fmt) 7 (loop_scheduler world_evening)))
     = [(JStr (fmt 72025), JStr ''07:00''), (JStr (fmt 72052), JStr ''13:30''),
        (JStr (fmt 284365), JStr ''07:00''), (JStr (fmt 284425), JStr ''07:00'')]"
  by (simp add: run_scheduler_def numeral_eq_Suc sched_defs loop_scheduler_def world_evening_def
        runs_def records_def log_row_def)

section \<open>The wake cycle after a suspension\<close>





















lemma catch_up_returns:
  assumes rr: "\<forall>label w. fst (run_once env label w) = None"
  shows "fst (catch_up env t slots lr ra w) = None"
proof (induction slots arbitrary: lr ra w)
  case Nil
  then show ?case by simp
next
  case (Cons slot rest)
  obtain label h m where slot: "slot = (label, h, m)" by (cases slot)
  show ?case
    using rr Cons.IH
    by (auto simp: slot split: prod.splits option.splits) (metis fst_conv option.distinct(1))
qed


















end
